theory Spec2Isabelle
  imports Complex_Main
begin

section \<open>Values the scripts handle\<close>

text \<open>
  The repository is a set of command-line scripts that talk to a Solana RPC node and to
  the Drift SDK. Everything outside the scripts (the file system, the environment, the
  RPC node, the SDK) is a parameter of the model: a \<open>world\<close> says what each
  external call answers, and a script is a function from the world to the trace of what
  it printed and called, together with how it ended.

  A public key is modelled by its base58 text, so that \<open>a.equals(b)\<close> is equality
  and \<open>toBase58()\<close> is the identity.
\<close>

type_synonym pubkey = string

text \<open>
  A thrown JavaScript value: its message, its \<open>logs\<close> property when it is an array
  (the on-chain program log lines), and whether it is an instance of
  \<open>SendTransactionError\<close>.
\<close>

datatype jserror =
  JSError (message: string) (logs: "string list option") (isSendTransactionError: bool)

definition Error :: "string \<Rightarrow> jserror" where
  "Error m = JSError m None False"

definition TypeError :: "string \<Rightarrow> jserror" where
  "TypeError m = JSError (''TypeError: '' @ m) None False"

datatype keypair = Keypair (publicKey: pubkey)

record blockhash_info =
  blockhash :: string
  lastValidBlockHeight :: nat

text \<open>
  What \<open>confirmTransaction\<close> resolves to: the slot of the response and the
  \<open>value.err\<close> field, which the node sets when the transaction failed on chain.
\<close>

record confirmation =
  conf_slot :: nat
  conf_err :: "string option"

record state_account =
  admin :: pubkey
  signer :: pubkey
  numberOfMarkets :: int
  numberOfSpotMarkets :: int
  exchangeStatus :: int

record account_info =
  data_length :: nat
  owner :: pubkey

record spot_market_account =
  sm_mint :: pubkey
  sm_oracle :: pubkey
  sm_oracleSource :: string
  sm_status :: string

text \<open>The data of a parsed account: raw bytes, or a parsed mint with its decimals.\<close>

datatype account_data = RawData | ParsedData (decimals: int)

record account_meta =
  meta_pubkey :: pubkey
  isSigner :: bool
  isWritable :: bool

datatype instruction =
  Instruction (ix_programId: pubkey) (ix_keys: "account_meta list") (ix_data: "nat list")

record transaction =
  instructions :: "instruction list"
  feePayer :: "pubkey option"
  recentBlockhash :: "string option"
  signatures :: "pubkey list"

definition new_Transaction :: transaction where
  "new_Transaction = \<lparr>instructions = [], feePayer = None, recentBlockhash = None, signatures = []\<rparr>"

definition add :: "instruction list \<Rightarrow> transaction \<Rightarrow> transaction" where
  "add ixs tx = tx\<lparr>instructions := instructions tx @ ixs\<rparr>"

definition sign :: "keypair \<Rightarrow> transaction \<Rightarrow> transaction" where
  "sign kp tx = tx\<lparr>signatures := [publicKey kp]\<rparr>"

record send_opts =
  skipPreflight :: bool
  preflightCommitment :: "string option"

text \<open>The options the mint script passes to \<open>sendAndConfirmTransaction\<close>.\<close>

record confirm_opts =
  sc_skipPreflight :: bool
  sc_commitment :: string
  sc_preflightCommitment :: string

text \<open>
  \<open>confirmTransaction\<close> is called either with the signature alone or with a strategy
  object (blockhash, last valid block height, signature).
\<close>

datatype confirm_arg =
    BySignature string
  | ByStrategy string nat string

text \<open>
  Values printed by \<open>console.log\<close> and passed as the long argument lists of the
  SDK's instruction builders. A JavaScript number is a \<open>rat\<close>: the scripts only use
  finite literals and compare them, and on those the order of doubles is the order of
  the fractions they denote.
\<close>

datatype jsval =
    Str string
  | Num rat
  | Bool bool
  | Undefined
  | BN int
  | Key pubkey
  | Enum string
  | StrList "string list"
  | ErrV jserror
  | ConfV confirmation

text \<open>\<open>BN.divn\<close> divides rounding towards zero.\<close>

definition divn :: "int \<Rightarrow> int \<Rightarrow> int" where
  "divn a n = sgn a * sgn n * (\<bar>a\<bar> div \<bar>n\<bar>)"

section \<open>The trace of a run\<close>

text \<open>
  Every call on the connection or on the SDK client is recorded with its arguments.
  \<open>GetLatestBlockhash\<close> also records what the call resolved to, since the
  transactions built afterwards are compared with it.
\<close>

datatype call =
    Subscribe
  | Unsubscribe
  | GetStateAccount
  | GetStatePublicKey
  | GetDriftStateAccountPublicKey pubkey
  | FetchState pubkey
  | FetchAccounts
  | GetAccountInfo pubkey
  | GetParsedAccountInfo pubkey
  | GetSpotMarketPublicKey pubkey nat
  | GetPerpMarketPublicKey pubkey nat
  | GetSpotMarketAccount nat
  | GetPerpMarketAccount nat
  | GetLatestBlockhash "jserror + blockhash_info"
  | GetInitializeSpotMarketIx "jsval list"
  | GetInitializePerpMarketIx "jsval list"
  | GetInitializePredictionMarketIx int
  | GetInitializeUserAccountIxs
  | GetPlacePerpOrderIx "(string \<times> jsval) list" nat
  | UpdateAdmin pubkey
  | SendTransaction transaction "pubkey list" "send_opts option"
  | ConfirmTransaction confirm_arg "string option"
  | GetMinimumBalanceForRentExemptMint
  | SendAndConfirmTransaction transaction "pubkey list" confirm_opts

datatype event =
    ConsoleLog "jsval list"
  | ConsoleWarn "jsval list"
  | ConsoleError "jsval list"
  | Call call

section \<open>The world outside the scripts\<close>

text \<open>
  Constants of the SDK and of web3.js that the scripts import. Their values are not in
  the repository, so they are parameters.
\<close>

record sdk_constants =
  SYSVAR_RENT_PUBKEY :: pubkey
  SystemProgram_programId :: pubkey
  TOKEN_PROGRAM_ID :: pubkey
  PublicKey_default :: pubkey
  SPOT_MARKET_WEIGHT_PRECISION :: int
  PRICE_PRECISION :: int
  BASE_PRECISION :: int
  PEG_PRECISION :: int
  ONE :: int
  ZERO :: int
  MintLayout_span :: nat

text \<open>
  The process environment, the file system and the local library functions that can
  throw. \<open>keypairFromJson\<close> stands for \<open>JSON.parse\<close> followed by
  \<open>Keypair.fromSecretKey\<close> on the file's text; \<open>newPublicKey\<close> is the
  \<open>PublicKey\<close> constructor, whose argument is undefined when a variable read with
  \<open>process.env.X!\<close> is unset. \<open>library_ix\<close> stands for the instruction
  builders of web3.js and spl-token, by their name and arguments.
  \<open>newConnection\<close> is the \<open>Connection\<close> constructor applied to an endpoint
  read from the environment, and \<open>newAdminClient\<close> the \<open>AdminClient\<close>
  constructor applied to a cluster name read from the environment; both open no
  connection, and both throw when they do not know their argument. Where a script
  passes them literals (\<open>"https://api.devnet.solana.com"\<close>, no cluster name) they
  do not throw and are left out.
\<close>

record host =
  env :: "string \<Rightarrow> string option"
  homedir :: string
  dirname :: string
  path_join :: "string \<Rightarrow> string option \<Rightarrow> jserror + string"
  path_resolve :: "string list \<Rightarrow> string"
  existsSync :: "string \<Rightarrow> bool"
  readFileSync :: "string \<Rightarrow> jserror + string"
  keypairFromJson :: "string \<Rightarrow> jserror + keypair"
  newPublicKey :: "string option \<Rightarrow> jserror + pubkey"
  findProgramAddressSync :: "string \<Rightarrow> pubkey \<Rightarrow> jserror + (pubkey \<times> nat)"
  getUserAccountPublicKeySync :: "pubkey \<Rightarrow> pubkey \<Rightarrow> jserror + pubkey"
  dotenv_config :: "string \<Rightarrow> jserror + string list option"
  clusterApiUrl :: "string \<Rightarrow> string"
  date_now :: int
  Keypair_generate :: keypair
  getAssociatedTokenAddress :: "pubkey \<Rightarrow> pubkey \<Rightarrow> jserror + pubkey"
  library_ix :: "string \<Rightarrow> jsval list \<Rightarrow> instruction"
  newConnection :: "string \<Rightarrow> jserror + unit"
  newAdminClient :: "string \<Rightarrow> jserror + unit"

text \<open>
  What each call on the connection or the client answers: \<open>Inl\<close> is a rejected
  promise (or a thrown exception), \<open>Inr\<close> the value. A call made several times in
  one script is indexed by its occurrence, so that two fetches may differ.
\<close>

record chain =
  subscribe_r :: "jserror + unit"
  unsubscribe_r :: "jserror + unit"
  getStateAccount_r :: "jserror + state_account option"
  getStatePublicKey_r :: "jserror + pubkey"
  getDriftStateAccountPublicKey_r :: "jserror + pubkey"
  fetchState_r :: "nat \<Rightarrow> jserror + state_account option"
  fetchAccounts_r :: "jserror + unit"
  getAccountInfo_r :: "nat \<Rightarrow> jserror + account_info option"
  getParsedAccountInfo_r :: "jserror + account_data option"
  getSpotMarketPublicKey_r :: "jserror + pubkey"
  getPerpMarketPublicKey_r :: "jserror + pubkey"
  getSpotMarketAccount_r :: "jserror + spot_market_account option"
  getPerpMarketAccount_r :: "jserror + unit option"
  getLatestBlockhash_r :: "nat \<Rightarrow> jserror + blockhash_info"
  getInitializeSpotMarketIx_r :: "jserror + instruction"
  getInitializePerpMarketIx_r :: "jserror + instruction"
  getInitializePredictionMarketIx_r :: "jserror + instruction"
  getInitializeUserAccountIxs_r :: "jserror + (instruction list \<times> pubkey)"
  getPlacePerpOrderIx_r :: "jserror + instruction"
  updateAdmin_r :: "jserror + string"
  sendTransaction_r :: "nat \<Rightarrow> jserror + string"
  confirmTransaction_r :: "nat \<Rightarrow> jserror + confirmation"
  getMinimumBalanceForRentExemptMint_r :: "jserror + nat"
  sendAndConfirmTransaction_r :: "nat \<Rightarrow> jserror + string"

record world =
  sdk :: sdk_constants
  hst :: host
  rpc :: chain

section \<open>Sequencing, exceptions and cleanup\<close>

text \<open>
  A computation yields the events it produced and either the exception it threw
  (\<open>Inl\<close>) or its value (\<open>Inr\<close>). \<open>bind\<close> is \<open>await\<close>/sequencing: an
  exception skips what follows. \<open>try_catch\<close> and \<open>try_finally\<close> are the
  JavaScript statements: the handler runs on an exception of the body, the finaliser
  runs in every case and its own exception replaces the body's outcome.
\<close>

type_synonym 'a run = "event list \<times> (jserror + 'a)"

definition trace :: "'a run \<Rightarrow> event list" where
  "trace m = fst m"

definition outcome :: "'a run \<Rightarrow> jserror + 'a" where
  "outcome m = snd m"

definition ret :: "'a \<Rightarrow> 'a run" where
  "ret x = ([], Inr x)"

definition throw :: "jserror \<Rightarrow> 'a run" where
  "throw e = ([], Inl e)"

definition bind :: "'a run \<Rightarrow> ('a \<Rightarrow> 'b run) \<Rightarrow> 'b run" where
  "bind m f =
     (case m of
        (t, Inl e) \<Rightarrow> (t, Inl e)
      | (t, Inr x) \<Rightarrow> (case f x of (t', r) \<Rightarrow> (t @ t', r)))"

definition seq :: "unit run \<Rightarrow> 'b run \<Rightarrow> 'b run" where
  "seq m n = bind m (\<lambda>_. n)"

definition try_catch :: "'a run \<Rightarrow> (jserror \<Rightarrow> 'a run) \<Rightarrow> 'a run" where
  "try_catch m h =
     (case m of
        (t, Inl e) \<Rightarrow> (case h e of (t', r) \<Rightarrow> (t @ t', r))
      | (t, Inr x) \<Rightarrow> (t, Inr x))"

definition try_finally :: "'a run \<Rightarrow> unit run \<Rightarrow> 'a run" where
  "try_finally m fin =
     (case m of (t, r) \<Rightarrow>
        (case fin of
           (t', Inl e') \<Rightarrow> (t @ t', Inl e')
         | (t', Inr _) \<Rightarrow> (t @ t', r)))"

text \<open>A local library call that may throw, and a recorded call on the connection or client.\<close>

definition local :: "jserror + 'a \<Rightarrow> 'a run" where
  "local r = ([], r)"

definition call :: "call \<Rightarrow> jserror + 'a \<Rightarrow> 'a run" where
  "call c r = ([Call c], r)"

definition console_log :: "jsval list \<Rightarrow> unit run" where
  "console_log args = ([ConsoleLog args], Inr ())"

definition console_warn :: "jsval list \<Rightarrow> unit run" where
  "console_warn args = ([ConsoleWarn args], Inr ())"

definition console_error :: "jsval list \<Rightarrow> unit run" where
  "console_error args = ([ConsoleError args], Inr ())"

definition js_when :: "bool \<Rightarrow> unit run \<Rightarrow> unit run" where
  "js_when c m = (if c then m else ret ())"

text \<open>A sequence of statements: they run in order, and an exception ends the sequence.\<close>

fun block :: "unit run list \<Rightarrow> unit run" where
  "block [] = ret ()"
| "block (m # ms) = seq m (block ms)"

text \<open>
  The end of a script. \<open>main().catch(console.error)\<close> prints a rejection and lets
  the process end normally, with status 0; so does a \<open>main\<close> that resolves.
\<close>

definition catch_console_error :: "unit run \<Rightarrow> event list \<times> nat" where
  "catch_console_error m =
     (case m of
        (t, Inl e) \<Rightarrow> (t @ [ConsoleError [ErrV e]], 0)
      | (t, Inr _) \<Rightarrow> (t, 0))"

section \<open>Steps shared by the scripts\<close>

text \<open>
  \<open>JSON.parse(fs.readFileSync(path.join(os.homedir(), process.env.ADMIN_PRIVATE_KEY_PATH!), "utf-8"))\<close>
  followed by \<open>Keypair.fromSecretKey(new Uint8Array(keypairData))\<close>.
\<close>

definition load_keypair_home :: "world \<Rightarrow> keypair run" where
  "load_keypair_home w =
     bind (local (path_join (hst w) (homedir (hst w)) (env (hst w) ''ADMIN_PRIVATE_KEY_PATH''))) (\<lambda>p.
     bind (local (readFileSync (hst w) p)) (\<lambda>txt.
     local (keypairFromJson (hst w) txt)))"

text \<open>The same with the fixed path \<open>path.join(__dirname, "../keypair.json")\<close>.\<close>

definition load_keypair_dirname :: "world \<Rightarrow> keypair run" where
  "load_keypair_dirname w =
     bind (local (path_join (hst w) (dirname (hst w)) (Some ''../keypair.json''))) (\<lambda>p.
     bind (local (readFileSync (hst w) p)) (\<lambda>txt.
     local (keypairFromJson (hst w) txt)))"

definition getLatestBlockhash :: "world \<Rightarrow> nat \<Rightarrow> blockhash_info run" where
  "getLatestBlockhash w i =
     call (GetLatestBlockhash (getLatestBlockhash_r (rpc w) i)) (getLatestBlockhash_r (rpc w) i)"

section \<open>initialize-program.ts\<close>

definition INITIALIZE_DISCRIMINATOR :: "nat list" where
  "INITIALIZE_DISCRIMINATOR = [175, 175, 109, 31, 13, 152, 155, 237]"

definition initializeIx :: "world \<Rightarrow> keypair \<Rightarrow> pubkey \<Rightarrow> pubkey \<Rightarrow> pubkey \<Rightarrow> pubkey \<Rightarrow> instruction" where
  "initializeIx w keypair programId stateAccount usdcMint driftSigner =
     Instruction programId
       [\<lparr>meta_pubkey = publicKey keypair, isSigner = True, isWritable = True\<rparr>,
        \<lparr>meta_pubkey = stateAccount, isSigner = False, isWritable = True\<rparr>,
        \<lparr>meta_pubkey = usdcMint, isSigner = False, isWritable = False\<rparr>,
        \<lparr>meta_pubkey = driftSigner, isSigner = False, isWritable = False\<rparr>,
        \<lparr>meta_pubkey = SYSVAR_RENT_PUBKEY (sdk w), isSigner = False, isWritable = False\<rparr>,
        \<lparr>meta_pubkey = SystemProgram_programId (sdk w), isSigner = False, isWritable = False\<rparr>,
        \<lparr>meta_pubkey = TOKEN_PROGRAM_ID (sdk w), isSigner = False, isWritable = False\<rparr>]
       INITIALIZE_DISCRIMINATOR"

text \<open>The \<open>try\<close> statement that sends the transaction, and its handler.\<close>

definition initialize_try :: "world \<Rightarrow> keypair \<Rightarrow> transaction \<Rightarrow> unit run" where
  "initialize_try w keypair tx =
     bind (call (SendTransaction tx [publicKey keypair]
                   (Some \<lparr>skipPreflight = False, preflightCommitment = None\<rparr>))
                (sendTransaction_r (rpc w) 0)) (\<lambda>txSig.
     seq (block [console_log [Str ''Transaction sent:'', Str txSig],
                 console_log [Str ''Waiting for confirmation...'']]) (
     bind (call (ConfirmTransaction (BySignature txSig) None) (confirmTransaction_r (rpc w) 0)) (\<lambda>confirmation.
     block [console_log [Str ''Transaction confirmed!'', ConfV confirmation],
            console_log [Str ''Program initialized successfully!'']])))"

definition initialize_catch :: "jserror \<Rightarrow> unit run" where
  "initialize_catch error =
     block [console_error [Str ''Transaction failed:'', ErrV error],
            (case logs error of
               Some ls \<Rightarrow> js_when (isSendTransactionError error)
                            (console_error [Str ''Transaction logs:'', StrList ls])
             | None \<Rightarrow> ret ()),
            throw error]"

definition main_initialize :: "world \<Rightarrow> unit run" where
  "main_initialize w =
     bind (load_keypair_home w) (\<lambda>keypair.
     seq (console_log [Str ''Your wallet public key:'', Str (publicKey keypair)]) (
     bind (local (newPublicKey (hst w) (env (hst w) ''PROGRAM_ID''))) (\<lambda>programId.
     bind (local (newPublicKey (hst w) (env (hst w) ''USDC_MINT''))) (\<lambda>usdcMint.
     bind (local (findProgramAddressSync (hst w) ''drift_signer'' programId)) (\<lambda>(driftSigner, driftSignerNonce).
     bind (local (findProgramAddressSync (hst w) ''drift_state'' programId)) (\<lambda>(stateAccount, stateBump).
     seq (block [console_log [Str ''State Account:'', Str stateAccount],
                 console_log [Str ''Drift Signer:'', Str driftSigner],
                 console_log [Str ''Building transaction...'']]) (
     bind (getLatestBlockhash w 0) (\<lambda>latest.
     let tx = (add [initializeIx w keypair programId stateAccount usdcMint driftSigner] new_Transaction)
                \<lparr>feePayer := Some (publicKey keypair), recentBlockhash := Some (blockhash latest)\<rparr>
     in
     seq (console_log [Str ''Sending transaction...'']) (
     try_catch (initialize_try w keypair tx) initialize_catch)))))))))"

definition script_initialize :: "world \<Rightarrow> event list \<times> nat" where
  "script_initialize w = catch_console_error (main_initialize w)"

section \<open>create-spot-market.ts\<close>

text \<open>
  Reading a property of a value that may be undefined: JavaScript throws a
  \<open>TypeError\<close> when it is.
\<close>

definition prop_of :: "string \<Rightarrow> 'a option \<Rightarrow> ('a \<Rightarrow> 'b) \<Rightarrow> 'b run" where
  "prop_of name obj sel =
     (case obj of
        None \<Rightarrow> throw (TypeError (''Cannot read properties of undefined (reading '' @ name @ '')''))
      | Some x \<Rightarrow> ret (sel x))"

text \<open>The inner \<open>try\<close> statement that sends the transaction, and its handler.\<close>

definition spot_send_try :: "world \<Rightarrow> keypair \<Rightarrow> transaction \<Rightarrow> send_opts \<Rightarrow> unit run" where
  "spot_send_try w keypair tx opts =
     bind (call (SendTransaction tx [publicKey keypair] (Some opts)) (sendTransaction_r (rpc w) 0)) (\<lambda>txSig.
     seq (block [console_log [Str ''Transaction sent:'', Str txSig],
                 console_log [Str ''Waiting for confirmation...'']]) (
     bind (call (ConfirmTransaction (BySignature txSig) None) (confirmTransaction_r (rpc w) 0)) (\<lambda>confirmation.
     block [console_log [Str ''Transaction confirmed!'', ConfV confirmation],
            console_log [Str ''USDC spot market initialized!'']])))"

definition spot_send_catch :: "jserror \<Rightarrow> unit run" where
  "spot_send_catch error =
     block [console_error [Str ''Transaction failed:'', ErrV error],
            js_when (isSendTransactionError error)
              (console_error [Str ''Error details:'', Str (message error)]),
            throw error]"

definition spot_try :: "world \<Rightarrow> keypair \<Rightarrow> unit run" where
  "spot_try w keypair =
     bind (call Subscribe (subscribe_r (rpc w))) (\<lambda>_.
     bind (call GetStateAccount (getStateAccount_r (rpc w))) (\<lambda>state.
     bind (prop_of ''numberOfMarkets'' state numberOfMarkets) (\<lambda>marketIndex.
     seq (console_log [Str ''USDC spot market index:'', Num (of_int marketIndex)]) (
     bind (local (newPublicKey (hst w) (Some ''4zMMC9srt5Ri5X14GAgXhaHii3GnPAEERYPJgZJDncDU''))) (\<lambda>usdcMint.
     let usdcOracle = PublicKey_default (sdk w) in
     seq (block [console_log [Str ''Initializing spot market with parameters:''],
                 console_log [Str ''- Market Index:'', Num (of_int marketIndex)],
                 console_log [Str ''- USDC Mint:'', Str usdcMint],
                 console_log [Str ''- Oracle:'', Str usdcOracle],
                 console_log [Str ''- Oracle Source: QUOTE_ASSET'']]) (
     bind (call (GetInitializeSpotMarketIx
                  [Key usdcMint, Num (8 / 10), Num (1 / 10), Num (2 / 10), Key usdcOracle,
                   Enum ''OracleSource.QUOTE_ASSET'', Num 1, Num 1, Num 1, Num 1,
                   Num 0, Num 0, Num 0, Bool True, Enum ''AssetTier.COLLATERAL'',
                   BN (ZERO (sdk w)), BN (ZERO (sdk w)),
                   BN (divn (PRICE_PRECISION (sdk w)) 100000),
                   BN (divn (BASE_PRECISION (sdk w)) 10000),
                   Num 0, Str ''U'', Num (of_int marketIndex)])
                (getInitializeSpotMarketIx_r (rpc w))) (\<lambda>ixs.
     seq (console_log [Str ''Building transaction...'']) (
     bind (getLatestBlockhash w 0) (\<lambda>latest.
     let tx = (add [ixs] new_Transaction)
                \<lparr>feePayer := Some (publicKey keypair), recentBlockhash := Some (blockhash latest)\<rparr>
     in
     seq (console_log [Str ''Sending transaction...'']) (
     try_catch
       (spot_send_try w keypair tx \<lparr>skipPreflight = False, preflightCommitment = Some ''confirmed''\<rparr>)
       spot_send_catch))))))))))"

definition main_spot :: "world \<Rightarrow> unit run" where
  "main_spot w =
     bind (load_keypair_dirname w) (\<lambda>keypair.
     bind (local (newPublicKey (hst w) (Some ''EpNqZ7KyCuW9yJb7hNAvqchB6S5oSCNpQhpmnNZDYwUJ''))) (\<lambda>programID.
     try_finally
       (try_catch (spot_try w keypair)
          (\<lambda>error. console_error [Str ''Error:'', ErrV error]))
       (call Unsubscribe (unsubscribe_r (rpc w)))))"

definition script_spot :: "world \<Rightarrow> event list \<times> nat" where
  "script_spot w = catch_console_error (main_spot w)"

section \<open>create-user.ts\<close>

text \<open>
  The second script of the file whose first script is the admin update.
  \<open>getInitializeUserAccountIxs\<close> resolves to a pair, and the script adds the
  instructions of its first component.
\<close>

definition user_try :: "world \<Rightarrow> keypair \<Rightarrow> unit run" where
  "user_try w keypair =
     bind (call Subscribe (subscribe_r (rpc w))) (\<lambda>_.
     bind (call GetInitializeUserAccountIxs (getInitializeUserAccountIxs_r (rpc w))) (\<lambda>ixs.
     bind (getLatestBlockhash w 0) (\<lambda>latest.
     let tx = (add (fst ixs) new_Transaction)
                \<lparr>feePayer := Some (publicKey keypair), recentBlockhash := Some (blockhash latest)\<rparr>
     in
     bind (call (SendTransaction tx [publicKey keypair]
                   (Some \<lparr>skipPreflight = True, preflightCommitment = None\<rparr>))
                (sendTransaction_r (rpc w) 0)) (\<lambda>txSig.
     seq (console_log [Str ''Waiting for confirmation...'']) (
     bind (call (ConfirmTransaction (BySignature txSig) None) (confirmTransaction_r (rpc w) 0)) (\<lambda>_.
     block [console_log [Str ''Transaction confirmed!''],
            console_log [Str ''User created!'', Str txSig]]))))))"

definition main_user :: "world \<Rightarrow> unit run" where
  "main_user w =
     bind (load_keypair_dirname w) (\<lambda>keypair.
     bind (local (newPublicKey (hst w) (Some ''EpNqZ7KyCuW9yJb7hNAvqchB6S5oSCNpQhpmnNZDYwUJ''))) (\<lambda>programID.
     try_finally
       (try_catch (user_try w keypair)
          (\<lambda>error. console_error [Str ''Error initializing user:'', ErrV error]))
       (call Unsubscribe (unsubscribe_r (rpc w)))))"

definition script_user :: "world \<Rightarrow> event list \<times> nat" where
  "script_user w = catch_console_error (main_user w)"

section \<open>create-perp-market.ts\<close>

text \<open>
  The script checks that the state account exists and subscribes the client before its
  \<open>try\<close> statement begins; the perp market is then created and converted to a
  prediction market by two transactions.
\<close>

definition perp_convert :: "world \<Rightarrow> keypair \<Rightarrow> int \<Rightarrow> unit run" where
  "perp_convert w keypair marketIndex =
     bind (call (GetInitializePredictionMarketIx marketIndex)
                (getInitializePredictionMarketIx_r (rpc w))) (\<lambda>predictionIx.
     bind (getLatestBlockhash w 1) (\<lambda>latest.
     let predictionTx = (add [predictionIx] new_Transaction)
                \<lparr>feePayer := Some (publicKey keypair), recentBlockhash := Some (blockhash latest)\<rparr>
     in
     seq (console_log [Str ''Transaction built:'']) (
     bind (call (SendTransaction predictionTx [publicKey keypair] None)
                (sendTransaction_r (rpc w) 1)) (\<lambda>predictionTxSig.
     seq (console_log [Str ''Waiting for confirmation...'']) (
     bind (call (ConfirmTransaction (BySignature predictionTxSig) None)
                (confirmTransaction_r (rpc w) 1)) (\<lambda>_.
     block [console_log [Str ''Transaction confirmed!''],
            console_log [Str ''Converted to prediction market:'', Str predictionTxSig]]))))))"

definition perp_try :: "world \<Rightarrow> keypair \<Rightarrow> unit run" where
  "perp_try w keypair =
     bind (call GetStateAccount (getStateAccount_r (rpc w))) (\<lambda>state.
     bind (prop_of ''numberOfMarkets'' state numberOfMarkets) (\<lambda>marketIndex.
     seq (console_log [Str ''Current number of markets:'', Num (of_int marketIndex)]) (
     bind (local (newPublicKey (hst w) (Some ''FgBGHNex4urrBmNbSj8ntNQDGqeHcWewKtkvL6JE6dEX''))) (\<lambda>priceOracle.
     let baseAssetReserve = BN 1000000000;
         quoteAssetReserve = BN 1000000000;
         periodicity = BN 3600
     in
     bind (call (GetInitializePerpMarketIx
                  [Num (of_int marketIndex), Key priceOracle, baseAssetReserve, quoteAssetReserve,
                   periodicity, BN (PEG_PRECISION (sdk w)), Enum ''OracleSource.PYTH_PULL'',
                   Enum ''ContractTier.SPECULATIVE'', Num 2000, Num 500, Num 0, Num 10000, Num 0,
                   Bool False, Num 0, Num 142500, BN (ZERO (sdk w)), BN (ZERO (sdk w)),
                   BN (ZERO (sdk w)),
                   BN (divn (BASE_PRECISION (sdk w)) 10000),
                   BN (divn (PRICE_PRECISION (sdk w)) 100000),
                   BN (divn (BASE_PRECISION (sdk w)) 10000),
                   BN (ONE (sdk w)), Num 0, Num 0, Str ''Dummy-PREDICTION-MARKET''])
                (getInitializePerpMarketIx_r (rpc w))) (\<lambda>ixs.
     seq (console_log [Str ''Building transaction...'']) (
     bind (getLatestBlockhash w 0) (\<lambda>latest.
     let tx = (add [ixs] new_Transaction)
                \<lparr>feePayer := Some (publicKey keypair), recentBlockhash := Some (blockhash latest)\<rparr>
     in
     seq (console_log [Str ''Transaction built:'']) (
     let tx = sign keypair tx in
     seq (console_log [Str ''Sending transaction...'']) (
     bind (call (SendTransaction tx [publicKey keypair]
                   (Some \<lparr>skipPreflight = False, preflightCommitment = Some ''confirmed''\<rparr>))
                (sendTransaction_r (rpc w) 0)) (\<lambda>txSig.
     seq (console_log [Str ''Waiting for confirmation...'']) (
     bind (call (ConfirmTransaction (BySignature txSig) None) (confirmTransaction_r (rpc w) 0)) (\<lambda>_.
     seq (console_log [Str ''Transaction confirmed!'', Str txSig]) (
     perp_convert w keypair marketIndex)))))))))))))"

definition main_perp :: "world \<Rightarrow> unit run" where
  "main_perp w =
     bind (load_keypair_home w) (\<lambda>keypair.
     seq (console_log [Str ''Your wallet public key:'', Str (publicKey keypair)]) (
     bind (local (newPublicKey (hst w) (env (hst w) ''PROGRAM_ID''))) (\<lambda>programId.
     bind (call GetStatePublicKey (getStatePublicKey_r (rpc w))) (\<lambda>statePublicKey.
     bind (call (GetAccountInfo statePublicKey) (getAccountInfo_r (rpc w) 0)) (\<lambda>stateAccount.
     seq (case stateAccount of
            None \<Rightarrow> throw (Error (''State account does not exist at: '' @ statePublicKey
                                   @ ''. Please run initialize-program.ts first.''))
          | Some _ \<Rightarrow> ret ()) (
     bind (call Subscribe (subscribe_r (rpc w))) (\<lambda>_.
     try_finally
       (try_catch (perp_try w keypair)
          (\<lambda>error. console_error [Str ''Error:'', ErrV error]))
       (call Unsubscribe (unsubscribe_r (rpc w))))))))))"

definition script_perp :: "world \<Rightarrow> event list \<times> nat" where
  "script_perp w = catch_console_error (main_perp w)"

section \<open>place-order.ts\<close>

text \<open>
  The key pair and the client are built when the module loads;
  \<open>placePredictionMarketOrder\<close> is then called with no rejection handler.
\<close>

definition orderParams :: "world \<Rightarrow> (string \<times> jsval) list" where
  "orderParams w =
     [(''marketType'', Enum ''MarketType.PERP''),
      (''marketIndex'', Num 1),
      (''direction'', Enum ''PositionDirection.LONG''),
      (''orderType'', Enum ''OrderType.MARKET''),
      (''baseAssetAmount'', BN 1000000),
      (''price'', BN 0),
      (''reduceOnly'', Bool False),
      (''postOnly'', Bool False),
      (''maxTs'', BN \<lfloor>(of_int (date_now (hst w)) :: rat) / 1000 + 60\<rfloor>),
      (''userOrderId'', Num 0),
      (''bitFlags'', Num 0),
      (''triggerPrice'', BN 0),
      (''triggerCondition'', Num 0),
      (''oraclePriceOffset'', Num 0),
      (''auctionStartPrice'', BN 0),
      (''auctionEndPrice'', BN 0),
      (''auctionDuration'', Num 0)]"

definition order_send :: "world \<Rightarrow> keypair \<Rightarrow> unit run" where
  "order_send w keypair =
     bind (call (GetPlacePerpOrderIx (orderParams w) 0) (getPlacePerpOrderIx_r (rpc w))) (\<lambda>ix.
     bind (getLatestBlockhash w 0) (\<lambda>latest.
     let tx = (add [ix] new_Transaction)
                \<lparr>feePayer := Some (publicKey keypair), recentBlockhash := Some (blockhash latest)\<rparr>
     in
     bind (call (SendTransaction tx [publicKey keypair]
                   (Some \<lparr>skipPreflight = True, preflightCommitment = None\<rparr>))
                (sendTransaction_r (rpc w) 0)) (\<lambda>txSig.
     seq (console_log [Str ''Waiting for confirmation...'']) (
     bind (call (ConfirmTransaction (BySignature txSig) None) (confirmTransaction_r (rpc w) 0)) (\<lambda>_.
     block [console_log [Str ''Transaction confirmed!''],
            console_log [Str ''Order placed!'', Str txSig]])))))"

definition order_try :: "world \<Rightarrow> keypair \<Rightarrow> pubkey \<Rightarrow> unit run" where
  "order_try w keypair programId =
     bind (call Subscribe (subscribe_r (rpc w))) (\<lambda>_.
     bind (call GetStateAccount (getStateAccount_r (rpc w))) (\<lambda>stateAccount.
     seq (console_log [Str ''State account loaded'']) (
     bind (call (GetPerpMarketPublicKey programId 1) (getPerpMarketPublicKey_r (rpc w))) (\<lambda>perpMarketPublicKey.
     seq (console_log [Str ''Perp market public key:'', Str perpMarketPublicKey]) (
     bind (call (GetSpotMarketPublicKey programId 0) (getSpotMarketPublicKey_r (rpc w))) (\<lambda>spotMarketPublicKey.
     seq (console_log [Str ''Spot market public key:'', Str spotMarketPublicKey]) (
     bind (call (GetPerpMarketAccount 1) (getPerpMarketAccount_r (rpc w))) (\<lambda>perpMarketAccount.
     seq (block [(case perpMarketAccount of
                    None \<Rightarrow> throw (Error ''Perp market account not found'')
                  | Some _ \<Rightarrow> ret ()),
                 console_log [Str ''Perp market account loaded'']]) (
     bind (call (GetSpotMarketAccount 0) (getSpotMarketAccount_r (rpc w))) (\<lambda>spotMarketAccount.
     seq (block [(case spotMarketAccount of
                    None \<Rightarrow> throw (Error ''Spot market account not found'')
                  | Some _ \<Rightarrow> ret ()),
                 console_log [Str ''Spot market account loaded'']]) (
     order_send w keypair)))))))))))"

definition placePredictionMarketOrder :: "world \<Rightarrow> keypair \<Rightarrow> pubkey \<Rightarrow> unit run" where
  "placePredictionMarketOrder w keypair programId =
     bind (local (getUserAccountPublicKeySync (hst w) programId (publicKey keypair))) (\<lambda>userAccountPublicKey.
     seq (console_log [Str ''User account public key:'', Str userAccountPublicKey]) (
     try_finally
       (try_catch (order_try w keypair programId)
          (\<lambda>error. console_error [Str ''Error placing order:'', ErrV error]))
       (call Unsubscribe (unsubscribe_r (rpc w)))))"

definition module_place_order :: "world \<Rightarrow> unit run" where
  "module_place_order w =
     bind (load_keypair_dirname w) (\<lambda>keypair.
     bind (local (newPublicKey (hst w) (Some ''EpNqZ7KyCuW9yJb7hNAvqchB6S5oSCNpQhpmnNZDYwUJ''))) (\<lambda>programID.
     placePredictionMarketOrder w keypair programID))"

section \<open>check-state.ts\<close>

definition size_of :: "account_info option \<Rightarrow> jsval" where
  "size_of info = Num (case info of None \<Rightarrow> 0 | Some i \<Rightarrow> of_nat (data_length i))"

definition owner_of :: "account_info option \<Rightarrow> jsval" where
  "owner_of info = (case info of None \<Rightarrow> Undefined | Some i \<Rightarrow> Str (owner i))"

text \<open>The \<open>if (spotMarketInfo)\<close> statement with its own \<open>try\<close> and handler.\<close>

definition check_state_spot_config :: "world \<Rightarrow> account_info option \<Rightarrow> unit run" where
  "check_state_spot_config w spotMarketInfo =
     (case spotMarketInfo of
        None \<Rightarrow> ret ()
      | Some _ \<Rightarrow>
          try_catch
            (bind (call (GetSpotMarketAccount 0) (getSpotMarketAccount_r (rpc w))) (\<lambda>spotMarketAccount.
             case spotMarketAccount of
               None \<Rightarrow> ret ()
             | Some sm \<Rightarrow>
                 block [console_log [Str ''\<newline>Spot Market Configuration:''],
                        console_log [Str ''- Mint:'', Str (sm_mint sm)],
                        console_log [Str ''- Oracle:'', Str (sm_oracle sm)],
                        console_log [Str ''- Oracle Source:'', Enum (sm_oracleSource sm)],
                        console_log [Str ''- Status:'', Enum (sm_status sm)]]))
            (\<lambda>error. console_log [Str ''\<newline>Could not load spot market account data:'',
                                    Str (message error)]))"

definition check_state_try :: "world \<Rightarrow> pubkey \<Rightarrow> unit run" where
  "check_state_try w programId =
     bind (call Subscribe (subscribe_r (rpc w))) (\<lambda>_.
     bind (call GetStateAccount (getStateAccount_r (rpc w))) (\<lambda>stateAccount.
     bind (call GetStatePublicKey (getStatePublicKey_r (rpc w))) (\<lambda>statePublicKey.
     seq (block [console_log [Str ''\<newline>=== State Account Details ===''],
                 console_log [Str ''State Account Public Key:'', Str statePublicKey]]) (
     bind (prop_of ''numberOfMarkets'' stateAccount numberOfMarkets) (\<lambda>n.
     seq (console_log [Str ''Number of Markets:'', Num (of_int n)]) (
     bind (prop_of ''numberOfSpotMarkets'' stateAccount numberOfSpotMarkets) (\<lambda>ns.
     seq (console_log [Str ''Number of Spot Markets:'', Num (of_int ns)]) (
     bind (call (GetAccountInfo statePublicKey) (getAccountInfo_r (rpc w) 0)) (\<lambda>stateAccountInfo.
     seq (block [console_log [Str ''\<newline>State Account Info:''],
                 console_log [Str ''- Exists:'', Bool (stateAccountInfo \<noteq> None)],
                 console_log [Str ''- Size:'', size_of stateAccountInfo, Str ''bytes''],
                 console_log [Str ''- Owner:'', owner_of stateAccountInfo]]) (
     bind (call (GetSpotMarketPublicKey programId 0) (getSpotMarketPublicKey_r (rpc w))) (\<lambda>spotMarketPublicKey.
     seq (block [console_log [Str ''\<newline>=== Spot Market Details (Index 0) ===''],
                 console_log [Str ''Spot Market Public Key:'', Str spotMarketPublicKey]]) (
     bind (call (GetAccountInfo spotMarketPublicKey) (getAccountInfo_r (rpc w) 1)) (\<lambda>spotMarketInfo.
     block [console_log [Str ''\<newline>Spot Market Info:''],
            console_log [Str ''- Exists:'', Bool (spotMarketInfo \<noteq> None)],
            console_log [Str ''- Size:'', size_of spotMarketInfo, Str ''bytes''],
            console_log [Str ''- Owner:'', owner_of spotMarketInfo],
            check_state_spot_config w spotMarketInfo])))))))))))))"

definition main_check_state :: "world \<Rightarrow> unit run" where
  "main_check_state w =
     bind (load_keypair_home w) (\<lambda>keypair.
     seq (console_log [Str ''Your wallet public key:'', Str (publicKey keypair)]) (
     bind (local (newPublicKey (hst w) (env (hst w) ''PROGRAM_ID''))) (\<lambda>programId.
     try_finally
       (try_catch (check_state_try w programId)
          (\<lambda>error. console_error [Str ''Error:'', ErrV error]))
       (call Unsubscribe (unsubscribe_r (rpc w))))))"

definition script_check_state :: "world \<Rightarrow> event list \<times> nat" where
  "script_check_state w = catch_console_error (main_check_state w)"

section \<open>The devnet mint script\<close>

text \<open>
  The script that follows check-state.ts in the same source file creates a mint and
  mints tokens to the signer. It does not set the fee payer or the blockhash of its
  transactions: it hands them to \<open>sendAndConfirmTransaction\<close>, which sends and
  waits in one call. The function is called with no rejection handler.
\<close>

definition mint_opts :: confirm_opts where
  "mint_opts = \<lparr>sc_skipPreflight = False, sc_commitment = ''confirmed'',
                 sc_preflightCommitment = ''confirmed''\<rparr>"

definition mint_to_signer :: "world \<Rightarrow> keypair \<Rightarrow> keypair \<Rightarrow> keypair run" where
  "mint_to_signer w keypair fakeUSDCMint =
     bind (local (getAssociatedTokenAddress (hst w) (publicKey fakeUSDCMint) (publicKey keypair))) (\<lambda>associatedTokenAccount.
     let createAtaIx = library_ix (hst w) ''createAssociatedTokenAccountInstruction''
           [Key (publicKey keypair), Key associatedTokenAccount, Key (publicKey keypair),
            Key (publicKey fakeUSDCMint)];
         mintToIx = library_ix (hst w) ''createMintToInstruction''
           [Key (publicKey fakeUSDCMint), Key associatedTokenAccount, Key (publicKey keypair),
            Num 1000000000000];
         tx = add [mintToIx] (add [createAtaIx] new_Transaction)
     in
     seq (console_log [Str ''Creating token account and minting tokens...'']) (
     bind (call (SendAndConfirmTransaction tx [publicKey keypair] mint_opts)
                (sendAndConfirmTransaction_r (rpc w) 1)) (\<lambda>_.
     seq (block [console_log [Str ''Token account created and tokens minted successfully!''],
                 console_log [Str ''Mint address:'', Str (publicKey fakeUSDCMint)],
                 console_log [Str ''Your token account:'', Str associatedTokenAccount]]) (
     ret fakeUSDCMint))))"

definition mockUSDCMint :: "world \<Rightarrow> keypair run" where
  "mockUSDCMint w =
     (let fakeUSDCMint = Keypair_generate (hst w) in
     bind (load_keypair_dirname w) (\<lambda>keypair.
     seq (console_log [Str ''Your wallet public key:'', Str (publicKey keypair)]) (
     bind (call GetMinimumBalanceForRentExemptMint
                (getMinimumBalanceForRentExemptMint_r (rpc w))) (\<lambda>lamports.
     let createUSDCMintAccountIx = library_ix (hst w) ''SystemProgram.createAccount''
           [Key (publicKey keypair), Key (publicKey fakeUSDCMint), Num (of_nat lamports),
            Num (of_nat (MintLayout_span (sdk w))), Key (TOKEN_PROGRAM_ID (sdk w))];
         initCollateralMintIx = library_ix (hst w) ''createInitializeMintInstruction''
           [Key (publicKey fakeUSDCMint), Num 6, Key (publicKey keypair), Key (publicKey keypair)];
         fakeUSDCTx = add [initCollateralMintIx] (add [createUSDCMintAccountIx] new_Transaction)
     in
     seq (console_log [Str ''Sending transaction...'']) (
     bind (call (SendAndConfirmTransaction fakeUSDCTx
                   [publicKey keypair, publicKey fakeUSDCMint] mint_opts)
                (sendAndConfirmTransaction_r (rpc w) 0)) (\<lambda>sig.
     seq (console_log [Str ''Mint created'', Str sig]) (
     mint_to_signer w keypair fakeUSDCMint)))))))"

section \<open>update-admin.ts\<close>

text \<open>
  The first script of the first unnamed source file. \<open>truthy\<close> is the test
  \<open>if (!x)\<close> on a string that may be undefined: undefined and the empty string
  fail it. \<open>or_else\<close> is \<open>x || d\<close>, and \<open>template\<close> is the text a template
  literal gives for such a value.
\<close>

definition truthy :: "string option \<Rightarrow> string option" where
  "truthy v = (case v of None \<Rightarrow> None | Some s \<Rightarrow> if s = [] then None else Some s)"

definition or_else :: "string option \<Rightarrow> string \<Rightarrow> string" where
  "or_else v d = (case truthy v of None \<Rightarrow> d | Some s \<Rightarrow> s)"

definition template :: "string option \<Rightarrow> string" where
  "template v = (case v of None \<Rightarrow> ''undefined'' | Some s \<Rightarrow> s)"

definition loadKeypairFromFile :: "world \<Rightarrow> string \<Rightarrow> keypair run" where
  "loadKeypairFromFile w filePath =
     (let fullPath = path_resolve (hst w) [dirname (hst w), ''..'', filePath] in
      if \<not> existsSync (hst w) fullPath
      then throw (Error (''Keypair file not found at '' @ fullPath))
      else bind (local (readFileSync (hst w) fullPath)) (\<lambda>secretKeyString.
           local (keypairFromJson (hst w) secretKeyString)))"

text \<open>\<open>error.logs.forEach((log) => console.log(log))\<close>\<close>

fun forEach_console_log :: "string list \<Rightarrow> unit run" where
  "forEach_console_log [] = ret ()"
| "forEach_console_log (l # ls) = seq (console_log [Str l]) (forEach_console_log ls)"

text \<open>
  What \<open>main\<close> does before its \<open>try\<close> statement: it builds the connection
  object, reads and checks the settings, and builds the client. \<open>admin_config\<close>
  yields the signer's public key (the wallet), the program address and the new admin.
\<close>

definition admin_config :: "world \<Rightarrow> (pubkey \<times> pubkey \<times> pubkey) run" where
  "admin_config w =
     (let rpcUrl = or_else (env (hst w) ''RPC_URL'') (clusterApiUrl (hst w) ''devnet'') in
     seq (block [console_log [Str (''Using RPC URL: '' @ rpcUrl)],
                 local (newConnection (hst w) rpcUrl),
                 console_log [Str (''Attempting to read ADMIN_PRIVATE_KEY_PATH: '' @ [CHR 0x27]
                                   @ template (env (hst w) ''ADMIN_PRIVATE_KEY_PATH'') @ [CHR 0x27])]]) (
     bind (case truthy (env (hst w) ''ADMIN_PRIVATE_KEY_PATH'') of
             None \<Rightarrow>
               seq (console_error [Str ''Detailed check: ADMIN_PRIVATE_KEY_PATH is not set or is an empty string.'']) (
               throw (Error ''ADMIN_PRIVATE_KEY_PATH environment variable not set. This must be the keypair of the CURRENT admin.''))
           | Some p \<Rightarrow> ret p) (\<lambda>adminKeypairPath.
     seq (console_log [Str (''Loading current admin keypair from: '' @ adminKeypairPath)]) (
     bind (loadKeypairFromFile w adminKeypairPath) (\<lambda>currentAdminKeypair.
     let adminWallet = publicKey currentAdminKeypair in
     seq (console_log [Str ''Using current admin wallet. Public Key:'', Str adminWallet]) (
     bind (case truthy (env (hst w) ''DRIFT_PROGRAM_ID'') of
             None \<Rightarrow> throw (Error ''DRIFT_PROGRAM_ID environment variable not set.'')
           | Some p \<Rightarrow> ret p) (\<lambda>driftProgramIdStr.
     bind (local (newPublicKey (hst w) (Some driftProgramIdStr))) (\<lambda>driftProgramId.
     seq (console_log [Str (''Using Drift program ID: '' @ driftProgramId)]) (
     bind (case truthy (env (hst w) ''NEW_ADMIN_PUBLIC_KEY'') of
             None \<Rightarrow> throw (Error ''NEW_ADMIN_PUBLIC_KEY environment variable not set.'')
           | Some p \<Rightarrow> ret p) (\<lambda>newAdminPublicKeyStr.
     bind (local (newPublicKey (hst w) (Some newAdminPublicKeyStr))) (\<lambda>newAdminPublicKey.
     seq (block [console_log [Str (''Attempting to update program admin to: '' @ newAdminPublicKey)],
                 local (newAdminClient (hst w) (or_else (env (hst w) ''DRIFT_ENV'') ''devnet''))]) (
     ret (adminWallet, driftProgramId, newAdminPublicKey)))))))))))))"

text \<open>
  The part of the \<open>try\<close> block after the comment \<open>Verify the change\<close>:
  \<open>if (newStateAccount && newStateAccount.admin.equals(newAdminPublicKey))\<close>.
\<close>

definition admin_verify :: "world \<Rightarrow> pubkey \<Rightarrow> pubkey \<Rightarrow> unit run" where
  "admin_verify w statePublicKey newAdminPublicKey =
     seq (console_log [Str ''Verifying admin change...'']) (
     bind (call FetchAccounts (fetchAccounts_r (rpc w))) (\<lambda>_.
     bind (call (FetchState statePublicKey) (fetchState_r (rpc w) 1)) (\<lambda>newStateAccount.
     case newStateAccount of
       None \<Rightarrow>
         console_error [Str (''Failed to verify admin update. Current admin in state is: '' @ ''unknown'')]
     | Some st \<Rightarrow>
         if admin st = newAdminPublicKey
         then console_log [Str (''Successfully updated admin to: '' @ admin st)]
         else console_error [Str (''Failed to verify admin update. Current admin in state is: ''
                                  @ or_else (Some (admin st)) ''unknown'')])))"

definition admin_mismatch_warning :: "pubkey \<Rightarrow> pubkey \<Rightarrow> string" where
  "admin_mismatch_warning adminWallet chainAdmin =
     ''WARNING: The public key of the loaded ADMIN_PRIVATE_KEY_PATH ('' @ adminWallet
     @ '') does not match the current program admin ('' @ chainAdmin
     @ ''). This transaction will likely fail.''"

definition admin_try :: "world \<Rightarrow> pubkey \<Rightarrow> pubkey \<Rightarrow> pubkey \<Rightarrow> unit run" where
  "admin_try w adminWallet driftProgramId newAdminPublicKey =
     seq (console_log [Str ''Subscribing AdminClient...'']) (
     bind (call Subscribe (subscribe_r (rpc w))) (\<lambda>_.
     seq (console_log [Str ''AdminClient subscribed.'']) (
     bind (call (GetDriftStateAccountPublicKey driftProgramId)
                (getDriftStateAccountPublicKey_r (rpc w))) (\<lambda>statePublicKey.
     bind (call (FetchState statePublicKey) (fetchState_r (rpc w) 0)) (\<lambda>fetched.
     bind (case fetched of
             None \<Rightarrow> throw (Error ''Could not fetch state account.'')
           | Some st \<Rightarrow> ret st) (\<lambda>stateAccount.
     seq (block [console_log [Str (''Current program admin from chain is: '' @ admin stateAccount)],
                 js_when (admin stateAccount \<noteq> adminWallet)
                   (console_warn [Str (admin_mismatch_warning adminWallet (admin stateAccount))]),
                 console_log [Str (''Updating admin to '' @ newAdminPublicKey @ ''...'')]]) (
     bind (call (UpdateAdmin newAdminPublicKey) (updateAdmin_r (rpc w))) (\<lambda>txSig.
     seq (block [console_log [Str ''Update admin transaction sent. Signature:'', Str txSig],
                 console_log [Str (''Waiting for transaction confirmation... (View on Solana Explorer: https://explorer.solana.com/tx/''
                                   @ txSig @ ''?cluster='' @ or_else (env (hst w) ''DRIFT_ENV'') ''devnet'' @ '')'')]]) (
     bind (getLatestBlockhash w 0) (\<lambda>latestBlockHash.
     bind (call (ConfirmTransaction
                   (ByStrategy (blockhash latestBlockHash) (lastValidBlockHeight latestBlockHash) txSig)
                   (Some ''confirmed''))
                (confirmTransaction_r (rpc w) 0)) (\<lambda>_.
     seq (console_log [Str ''Transaction confirmed.'']) (
     admin_verify w statePublicKey newAdminPublicKey))))))))))))"

definition admin_catch :: "jserror \<Rightarrow> unit run" where
  "admin_catch error =
     seq (console_error [Str ''Error updating admin:'', ErrV error]) (
     case logs error of
       None \<Rightarrow> ret ()
     | Some ls \<Rightarrow> seq (console_error [Str ''Transaction Logs:'']) (forEach_console_log ls))"

definition admin_finally :: "world \<Rightarrow> unit run" where
  "admin_finally w =
     block [console_log [Str ''Unsubscribing AdminClient...''],
            call Unsubscribe (unsubscribe_r (rpc w)),
            console_log [Str ''AdminClient unsubscribed.'']]"

definition main_update_admin :: "world \<Rightarrow> unit run" where
  "main_update_admin w =
     bind (admin_config w) (\<lambda>(adminWallet, driftProgramId, newAdminPublicKey).
     try_finally
       (try_catch (admin_try w adminWallet driftProgramId newAdminPublicKey) admin_catch)
       (admin_finally w))"

text \<open>
  The module first loads \<open>../.env\<close> and reports how that went; it then runs
  \<open>main\<close>, and a rejection of \<open>main\<close> is printed and ends the process with
  \<open>process.exit(1)\<close>.
\<close>

definition dotenv_report :: "world \<Rightarrow> event list" where
  "dotenv_report w =
     (let envPath = path_resolve (hst w) [dirname (hst w), ''../.env''] in
      case dotenv_config (hst w) envPath of
        Inl err \<Rightarrow> [ConsoleWarn [Str (''Error loading .env file from '' @ envPath @ '':''), ErrV err]]
      | Inr parsed \<Rightarrow>
          ConsoleLog [Str (''.env file loaded successfully from '' @ envPath)]
          # (case parsed of
               None \<Rightarrow> []
             | Some ks \<Rightarrow> [ConsoleLog [Str ''Variables loaded from .env:'', StrList ks]]))"

definition script_update_admin :: "world \<Rightarrow> event list \<times> nat" where
  "script_update_admin w =
     (case main_update_admin w of
        (t, Inl err) \<Rightarrow>
          (dotenv_report w @ t @ [ConsoleError [Str ''Unhandled error in main:'', ErrV err]], 1)
      | (t, Inr _) \<Rightarrow> (dotenv_report w @ t, 0))"

section \<open>The validating spot-market script\<close>

text \<open>
  The third unnamed source file creates the USDC spot market after a series of local
  checks, which the script numbers 0 to 8; each is a definition here. The rates and the
  four margin weights are numeric literals of \<open>main\<close>. They are only printed, passed on
  and compared with each other, with zero and with the integer
  \<open>SPOT_MARKET_WEIGHT_PRECISION.toNumber()\<close>, and these comparisons come out the same
  on the rationals as on the doubles nearest to the literals. The check mark and the
  cross that begin some of the printed lines are outside ASCII and are written
  \<open>[ok]\<close> and \<open>[x]\<close>.
\<close>

definition initialAssetWeight :: rat where "initialAssetWeight = 1"
definition maintenanceAssetWeight :: rat where "maintenanceAssetWeight = 1"
definition initialLiabilityWeight :: rat where "initialLiabilityWeight = 1"
definition maintenanceLiabilityWeight :: rat where "maintenanceLiabilityWeight = 1"

definition fail_check :: "string \<Rightarrow> string \<Rightarrow> 'a run" where
  "fail_check line msg = bind (console_log [Str line]) (\<lambda>_. throw (Error msg))"

definition optimalUtilization :: rat where "optimalUtilization = 8 / 10"
definition optimalRate :: rat where "optimalRate = 1 / 10"
definition maxRate :: rat where "maxRate = 2 / 10"
definition imfFactor :: rat where "imfFactor = 0"
definition activeStatus :: bool where "activeStatus = True"
definition oracleSource :: string where "oracleSource = ''OracleSource.QUOTE_ASSET''"

text \<open>Check 0: the state account, the drift signer and the initial state values.\<close>

definition check_initialization :: "world \<Rightarrow> state_account option \<Rightarrow> state_account run" where
  "check_initialization w state0 =
     seq (block [console_log [Str ''\<newline>0. Checking program initialization...''],
                 console_log [Str ''Checking state account...'']]) (
     bind (case state0 of
             None \<Rightarrow> fail_check ''[x] Program initialization failed: State account not found''
                                  ''State account not found''
           | Some st \<Rightarrow> ret st) (\<lambda>state.
     seq (block [console_log [Str ''[ok] State account found''],
                 console_log [Str ''\<newline>Checking drift signer...'']]) (
     bind (local (newPublicKey (hst w) (env (hst w) ''PROGRAM_ID''))) (\<lambda>programId.
     bind (local (findProgramAddressSync (hst w) ''drift_signer'' programId)) (\<lambda>(driftSigner, driftSignerNonce).
     seq (block [console_log [Str ''Expected drift signer:'', Str driftSigner],
                 console_log [Str ''Actual drift signer:'', Str (signer state)],
                 js_when (driftSigner \<noteq> signer state)
                   (fail_check ''[x] Program initialization failed: Drift signer mismatch''
                               ''Drift signer mismatch''),
                 console_log [Str ''[ok] Drift signer validated''],
                 console_log [Str ''\<newline>Checking initial state values...''],
                 console_log [Str ''Number of markets:'', Num (of_int (numberOfMarkets state))],
                 console_log [Str ''Number of spot markets:'', Num (of_int (numberOfSpotMarkets state))],
                 console_log [Str ''Exchange status:'', Num (of_int (exchangeStatus state))],
                 console_log [Str ''Admin:'', Str (admin state)],
                 js_when (numberOfMarkets state \<noteq> 0)
                   (fail_check ''[x] Program initialization failed: Number of markets should be 0''
                               ''Number of markets should be 0''),
                 js_when (numberOfSpotMarkets state \<noteq> 0)
                   (fail_check ''[x] Program initialization failed: Number of spot markets should be 0''
                               ''Number of spot markets should be 0''),
                 console_log [Str ''[ok] Initial state values validated'']]) (
     ret state))))))"

text \<open>The market index, the mint and the oracle are fixed and announced.\<close>

definition announce_parameters :: "world \<Rightarrow> int \<Rightarrow> pubkey run" where
  "announce_parameters w marketIndex =
     seq (console_log [Str ''USDC spot market index:'', Num (of_int marketIndex)]) (
     bind (local (newPublicKey (hst w) (env (hst w) ''USDC_MINT''))) (\<lambda>usdcMint.
     seq (block [console_log [Str ''Initializing spot market with parameters:''],
                 console_log [Str ''- Market Index:'', Num (of_int marketIndex)],
                 console_log [Str ''- USDC Mint:'', Str usdcMint],
                 console_log [Str ''- Oracle:'', Str (PublicKey_default (sdk w))],
                 console_log [Str ''- Oracle Source: QUOTE_ASSET''],
                 console_log [Str ''\<newline>Running validation checks...'']]) (
     ret usdcMint)))"

text \<open>Check 1: the loaded key must be the on-chain admin.\<close>

definition check_admin :: "keypair \<Rightarrow> state_account \<Rightarrow> unit run" where
  "check_admin keypair state =
     block [console_log [Str ''\<newline>1. Checking admin wallet...''],
            console_log [Str ''Current wallet:'', Str (publicKey keypair)],
            console_log [Str ''State admin:'', Str (admin state)],
            if publicKey keypair \<noteq> admin state
            then fail_check ''[x] Admin validation failed: Current wallet is not the admin''
                            ''Current wallet is not the admin''
            else console_log [Str ''[ok] Admin validation passed'']]"

text \<open>Check 2: the borrow rates.\<close>

definition check_borrow_rates :: "unit run" where
  "check_borrow_rates =
     block [console_log [Str ''\<newline>2. Checking borrow rates...''],
            console_log [Str ''Optimal utilization:'', Num optimalUtilization],
            console_log [Str ''Optimal rate:'', Num optimalRate],
            console_log [Str ''Max rate:'', Num maxRate],
            js_when (optimalRate > maxRate)
              (fail_check ''[x] Borrow rate validation failed: Optimal rate cannot be greater than max rate''
                          ''Optimal rate cannot be greater than max rate''),
            js_when (optimalUtilization \<le> 0)
              (fail_check ''[x] Borrow rate validation failed: Optimal utilization must be greater than zero''
                          ''Optimal utilization must be greater than zero''),
            console_log [Str ''[ok] Borrow rate validation passed'']]"

text \<open>Check 3: no margin weight may exceed \<open>SPOT_MARKET_WEIGHT_PRECISION.toNumber()\<close>.\<close>

definition check_margin_weights :: "world \<Rightarrow> unit run" where
  "check_margin_weights w =
     block [console_log [Str ''\<newline>3. Checking margin weights...''],
            console_log [Str ''Initial asset weight:'', Num initialAssetWeight],
            console_log [Str ''Maintenance asset weight:'', Num maintenanceAssetWeight],
            console_log [Str ''Initial liability weight:'', Num initialLiabilityWeight],
            console_log [Str ''Maintenance liability weight:'', Num maintenanceLiabilityWeight],
            console_log [Str ''IMF factor:'', Num imfFactor],
            js_when (initialAssetWeight > of_int (SPOT_MARKET_WEIGHT_PRECISION (sdk w)))
              (fail_check ''[x] Margin weight validation failed: Initial asset weight too high''
                          ''Initial asset weight too high''),
            js_when (maintenanceAssetWeight > of_int (SPOT_MARKET_WEIGHT_PRECISION (sdk w)))
              (fail_check ''[x] Margin weight validation failed: Maintenance asset weight too high''
                          ''Maintenance asset weight too high''),
            js_when (initialLiabilityWeight > of_int (SPOT_MARKET_WEIGHT_PRECISION (sdk w)))
              (fail_check ''[x] Margin weight validation failed: Initial liability weight too high''
                          ''Initial liability weight too high''),
            js_when (maintenanceLiabilityWeight > of_int (SPOT_MARKET_WEIGHT_PRECISION (sdk w)))
              (fail_check ''[x] Margin weight validation failed: Maintenance liability weight too high''
                          ''Maintenance liability weight too high''),
            console_log [Str ''[ok] Margin weight validation passed'']]"

text \<open>Check 4: the mint account must parse and have 6 decimals.\<close>

definition check_mint_decimals :: "world \<Rightarrow> pubkey \<Rightarrow> unit run" where
  "check_mint_decimals w usdcMint =
     seq (console_log [Str ''\<newline>4. Checking USDC mint decimals...'']) (
     bind (call (GetParsedAccountInfo usdcMint) (getParsedAccountInfo_r (rpc w))) (\<lambda>mintInfo.
     seq (console_log [Str ''Mint info:'', Str (if mintInfo \<noteq> None then ''Found'' else ''Not found'')]) (
     bind (case mintInfo of
             Some (ParsedData d) \<Rightarrow>
               seq (console_log [Str ''[ok] USDC mint validation 1 passed'']) (ret d)
           | _ \<Rightarrow>
               fail_check ''[x] USDC mint validation failed: Could not fetch mint info''
                          ''Could not fetch USDC mint info'') (\<lambda>decimals.
     block [console_log [Str ''Mint decimals:'', Num (of_int decimals)],
            if decimals \<noteq> 6
            then fail_check ''[x] USDC mint validation failed: Must have 6 decimals''
                            ''USDC mint must have 6 decimals''
            else console_log [Str ''[ok] USDC mint validation 2 passed'']]))))"

text \<open>Checks 5 to 8: the oracle, the token program, the market status, the oracle source.\<close>

definition check_oracle_and_status :: "world \<Rightarrow> keypair \<Rightarrow> state_account \<Rightarrow> int \<Rightarrow> unit run" where
  "check_oracle_and_status w keypair state marketIndex =
     (let usdcOracle = PublicKey_default (sdk w);
          tokenProgram = TOKEN_PROGRAM_ID (sdk w)
      in
      block [console_log [Str ''\<newline>5. Checking oracle configuration...''],
             console_log [Str ''Oracle public key:'', Str usdcOracle],
             console_log [Str ''Default public key:'', Str (PublicKey_default (sdk w))],
             if usdcOracle \<noteq> PublicKey_default (sdk w)
             then fail_check ''[x] Oracle validation failed: Must be default public key for quote asset''
                             ''For OracleSource.QUOTE_ASSET, oracle must be default public key''
             else console_log [Str ''[ok] Oracle validation passed''],
             console_log [Str ''\<newline>6. Checking token program...''],
             console_log [Str ''Token program:'', Str tokenProgram],
             js_when (tokenProgram \<noteq> TOKEN_PROGRAM_ID (sdk w))
               (fail_check ''[x] Token program validation failed: Must use SPL Token program''
                           ''Must use SPL Token program''),
             console_log [Str ''[ok] Token program validation passed''],
             console_log [Str ''\<newline>7. Checking market status and admin...''],
             if activeStatus
             then block [console_log [Str ''Market will be active, verifying admin permissions...''],
                         js_when (publicKey keypair \<noteq> admin state)
                           (fail_check ''[x] Market status validation failed: Only admin can initialize active markets''
                                       ''Only admin can initialize active markets'')]
             else console_log [Str ''Market will be initialized but not active''],
             console_log [Str ''[ok] Market status validation passed''],
             console_log [Str ''\<newline>8. Checking historical oracle data...''],
             js_when (marketIndex = 0)
               (block [console_log [Str ''Quote asset market detected, validating oracle configuration...''],
                       js_when (usdcOracle \<noteq> PublicKey_default (sdk w))
                         (fail_check ''[x] Historical oracle validation failed: For quote asset, oracle must be default public key''
                                     ''For quote asset, oracle must be default public key''),
                       js_when (oracleSource \<noteq> ''OracleSource.QUOTE_ASSET'')
                         (fail_check ''[x] Historical oracle validation failed: For quote asset, oracle source must be QuoteAsset''
                                     ''For quote asset, oracle source must be QuoteAsset'')]),
             console_log [Str ''[ok] Historical oracle validation passed''],
             console_log [Str ''\<newline>All validation checks passed! Proceeding with spot market initialization...'']])"

text \<open>The instruction is built, wrapped in a transaction, sent and confirmed.\<close>

definition spot_checked_submit :: "world \<Rightarrow> keypair \<Rightarrow> pubkey \<Rightarrow> int \<Rightarrow> unit run" where
  "spot_checked_submit w keypair usdcMint marketIndex =
     bind (call (GetInitializeSpotMarketIx
                  [Key usdcMint, Num optimalUtilization, Num optimalRate, Num maxRate,
                   Key (PublicKey_default (sdk w)), Enum oracleSource,
                   Num initialAssetWeight, Num maintenanceAssetWeight,
                   Num initialLiabilityWeight, Num maintenanceLiabilityWeight,
                   Num imfFactor, Num 0, Num 0, Bool activeStatus, Enum ''AssetTier.COLLATERAL'',
                   BN (ZERO (sdk w)), BN (ZERO (sdk w)),
                   BN (divn (PRICE_PRECISION (sdk w)) 100000),
                   BN (divn (BASE_PRECISION (sdk w)) 10000),
                   Num 0, Str ''USDC spot market'', Num (of_int marketIndex)])
                (getInitializeSpotMarketIx_r (rpc w))) (\<lambda>ixs.
     seq (console_log [Str ''Building transaction...'']) (
     bind (getLatestBlockhash w 0) (\<lambda>latest.
     let tx = (add [ixs] new_Transaction)
                \<lparr>feePayer := Some (publicKey keypair), recentBlockhash := Some (blockhash latest)\<rparr>
     in
     seq (console_log [Str ''Sending transaction...'']) (
     try_catch
       (spot_send_try w keypair tx \<lparr>skipPreflight = False, preflightCommitment = None\<rparr>)
       spot_send_catch))))"

definition spot_checked_try :: "world \<Rightarrow> keypair \<Rightarrow> unit run" where
  "spot_checked_try w keypair =
     bind (call Subscribe (subscribe_r (rpc w))) (\<lambda>_.
     bind (call GetStateAccount (getStateAccount_r (rpc w))) (\<lambda>state0.
     bind (check_initialization w state0) (\<lambda>state.
     let marketIndex = numberOfMarkets state in
     bind (announce_parameters w marketIndex) (\<lambda>usdcMint.
     seq (block [check_admin keypair state,
                 check_borrow_rates,
                 check_margin_weights w,
                 check_mint_decimals w usdcMint,
                 check_oracle_and_status w keypair state marketIndex]) (
     spot_checked_submit w keypair usdcMint marketIndex)))))"

definition main_spot_checked :: "world \<Rightarrow> unit run" where
  "main_spot_checked w =
     bind (load_keypair_home w) (\<lambda>keypair.
     seq (console_log [Str ''Your wallet public key:'', Str (publicKey keypair)]) (
     bind (local (newPublicKey (hst w) (env (hst w) ''PROGRAM_ID''))) (\<lambda>programID.
     try_finally
       (try_catch (spot_checked_try w keypair)
          (\<lambda>error. console_error [Str ''Error:'', ErrV error]))
       (call Unsubscribe (unsubscribe_r (rpc w))))))"

definition script_spot_checked :: "world \<Rightarrow> event list \<times> nat" where
  "script_spot_checked w = catch_console_error (main_spot_checked w)"


section \<open>Observations on traces\<close>

text \<open>
  A submission is a call that sends a transaction: \<open>sendTransaction\<close> on the
  connection, \<open>sendAndConfirmTransaction\<close>, or the SDK's \<open>updateAdmin\<close>,
  which builds and sends one itself.
  Building is a call to one of the SDK's instruction builders.
\<close>

fun is_submission :: "event \<Rightarrow> bool" where
  "is_submission (Call (SendTransaction tx signers opts)) = True"
| "is_submission (Call (UpdateAdmin k)) = True"
| "is_submission (Call (SendAndConfirmTransaction tx signers opts)) = True"
| "is_submission e = False"

fun is_build :: "event \<Rightarrow> bool" where
  "is_build (Call (GetInitializeSpotMarketIx args)) = True"
| "is_build (Call (GetInitializePerpMarketIx args)) = True"
| "is_build (Call (GetInitializePredictionMarketIx i)) = True"
| "is_build (Call GetInitializeUserAccountIxs) = True"
| "is_build (Call (GetPlacePerpOrderIx ps n)) = True"
| "is_build e = False"

text \<open>Console output, the subscription itself, and reads of accounts and addresses.\<close>

fun reads_only :: "event \<Rightarrow> bool" where
  "reads_only (ConsoleLog a) = True"
| "reads_only (ConsoleWarn a) = True"
| "reads_only (ConsoleError a) = True"
| "reads_only (Call Subscribe) = True"
| "reads_only (Call Unsubscribe) = True"
| "reads_only (Call GetStateAccount) = True"
| "reads_only (Call GetStatePublicKey) = True"
| "reads_only (Call (GetAccountInfo k)) = True"
| "reads_only (Call (GetSpotMarketPublicKey k i)) = True"
| "reads_only (Call (GetSpotMarketAccount i)) = True"
| "reads_only (Call c) = False"

text \<open>
  \<open>built_ok pk latest t\<close> reads the trace \<open>t\<close> from left to right, remembering in
  \<open>latest\<close> the blockhash of the last \<open>getLatestBlockhash\<close> that resolved, and
  checks at every \<open>sendTransaction\<close> and \<open>sendAndConfirmTransaction\<close> that the
  fee payer of the transaction handed over is \<open>pk\<close> and that its recent blockhash is
  the remembered one.
\<close>

fun built_ok :: "pubkey \<Rightarrow> string option \<Rightarrow> event list \<Rightarrow> bool" where
  "built_ok pk latest [] = True"
| "built_ok pk latest (Call (GetLatestBlockhash (Inr b)) # es) = built_ok pk (Some (blockhash b)) es"
| "built_ok pk latest (Call (SendTransaction tx signers opts) # es) =
     (feePayer tx = Some pk \<and> latest \<noteq> None \<and> recentBlockhash tx = latest \<and> built_ok pk latest es)"
| "built_ok pk latest (Call (SendAndConfirmTransaction tx signers opts) # es) =
     (feePayer tx = Some pk \<and> latest \<noteq> None \<and> recentBlockhash tx = latest \<and> built_ok pk latest es)"
| "built_ok pk latest (e # es) = built_ok pk latest es"

fun latest_after :: "string option \<Rightarrow> event list \<Rightarrow> string option" where
  "latest_after latest [] = latest"
| "latest_after latest (Call (GetLatestBlockhash (Inr b)) # es) = latest_after (Some (blockhash b)) es"
| "latest_after latest (e # es) = latest_after latest es"

section \<open>Concrete worlds\<close>

text \<open>
  A world in which every call succeeds: the key file holds the key of \<open>Signer\<close>, who
  is the on-chain admin, the program has no market yet, and after the admin update the
  state account names \<open>NewAdmin\<close>.
\<close>

definition sdk0 :: sdk_constants where
  "sdk0 = \<lparr>SYSVAR_RENT_PUBKEY = ''SysvarRent111111111111111111111111111111111'',
           SystemProgram_programId = ''11111111111111111111111111111111'',
           TOKEN_PROGRAM_ID = ''TokenkegQfeZyiNwAJbNbGKPFXCWuBvf9Ss623VQ5DA'',
           PublicKey_default = ''11111111111111111111111111111111'',
           SPOT_MARKET_WEIGHT_PRECISION = 10000,
           PRICE_PRECISION = 1000000,
           BASE_PRECISION = 1000000000,
           PEG_PRECISION = 1000000,
           ONE = 1,
           ZERO = 0,
           MintLayout_span = 82\<rparr>"

definition env0 :: "string \<Rightarrow> string option" where
  "env0 = [''ADMIN_PRIVATE_KEY_PATH'' \<mapsto> ''admin.json'',
           ''PROGRAM_ID'' \<mapsto> ''Prog'',
           ''USDC_MINT'' \<mapsto> ''Mint'',
           ''DRIFT_PROGRAM_ID'' \<mapsto> ''Prog'',
           ''NEW_ADMIN_PUBLIC_KEY'' \<mapsto> ''NewAdmin'']"

definition host0 :: host where
  "host0 = \<lparr>env = env0,
            homedir = ''/home/op'',
            dirname = ''/repo/src'',
            path_join = (\<lambda>a b. case b of
                                   None \<Rightarrow> Inl (TypeError ''The path argument must be of type string. Received undefined'')
                                 | Some p \<Rightarrow> Inr (a @ ''/'' @ p)),
            path_resolve = (\<lambda>ps. concat (map (\<lambda>p. ''/'' @ p) ps)),
            existsSync = (\<lambda>p. True),
            readFileSync = (\<lambda>p. Inr ''[1,2,3]''),
            keypairFromJson = (\<lambda>txt. Inr (Keypair ''Signer'')),
            newPublicKey = (\<lambda>s. case s of
                                   None \<Rightarrow> Inl (Error ''Invalid public key input'')
                                 | Some k \<Rightarrow> Inr k),
            findProgramAddressSync = (\<lambda>seed pid. Inr (seed @ ''@'' @ pid, 255)),
            getUserAccountPublicKeySync = (\<lambda>pid a. Inr (''user@'' @ a)),
            dotenv_config = (\<lambda>p. Inr (Some [''ADMIN_PRIVATE_KEY_PATH'', ''DRIFT_PROGRAM_ID'', ''NEW_ADMIN_PUBLIC_KEY''])),
            clusterApiUrl = (\<lambda>c. ''https://api.devnet.solana.com''),
            date_now = 1700000000000,
            Keypair_generate = Keypair ''FakeMint'',
            getAssociatedTokenAddress = (\<lambda>m a. Inr (''ata@'' @ a)),
            library_ix = (\<lambda>name args. Instruction name [] []),
            newConnection = (\<lambda>url. if take 5 url = ''http:'' \<or> take 6 url = ''https:''
                                   then Inr ()
                                   else Inl (TypeError ''Endpoint URL must start with http: or https:.'')),
            newAdminClient = (\<lambda>e. if e = ''devnet'' \<or> e = ''mainnet-beta''
                                   then Inr ()
                                   else Inl (TypeError ''Cannot read properties of undefined''))\<rparr>"

definition state0 :: state_account where
  "state0 = \<lparr>admin = ''Signer'', signer = ''drift_signer@Prog'', numberOfMarkets = 0,
             numberOfSpotMarkets = 0, exchangeStatus = 0\<rparr>"

definition chain0 :: chain where
  "chain0 = \<lparr>subscribe_r = Inr (),
             unsubscribe_r = Inr (),
             getStateAccount_r = Inr (Some state0),
             getStatePublicKey_r = Inr ''State'',
             getDriftStateAccountPublicKey_r = Inr ''State'',
             fetchState_r = (\<lambda>i. if i = 0 then Inr (Some state0)
                                  else Inr (Some (state0\<lparr>admin := ''NewAdmin''\<rparr>))),
             fetchAccounts_r = Inr (),
             getAccountInfo_r = (\<lambda>i. Inr (Some \<lparr>data_length = 992, owner = ''Prog''\<rparr>)),
             getParsedAccountInfo_r = Inr (Some (ParsedData 6)),
             getSpotMarketPublicKey_r = Inr ''Spot0'',
             getPerpMarketPublicKey_r = Inr ''Perp1'',
             getSpotMarketAccount_r = Inr (Some \<lparr>sm_mint = ''Mint'', sm_oracle = ''11111111111111111111111111111111'',
                                                  sm_oracleSource = ''quoteAsset'', sm_status = ''active''\<rparr>),
             getPerpMarketAccount_r = Inr (Some ()),
             getLatestBlockhash_r = (\<lambda>i. Inr \<lparr>blockhash = (if i = 0 then ''hashA'' else ''hashB''),
                                                lastValidBlockHeight = 100 + i\<rparr>),
             getInitializeSpotMarketIx_r = Inr (Instruction ''Prog'' [] [1]),
             getInitializePerpMarketIx_r = Inr (Instruction ''Prog'' [] [2]),
             getInitializePredictionMarketIx_r = Inr (Instruction ''Prog'' [] [3]),
             getInitializeUserAccountIxs_r = Inr ([Instruction ''Prog'' [] [4]], ''User''),
             getPlacePerpOrderIx_r = Inr (Instruction ''Prog'' [] [5]),
             updateAdmin_r = Inr ''sigU'',
             sendTransaction_r = (\<lambda>i. Inr (if i = 0 then ''sigA'' else ''sigB'')),
             confirmTransaction_r = (\<lambda>i. Inr \<lparr>conf_slot = 7, conf_err = None\<rparr>),
             getMinimumBalanceForRentExemptMint_r = Inr 1461600,
             sendAndConfirmTransaction_r = (\<lambda>i. Inr (if i = 0 then ''sigM'' else ''sigN''))\<rparr>"

definition w0 :: world where
  "w0 = \<lparr>sdk = sdk0, hst = host0, rpc = chain0\<rparr>"

fun is_console_error :: "event \<Rightarrow> bool" where
  "is_console_error (ConsoleError a) = True"
| "is_console_error e = False"

text \<open>
  As \<open>w0\<close>, but the node answers the confirmation request with a result whose
  \<open>err\<close> field is set: the transaction was processed and failed on chain.
\<close>

definition w_onchain_err :: world where
  "w_onchain_err =
     w0\<lparr>rpc := chain0\<lparr>confirmTransaction_r :=
            (\<lambda>i. Inr \<lparr>conf_slot = 7, conf_err = Some ''InstructionError''\<rparr>)\<rparr>\<rparr>"

text \<open>
  What the local checks of the validating spot-market script may produce: console
  lines other than the final success line, and the read of the mint account.
\<close>

definition check_output :: "event \<Rightarrow> bool" where
  "check_output e =
     (case e of
        ConsoleLog a \<Rightarrow> a \<noteq> [Str ''USDC spot market initialized!'']
      | Call c \<Rightarrow> (case c of GetParsedAccountInfo k \<Rightarrow> True | _ \<Rightarrow> False)
      | _ \<Rightarrow> False)"


text \<open>As \<open>w0\<close>, but the state account does not exist yet.\<close>

definition w_no_state :: world where
  "w_no_state = w0\<lparr>rpc := chain0\<lparr>getAccountInfo_r := (\<lambda>i. Inr None)\<rparr>\<rparr>"

text \<open>As \<open>w0\<close>, but the on-chain admin is not the loaded signer.\<close>

definition w_other_admin :: world where
  "w_other_admin =
     w0\<lparr>rpc := chain0\<lparr>getStateAccount_r := Inr (Some (state0\<lparr>admin := ''Other''\<rparr>)),
                        fetchState_r := (\<lambda>i. Inr (Some (state0\<lparr>admin := ''Other''\<rparr>))),
                        updateAdmin_r := Inl (JSError ''custom program error: 0x7d3'' (Some [''Program log: ConstraintHasOne'']) True)\<rparr>\<rparr>"

fun is_console_warn :: "event \<Rightarrow> bool" where
  "is_console_warn (ConsoleWarn a) = True"
| "is_console_warn e = False"

fun sends_or_fetches :: "event \<Rightarrow> bool" where
  "sends_or_fetches (Call (SendTransaction tx signers opts)) = True"
| "sends_or_fetches (Call (SendAndConfirmTransaction tx signers opts)) = True"
| "sends_or_fetches (Call (GetLatestBlockhash r)) = True"
| "sends_or_fetches e = False"

text \<open>As \<open>w0\<close>, but the state account still names the old admin after the update.\<close>

definition w_stale :: world where
  "w_stale = w0\<lparr>rpc := chain0\<lparr>fetchState_r := (\<lambda>i. Inr (Some state0))\<rparr>\<rparr>"

fun is_call :: "event \<Rightarrow> bool" where
  "is_call (Call c) = True"
| "is_call e = False"

text \<open>
  The admin update ends before any call on the connection or the client, with status
  1, after the handler at the end of the module has printed the error.
\<close>

definition fails_before_any_call :: "world \<Rightarrow> jserror \<Rightarrow> bool" where
  "fails_before_any_call w err \<longleftrightarrow>
     snd (script_update_admin w) = 1
     \<and> (\<forall>e\<in>set (fst (script_update_admin w)). \<not> is_call e)
     \<and> ConsoleError [Str ''Unhandled error in main:'', ErrV err] \<in> set (fst (script_update_admin w))"

text \<open>Worlds with one setting unset, with no key file, and with a malformed key file.\<close>

definition w_unset :: "string \<Rightarrow> world" where
  "w_unset name = w0\<lparr>hst := host0\<lparr>env := env0(name := None)\<rparr>\<rparr>"

definition w_no_key_file :: world where
  "w_no_key_file = w0\<lparr>hst := host0\<lparr>existsSync := (\<lambda>p. False)\<rparr>\<rparr>"

definition w_bad_key_file :: world where
  "w_bad_key_file =
     w0\<lparr>hst := host0\<lparr>keypairFromJson := (\<lambda>txt. Inl (Error ''bad secret key size''))\<rparr>\<rparr>"

text \<open>As \<open>w0\<close>, but the network rejects the admin update, with a program log line.\<close>

definition w_rejected :: world where
  "w_rejected =
     w0\<lparr>rpc := chain0\<lparr>updateAdmin_r :=
            Inl (JSError ''custom program error: 0x7d3'' (Some [''Program log: ConstraintHasOne'']) True)\<rparr>\<rparr>"

text \<open>
  Worlds with an endpoint that is no URL, with a setting that is no address, and with
  a cluster name the SDK does not know.
\<close>

definition w_bad_rpc :: world where
  "w_bad_rpc = w0\<lparr>hst := host0\<lparr>env := env0(''RPC_URL'' \<mapsto> ''localhost:8899'')\<rparr>\<rparr>"

definition w_bad_address :: "string \<Rightarrow> world" where
  "w_bad_address name =
     w0\<lparr>hst := host0\<lparr>env := env0(name \<mapsto> ''not an address''),
                       newPublicKey := (\<lambda>s. if s = Some ''not an address''
                                            then Inl (Error ''Invalid public key input'')
                                            else newPublicKey host0 s)\<rparr>\<rparr>"

definition w_unknown_env :: world where
  "w_unknown_env = w0\<lparr>hst := host0\<lparr>env := env0(''DRIFT_ENV'' \<mapsto> ''staging'')\<rparr>\<rparr>"

text \<open>As \<open>w0\<close>, but the node rejects the confirmation request.\<close>

definition w_unconfirmed :: world where
  "w_unconfirmed =
     w0\<lparr>rpc := chain0\<lparr>confirmTransaction_r :=
            (\<lambda>i. Inl (Error ''block height exceeded''))\<rparr>\<rparr>"

named_theorems in_trace \<open>membership of an event in the trace of a composed run\<close>
named_theorems all_trace \<open>a property of every event in the trace of a composed run\<close>
named_theorems out_simps \<open>the outcome of a composed run\<close>

section \<open>Rules for traces and outcomes\<close>


text \<open>
  The scripts are straight-line code, so a fact about a trace is obtained by walking
  down the sequence of statements: an event is in the trace of \<open>bind m f\<close> when it
  is in the trace of \<open>m\<close>, or \<open>m\<close> returned and it is in the trace of what
  follows. The rules below say this for every combinator, for membership, for
  properties of all events, and for outcomes.
\<close>

lemma trace_bind:
  "trace (bind m f) = trace m @ (case outcome m of Inl e \<Rightarrow> [] | Inr x \<Rightarrow> trace (f x))"
  by (cases m; cases "snd m") (auto simp: trace_def outcome_def bind_def split: prod.splits)

lemma outcome_bind:
  "outcome (bind m f) = (case outcome m of Inl e \<Rightarrow> Inl e | Inr x \<Rightarrow> outcome (f x))"
  by (cases m; cases "snd m") (auto simp: trace_def outcome_def bind_def split: prod.splits)

lemma trace_try_catch:
  "trace (try_catch m h) = trace m @ (case outcome m of Inl e \<Rightarrow> trace (h e) | Inr x \<Rightarrow> [])"
  by (cases m; cases "snd m") (auto simp: trace_def outcome_def try_catch_def split: prod.splits)

lemma outcome_try_catch:
  "outcome (try_catch m h) = (case outcome m of Inl e \<Rightarrow> outcome (h e) | Inr x \<Rightarrow> Inr x)"
  by (cases m; cases "snd m") (auto simp: trace_def outcome_def try_catch_def split: prod.splits)

lemma trace_try_finally:
  "trace (try_finally m fin) = trace m @ trace fin"
  by (cases m; cases fin; cases "snd fin") (auto simp: trace_def try_finally_def)

lemma outcome_try_finally:
  "outcome (try_finally m fin) = (case outcome fin of Inl e \<Rightarrow> Inl e | Inr u \<Rightarrow> outcome m)"
  by (cases m; cases fin; cases "snd fin") (auto simp: outcome_def try_finally_def)

lemma in_trace_bind [in_trace]:
  "e \<in> set (trace (bind m f)) \<longleftrightarrow>
     e \<in> set (trace m) \<or> (\<exists>x. outcome m = Inr x \<and> e \<in> set (trace (f x)))"
  by (auto simp: trace_bind split: sum.splits)

lemma in_trace_seq [in_trace]:
  "e \<in> set (trace (seq m n)) \<longleftrightarrow>
     e \<in> set (trace m) \<or> (outcome m = Inr () \<and> e \<in> set (trace n))"
  by (simp add: seq_def in_trace_bind)

lemma in_trace_try_catch [in_trace]:
  "e \<in> set (trace (try_catch m h)) \<longleftrightarrow>
     e \<in> set (trace m) \<or> (\<exists>x. outcome m = Inl x \<and> e \<in> set (trace (h x)))"
  by (auto simp: trace_try_catch split: sum.splits)

lemma in_trace_try_finally [in_trace]:
  "e \<in> set (trace (try_finally m fin)) \<longleftrightarrow> e \<in> set (trace m) \<or> e \<in> set (trace fin)"
  by (simp add: trace_try_finally)

lemma trace_prims:
  "trace (ret x) = []"
  "trace (throw err) = []"
  "trace (local r) = []"
  "trace (call c r) = [Call c]"
  "trace (console_log a) = [ConsoleLog a]"
  "trace (console_warn a) = [ConsoleWarn a]"
  "trace (console_error a) = [ConsoleError a]"
  "trace (js_when b m) = (if b then trace m else [])"
  "trace (getLatestBlockhash w i) = [Call (GetLatestBlockhash (getLatestBlockhash_r (rpc w) i))]"
  "trace (prop_of nm obj sel) = []"
  "trace (fail_check l msg) = [ConsoleLog [Str l]]"
  by (auto simp: trace_def ret_def throw_def local_def call_def console_log_def console_warn_def
      console_error_def js_when_def getLatestBlockhash_def prop_of_def fail_check_def bind_def
      split: option.splits)

lemma in_trace_prims [in_trace]:
  "e \<in> set (trace (ret x)) \<longleftrightarrow> False"
  "e \<in> set (trace (throw err :: 'b run)) \<longleftrightarrow> False"
  "e \<in> set (trace (local r)) \<longleftrightarrow> False"
  "e \<in> set (trace (call c r)) \<longleftrightarrow> e = Call c"
  "e \<in> set (trace (console_log a)) \<longleftrightarrow> e = ConsoleLog a"
  "e \<in> set (trace (console_warn a)) \<longleftrightarrow> e = ConsoleWarn a"
  "e \<in> set (trace (console_error a)) \<longleftrightarrow> e = ConsoleError a"
  "e \<in> set (trace (js_when b m)) \<longleftrightarrow> b \<and> e \<in> set (trace m)"
  "e \<in> set (trace (getLatestBlockhash w i)) \<longleftrightarrow>
     e = Call (GetLatestBlockhash (getLatestBlockhash_r (rpc w) i))"
  "e \<in> set (trace (prop_of nm obj sel)) \<longleftrightarrow> False"
  "e \<in> set (trace (fail_check l msg :: 'c run)) \<longleftrightarrow> e = ConsoleLog [Str l]"
  by (simp_all add: trace_prims)

lemma all_trace_bind [all_trace]:
  "(\<forall>e\<in>set (trace (bind m f)). P e) \<longleftrightarrow>
     (\<forall>e\<in>set (trace m). P e) \<and> (\<forall>x. outcome m = Inr x \<longrightarrow> (\<forall>e\<in>set (trace (f x)). P e))"
  by (auto simp: in_trace_bind)

lemma all_trace_seq [all_trace]:
  "(\<forall>e\<in>set (trace (seq m n)). P e) \<longleftrightarrow>
     (\<forall>e\<in>set (trace m). P e) \<and> (outcome m = Inr () \<longrightarrow> (\<forall>e\<in>set (trace n). P e))"
  by (auto simp: in_trace_seq)

lemma all_trace_try_catch [all_trace]:
  "(\<forall>e\<in>set (trace (try_catch m h)). P e) \<longleftrightarrow>
     (\<forall>e\<in>set (trace m). P e) \<and> (\<forall>x. outcome m = Inl x \<longrightarrow> (\<forall>e\<in>set (trace (h x)). P e))"
  by (auto simp: in_trace_try_catch)

lemma all_trace_try_finally [all_trace]:
  "(\<forall>e\<in>set (trace (try_finally m fin)). P e) \<longleftrightarrow>
     (\<forall>e\<in>set (trace m). P e) \<and> (\<forall>e\<in>set (trace fin). P e)"
  by (auto simp: in_trace_try_finally)

lemma all_trace_prims [all_trace]:
  "(\<forall>e\<in>set (trace (ret x)). P e) \<longleftrightarrow> True"
  "(\<forall>e\<in>set (trace (throw err :: 'b run)). P e) \<longleftrightarrow> True"
  "(\<forall>e\<in>set (trace (local r)). P e) \<longleftrightarrow> True"
  "(\<forall>e\<in>set (trace (call c r)). P e) \<longleftrightarrow> P (Call c)"
  "(\<forall>e\<in>set (trace (console_log a)). P e) \<longleftrightarrow> P (ConsoleLog a)"
  "(\<forall>e\<in>set (trace (console_warn a)). P e) \<longleftrightarrow> P (ConsoleWarn a)"
  "(\<forall>e\<in>set (trace (console_error a)). P e) \<longleftrightarrow> P (ConsoleError a)"
  "(\<forall>e\<in>set (trace (js_when b m)). P e) \<longleftrightarrow> (b \<longrightarrow> (\<forall>e\<in>set (trace m). P e))"
  "(\<forall>e\<in>set (trace (getLatestBlockhash w i)). P e) \<longleftrightarrow>
     P (Call (GetLatestBlockhash (getLatestBlockhash_r (rpc w) i)))"
  "(\<forall>e\<in>set (trace (prop_of nm obj sel)). P e) \<longleftrightarrow> True"
  "(\<forall>e\<in>set (trace (fail_check l msg :: 'c run)). P e) \<longleftrightarrow> P (ConsoleLog [Str l])"
  by (auto simp: trace_prims)

lemma out_bind_Inr [out_simps]:
  "outcome (bind m f) = Inr y \<longleftrightarrow> (\<exists>x. outcome m = Inr x \<and> outcome (f x) = Inr y)"
  by (auto simp: outcome_bind split: sum.splits)

lemma out_bind_Inl [out_simps]:
  "outcome (bind m f) = Inl err \<longleftrightarrow>
     outcome m = Inl err \<or> (\<exists>x. outcome m = Inr x \<and> outcome (f x) = Inl err)"
  by (auto simp: outcome_bind split: sum.splits)

lemma out_seq_Inr [out_simps]:
  "outcome (seq m n) = Inr y \<longleftrightarrow> outcome m = Inr () \<and> outcome n = Inr y"
  by (simp add: seq_def out_bind_Inr)

lemma out_seq_Inl [out_simps]:
  "outcome (seq m n) = Inl err \<longleftrightarrow>
     outcome m = Inl err \<or> (outcome m = Inr () \<and> outcome n = Inl err)"
  by (simp add: seq_def out_bind_Inl)

lemma out_try_catch_Inr [out_simps]:
  "outcome (try_catch m h) = Inr y \<longleftrightarrow>
     outcome m = Inr y \<or> (\<exists>x. outcome m = Inl x \<and> outcome (h x) = Inr y)"
  by (auto simp: outcome_try_catch split: sum.splits)

lemma out_try_catch_Inl [out_simps]:
  "outcome (try_catch m h) = Inl err \<longleftrightarrow> (\<exists>x. outcome m = Inl x \<and> outcome (h x) = Inl err)"
  by (auto simp: outcome_try_catch split: sum.splits)

lemma out_try_finally_Inr [out_simps]:
  "outcome (try_finally m fin) = Inr y \<longleftrightarrow> outcome fin = Inr () \<and> outcome m = Inr y"
  by (auto simp: outcome_try_finally split: sum.splits)

lemma out_try_finally_Inl [out_simps]:
  "outcome (try_finally m fin) = Inl err \<longleftrightarrow>
     outcome fin = Inl err \<or> (outcome fin = Inr () \<and> outcome m = Inl err)"
  by (auto simp: outcome_try_finally split: sum.splits)

lemma out_prims [out_simps]:
  "outcome (ret x) = Inr x"
  "outcome (throw err) = Inl err"
  "outcome (local r) = r"
  "outcome (call c r) = r"
  "outcome (console_log a) = Inr ()"
  "outcome (console_warn a) = Inr ()"
  "outcome (console_error a) = Inr ()"
  "outcome (getLatestBlockhash w i) = getLatestBlockhash_r (rpc w) i"
  "outcome (fail_check l msg) = Inl (Error msg)"
  by (simp_all add: outcome_def ret_def throw_def local_def call_def console_log_def
      console_warn_def console_error_def getLatestBlockhash_def fail_check_def bind_def)

lemma out_js_when [out_simps]:
  "outcome (js_when b m) = Inr u \<longleftrightarrow> (b \<longrightarrow> outcome m = Inr ())"
  "outcome (js_when b m) = Inl err \<longleftrightarrow> b \<and> outcome m = Inl err"
  by (auto simp: js_when_def outcome_def ret_def)

lemma out_prop_of [out_simps]:
  "outcome (prop_of nm obj sel) = Inr y \<longleftrightarrow> (\<exists>x. obj = Some x \<and> y = sel x)"
  "outcome (prop_of nm obj sel) = Inl err \<longleftrightarrow>
     obj = None \<and> err = TypeError (''Cannot read properties of undefined (reading '' @ nm @ '')'')"
  by (auto simp: prop_of_def outcome_def ret_def throw_def split: option.splits)

lemma in_trace_block [in_trace]:
  "e \<in> set (trace (block [])) \<longleftrightarrow> False"
  "e \<in> set (trace (block (m # ms))) \<longleftrightarrow>
     e \<in> set (trace m) \<or> (outcome m = Inr () \<and> e \<in> set (trace (block ms)))"
  by (simp_all add: in_trace_seq trace_prims)

lemma all_trace_block [all_trace]:
  "(\<forall>e\<in>set (trace (block [])). P e) \<longleftrightarrow> True"
  "(\<forall>e\<in>set (trace (block (m # ms))). P e) \<longleftrightarrow>
     (\<forall>e\<in>set (trace m). P e) \<and> (outcome m = Inr () \<longrightarrow> (\<forall>e\<in>set (trace (block ms)). P e))"
  by (simp_all add: all_trace_seq trace_prims)

lemma out_block [out_simps]:
  "outcome (block []) = Inr ()"
  "outcome (block (m # ms)) = Inr u \<longleftrightarrow> outcome m = Inr () \<and> outcome (block ms) = Inr ()"
  "outcome (block (m # ms)) = Inl err \<longleftrightarrow>
     outcome m = Inl err \<or> (outcome m = Inr () \<and> outcome (block ms) = Inl err)"
  by (simp_all add: out_seq_Inr out_seq_Inl out_prims)

text \<open>Guards: a \<open>case\<close> on a value that may be undefined, and a conditional.\<close>

lemma in_trace_case_option [in_trace]:
  "e \<in> set (trace (case x of None \<Rightarrow> a | Some y \<Rightarrow> b y)) \<longleftrightarrow>
     (x = None \<and> e \<in> set (trace a)) \<or> (\<exists>y. x = Some y \<and> e \<in> set (trace (b y)))"
  by (cases x) auto

lemma all_trace_case_option [all_trace]:
  "(\<forall>e\<in>set (trace (case x of None \<Rightarrow> a | Some y \<Rightarrow> b y)). P e) \<longleftrightarrow>
     (x = None \<longrightarrow> (\<forall>e\<in>set (trace a). P e)) \<and>
     (\<forall>y. x = Some y \<longrightarrow> (\<forall>e\<in>set (trace (b y)). P e))"
  by (cases x) auto

lemma out_case_option [out_simps]:
  "outcome (case x of None \<Rightarrow> a | Some y \<Rightarrow> b y) = r \<longleftrightarrow>
     (x = None \<and> outcome a = r) \<or> (\<exists>y. x = Some y \<and> outcome (b y) = r)"
  by (cases x) auto

lemma in_trace_case_account_data [in_trace]:
  "e \<in> set (trace (case x of RawData \<Rightarrow> a | ParsedData d \<Rightarrow> b d)) \<longleftrightarrow>
     (x = RawData \<and> e \<in> set (trace a)) \<or> (\<exists>d. x = ParsedData d \<and> e \<in> set (trace (b d)))"
  by (cases x) auto

lemma all_trace_case_account_data [all_trace]:
  "(\<forall>e\<in>set (trace (case x of RawData \<Rightarrow> a | ParsedData d \<Rightarrow> b d)). P e) \<longleftrightarrow>
     (x = RawData \<longrightarrow> (\<forall>e\<in>set (trace a). P e)) \<and>
     (\<forall>d. x = ParsedData d \<longrightarrow> (\<forall>e\<in>set (trace (b d)). P e))"
  by (cases x) auto

lemma out_case_account_data [out_simps]:
  "outcome (case x of RawData \<Rightarrow> a | ParsedData d \<Rightarrow> b d) = r \<longleftrightarrow>
     (x = RawData \<and> outcome a = r) \<or> (\<exists>d. x = ParsedData d \<and> outcome (b d) = r)"
  by (cases x) auto

lemma in_trace_if [in_trace]:
  "e \<in> set (trace (if c then a else b)) \<longleftrightarrow>
     (c \<and> e \<in> set (trace a)) \<or> (\<not> c \<and> e \<in> set (trace b))"
  by simp

lemma all_trace_if [all_trace]:
  "(\<forall>e\<in>set (trace (if c then a else b)). P e) \<longleftrightarrow>
     (c \<longrightarrow> (\<forall>e\<in>set (trace a). P e)) \<and> (\<not> c \<longrightarrow> (\<forall>e\<in>set (trace b). P e))"
  by simp

lemma out_if [out_simps]:
  "outcome (if c then a else b) = r \<longleftrightarrow> (c \<and> outcome a = r) \<or> (\<not> c \<and> outcome b = r)"
  by simp

text \<open>Loading the key pair touches the file system only.\<close>

lemma trace_load_keypair [simp]:
  "trace (load_keypair_home w) = []"
  "trace (load_keypair_dirname w) = []"
  "trace (loadKeypairFromFile w p) = []"
  by (auto simp: load_keypair_home_def load_keypair_dirname_def loadKeypairFromFile_def Let_def
      trace_bind trace_prims split: sum.splits)

lemma trace_forEach_console_log:
  "trace (forEach_console_log ls) = map (\<lambda>l. ConsoleLog [Str l]) ls"
  by (induction ls) (auto simp: trace_prims seq_def trace_bind out_prims)

lemma outcome_forEach_console_log [out_simps]:
  "outcome (forEach_console_log ls) = Inr ()"
  by (induction ls) (auto simp: seq_def outcome_bind out_prims)

text \<open>The end of a script that uses \<open>main().catch(console.error)\<close>.\<close>

lemma in_catch_console_error:
  "e \<in> set (fst (catch_console_error m)) \<longleftrightarrow>
     e \<in> set (trace m) \<or> (\<exists>err. outcome m = Inl err \<and> e = ConsoleError [ErrV err])"
  by (cases m; cases "snd m") (auto simp: catch_console_error_def trace_def outcome_def)

lemma all_catch_console_error:
  "(\<forall>e\<in>set (fst (catch_console_error m)). P e) \<longleftrightarrow>
     (\<forall>e\<in>set (trace m). P e) \<and> (\<forall>err. outcome m = Inl err \<longrightarrow> P (ConsoleError [ErrV err]))"
  by (auto simp: in_catch_console_error)

lemma exit_catch_console_error:
  "snd (catch_console_error m) = 0"
  by (cases m; cases "snd m") (auto simp: catch_console_error_def)

section \<open>The state-inspection script only reads\<close>

lemma reads_only_not_submit: "reads_only e \<Longrightarrow> \<not> is_submission e \<and> \<not> is_build e"
  by (cases e rule: reads_only.cases) auto

lemmas eval_defs = w0_def chain0_def host0_def sdk0_def env0_def state0_def

text \<open>
  Claim C10. On every execution path of check-state.ts, whatever the environment, the
  file system and the node answer, every event of the run is console output, the
  subscription or its release, or a read of an account or of an address: no
  instruction is built and no transaction is submitted, so the run changes nothing on
  chain.
\<close>

theorem check_state_reads_only:
  "\<forall>e\<in>set (fst (script_check_state w)). reads_only e \<and> \<not> is_submission e \<and> \<not> is_build e"
proof -
  have "\<forall>e\<in>set (fst (script_check_state w)). reads_only e"
    unfolding script_check_state_def main_check_state_def check_state_try_def
      check_state_spot_config_def
    by (simp add: all_catch_console_error all_trace out_simps split: option.splits)
  then show ?thesis
    using reads_only_not_submit by blast
qed

theorem check_state_reads_only_witness:
  "Call (GetAccountInfo ''Spot0'') \<in> set (fst (script_check_state w0))
   \<and> reads_only (Call (GetAccountInfo ''Spot0''))
   \<and> \<not> is_submission (Call (GetAccountInfo ''Spot0''))
   \<and> \<not> is_build (Call (GetAccountInfo ''Spot0''))"
proof -
  have m: "Call (GetAccountInfo ''Spot0'') \<in> set (fst (script_check_state w0))"
    unfolding script_check_state_def main_check_state_def check_state_try_def
      check_state_spot_config_def load_keypair_home_def
    by (simp add: in_catch_console_error in_trace out_simps eval_defs)
  from check_state_reads_only [of w0] m show ?thesis by blast
qed

section \<open>Facts about the individual scripts\<close>

lemmas initialize_defs = script_initialize_def main_initialize_def initialize_try_def
  initialize_catch_def
lemmas spot_defs = script_spot_def main_spot_def spot_try_def spot_send_try_def
  spot_send_catch_def
lemmas user_defs = script_user_def main_user_def user_try_def
lemmas perp_defs = script_perp_def main_perp_def perp_try_def perp_convert_def
lemmas order_defs = module_place_order_def placePredictionMarketOrder_def order_try_def
  order_send_def
lemmas admin_defs = main_update_admin_def admin_config_def admin_try_def admin_verify_def
  admin_catch_def admin_finally_def
lemmas spot_checked_main_defs = script_spot_checked_def main_spot_checked_def
  spot_checked_try_def spot_checked_submit_def
  spot_send_try_def spot_send_catch_def
lemmas weight_defs = initialAssetWeight_def maintenanceAssetWeight_def
  initialLiabilityWeight_def maintenanceLiabilityWeight_def
lemmas spot_checked_check_defs = check_initialization_def announce_parameters_def
  check_admin_def check_borrow_rates_def check_margin_weights_def check_mint_decimals_def
  check_oracle_and_status_def

text \<open>The program log lines printed by the handler of the admin update.\<close>

lemma in_trace_forEach_console_log [in_trace]:
  "e \<in> set (trace (forEach_console_log ls)) \<longleftrightarrow> (\<exists>l. l \<in> set ls \<and> e = ConsoleLog [Str l])"
  by (auto simp: trace_forEach_console_log)

lemma all_trace_forEach_console_log [all_trace]:
  "(\<forall>e\<in>set (trace (forEach_console_log ls)). P e) \<longleftrightarrow> (\<forall>l\<in>set ls. P (ConsoleLog [Str l]))"
  by (auto simp: trace_forEach_console_log)

text \<open>The end of the admin-update script.\<close>

lemma in_script_update_admin:
  "e \<in> set (fst (script_update_admin w)) \<longleftrightarrow>
     e \<in> set (dotenv_report w) \<or> e \<in> set (trace (main_update_admin w)) \<or>
     (\<exists>err. outcome (main_update_admin w) = Inl err \<and>
            e = ConsoleError [Str ''Unhandled error in main:'', ErrV err])"
  by (cases "main_update_admin w"; cases "snd (main_update_admin w)")
     (auto simp: script_update_admin_def trace_def outcome_def)

lemma exit_script_update_admin:
  "snd (script_update_admin w) = (case outcome (main_update_admin w) of Inl err \<Rightarrow> 1 | Inr u \<Rightarrow> 0)"
  by (cases "main_update_admin w"; cases "snd (main_update_admin w)")
     (auto simp: script_update_admin_def outcome_def)

lemma in_dotenv_report:
  "e \<in> set (dotenv_report w) \<Longrightarrow>
     (\<exists>p err. e = ConsoleWarn [Str (''Error loading .env file from '' @ p @ '':''), ErrV err]) \<or>
     (\<exists>p. e = ConsoleLog [Str (''.env file loaded successfully from '' @ p)]) \<or>
     (\<exists>ks. e = ConsoleLog [Str ''Variables loaded from .env:'', StrList ks])"
  by (auto simp: dotenv_report_def Let_def split: sum.splits option.splits)

text \<open>What the local checks of the validating spot-market script can print or call.\<close>

lemma out_check_initialization:
  "\<forall>e\<in>set (trace (check_initialization w s0)). check_output e"
  unfolding check_initialization_def
  by (simp add: all_trace out_simps check_output_def split_def)

lemma out_announce_parameters:
  "\<forall>e\<in>set (trace (announce_parameters w i)). check_output e"
  unfolding announce_parameters_def
  by (simp add: all_trace out_simps check_output_def)

lemma out_check_admin:
  "\<forall>e\<in>set (trace (check_admin kp st)). check_output e"
  unfolding check_admin_def
  by (simp add: all_trace out_simps check_output_def)

lemma out_check_borrow_rates:
  "\<forall>e\<in>set (trace check_borrow_rates). check_output e"
  unfolding check_borrow_rates_def
  by (simp add: all_trace out_simps check_output_def)

lemma out_check_margin_weights:
  "\<forall>e\<in>set (trace (check_margin_weights w)). check_output e"
  unfolding check_margin_weights_def
  by (simp add: all_trace out_simps check_output_def)

lemma out_check_mint_decimals:
  "\<forall>e\<in>set (trace (check_mint_decimals w m)). check_output e"
  unfolding check_mint_decimals_def
  by (simp add: all_trace out_simps check_output_def)

lemma out_check_oracle_and_status:
  "\<forall>e\<in>set (trace (check_oracle_and_status w kp st i)). check_output e"
  unfolding check_oracle_and_status_def
  by (simp add: all_trace out_simps check_output_def Let_def)

lemma not_in_checks:
  "\<not> check_output e \<Longrightarrow> e \<in> set (trace (check_initialization w s0)) \<longleftrightarrow> False"
  "\<not> check_output e \<Longrightarrow> e \<in> set (trace (announce_parameters w i)) \<longleftrightarrow> False"
  "\<not> check_output e \<Longrightarrow> e \<in> set (trace (check_admin kp st)) \<longleftrightarrow> False"
  "\<not> check_output e \<Longrightarrow> e \<in> set (trace check_borrow_rates) \<longleftrightarrow> False"
  "\<not> check_output e \<Longrightarrow> e \<in> set (trace (check_margin_weights w)) \<longleftrightarrow> False"
  "\<not> check_output e \<Longrightarrow> e \<in> set (trace (check_mint_decimals w m)) \<longleftrightarrow> False"
  "\<not> check_output e \<Longrightarrow> e \<in> set (trace (check_oracle_and_status w kp st i)) \<longleftrightarrow> False"
proof -
  assume n: "\<not> check_output e"
  show "e \<in> set (trace (check_initialization w s0)) \<longleftrightarrow> False"
    using n out_check_initialization [of w s0] by blast
  show "e \<in> set (trace (announce_parameters w i)) \<longleftrightarrow> False"
    using n out_announce_parameters [of w i] by blast
  show "e \<in> set (trace (check_admin kp st)) \<longleftrightarrow> False"
    using n out_check_admin [of kp st] by blast
  show "e \<in> set (trace check_borrow_rates) \<longleftrightarrow> False"
    using n out_check_borrow_rates by blast
  show "e \<in> set (trace (check_margin_weights w)) \<longleftrightarrow> False"
    using n out_check_margin_weights [of w] by blast
  show "e \<in> set (trace (check_mint_decimals w m)) \<longleftrightarrow> False"
    using n out_check_mint_decimals [of w m] by blast
  show "e \<in> set (trace (check_oracle_and_status w kp st i)) \<longleftrightarrow> False"
    using n out_check_oracle_and_status [of w kp st i] by blast
qed

section \<open>Success is reported only after the confirmation call returned\<close>

lemma initialize_success:
  "ConsoleLog [Str ''Program initialized successfully!''] \<in> set (fst (script_initialize w))
   \<Longrightarrow> (\<exists>sig c. sendTransaction_r (rpc w) 0 = Inr sig \<and> confirmTransaction_r (rpc w) 0 = Inr c
        \<and> (\<exists>tx sg. Call (SendTransaction tx sg (Some \<lparr>skipPreflight = False, preflightCommitment = None\<rparr>)) \<in> set (fst (script_initialize w)))
        \<and> Call (ConfirmTransaction (BySignature sig) None) \<in> set (fst (script_initialize w)))"
  unfolding initialize_defs
  by (auto simp: in_catch_console_error in_trace out_simps Let_def split_def)

lemma spot_success:
  "ConsoleLog [Str ''USDC spot market initialized!''] \<in> set (fst (script_spot w))
   \<Longrightarrow> (\<exists>sig c. sendTransaction_r (rpc w) 0 = Inr sig \<and> confirmTransaction_r (rpc w) 0 = Inr c
        \<and> (\<exists>tx sg. Call (SendTransaction tx sg (Some \<lparr>skipPreflight = False, preflightCommitment = Some ''confirmed''\<rparr>)) \<in> set (fst (script_spot w)))
        \<and> Call (ConfirmTransaction (BySignature sig) None) \<in> set (fst (script_spot w)))"
  unfolding spot_defs
  by (auto simp: in_catch_console_error in_trace out_simps Let_def split_def)

lemma spot_checked_success:
  "ConsoleLog [Str ''USDC spot market initialized!''] \<in> set (fst (script_spot_checked w))
   \<Longrightarrow> (\<exists>sig c. sendTransaction_r (rpc w) 0 = Inr sig \<and> confirmTransaction_r (rpc w) 0 = Inr c
        \<and> (\<exists>tx sg. Call (SendTransaction tx sg (Some \<lparr>skipPreflight = False, preflightCommitment = None\<rparr>)) \<in> set (fst (script_spot_checked w)))
        \<and> Call (ConfirmTransaction (BySignature sig) None) \<in> set (fst (script_spot_checked w)))"
  unfolding spot_checked_main_defs
  by (auto simp: in_catch_console_error in_trace out_simps Let_def not_in_checks check_output_def)

lemma user_success:
  "ConsoleLog [Str ''User created!'', Str s] \<in> set (fst (script_user w))
   \<Longrightarrow> (\<exists>c. sendTransaction_r (rpc w) 0 = Inr s \<and> confirmTransaction_r (rpc w) 0 = Inr c
        \<and> (\<exists>tx sg. Call (SendTransaction tx sg (Some \<lparr>skipPreflight = True, preflightCommitment = None\<rparr>)) \<in> set (fst (script_user w)))
        \<and> Call (ConfirmTransaction (BySignature s) None) \<in> set (fst (script_user w)))"
  unfolding user_defs
  by (auto simp: in_catch_console_error in_trace out_simps Let_def)

lemma perp_success:
  "ConsoleLog [Str ''Converted to prediction market:'', Str s] \<in> set (fst (script_perp w))
   \<Longrightarrow> (\<exists>s0 c0 c. sendTransaction_r (rpc w) 0 = Inr s0 \<and> confirmTransaction_r (rpc w) 0 = Inr c0
        \<and> sendTransaction_r (rpc w) 1 = Inr s \<and> confirmTransaction_r (rpc w) 1 = Inr c
        \<and> (\<exists>tx sg. Call (SendTransaction tx sg
                (Some \<lparr>skipPreflight = False, preflightCommitment = Some ''confirmed''\<rparr>))
              \<in> set (fst (script_perp w)))
        \<and> Call (ConfirmTransaction (BySignature s0) None) \<in> set (fst (script_perp w))
        \<and> (\<exists>tx sg. Call (SendTransaction tx sg None) \<in> set (fst (script_perp w)))
        \<and> Call (ConfirmTransaction (BySignature s) None) \<in> set (fst (script_perp w)))"
  unfolding perp_defs
  by (auto simp: in_catch_console_error in_trace out_simps Let_def)

lemma order_success:
  "ConsoleLog [Str ''Order placed!'', Str s] \<in> set (trace (module_place_order w))
   \<Longrightarrow> (\<exists>c. sendTransaction_r (rpc w) 0 = Inr s \<and> confirmTransaction_r (rpc w) 0 = Inr c
        \<and> (\<exists>tx sg. Call (SendTransaction tx sg (Some \<lparr>skipPreflight = True, preflightCommitment = None\<rparr>)) \<in> set (trace (module_place_order w)))
        \<and> Call (ConfirmTransaction (BySignature s) None) \<in> set (trace (module_place_order w)))"
  unfolding order_defs
  by (auto simp: in_trace out_simps Let_def)

lemma mint_success:
  "ConsoleLog [Str ''Token account created and tokens minted successfully!'']
     \<in> set (trace (mockUSDCMint w))
   \<Longrightarrow> (\<exists>s0 s1 kp. sendAndConfirmTransaction_r (rpc w) 0 = Inr s0
        \<and> sendAndConfirmTransaction_r (rpc w) 1 = Inr s1
        \<and> outcome (load_keypair_dirname w) = Inr kp
        \<and> (\<exists>tx. Call (SendAndConfirmTransaction tx
                [publicKey kp, publicKey (Keypair_generate (hst w))] mint_opts)
              \<in> set (trace (mockUSDCMint w)))
        \<and> (\<exists>tx. Call (SendAndConfirmTransaction tx [publicKey kp] mint_opts)
              \<in> set (trace (mockUSDCMint w))))"
  unfolding mockUSDCMint_def mint_to_signer_def
  by (auto simp: in_trace out_simps Let_def)

lemma admin_success:
  "ConsoleLog [Str (''Successfully updated admin to: '' @ y)]
     \<in> set (trace (admin_try w pk pid y))
   \<Longrightarrow> (\<exists>sig bh c. updateAdmin_r (rpc w) = Inr sig \<and> getLatestBlockhash_r (rpc w) 0 = Inr bh
        \<and> confirmTransaction_r (rpc w) 0 = Inr c
        \<and> Call (UpdateAdmin y) \<in> set (trace (admin_try w pk pid y))
        \<and> Call (ConfirmTransaction (ByStrategy (blockhash bh) (lastValidBlockHeight bh) sig)
                   (Some ''confirmed'')) \<in> set (trace (admin_try w pk pid y)))"
  unfolding admin_try_def admin_verify_def
  by (auto simp: in_trace out_simps Let_def split_def)

lemma admin_try_in_script:
  assumes "outcome (admin_config w) = Inr (pk, pid, y)"
  shows "set (trace (admin_try w pk pid y)) \<subseteq> set (fst (script_update_admin w))"
  using assms
  by (auto simp: in_script_update_admin main_update_admin_def in_trace out_simps)

text \<open>
  Claim C3, as amended. In each script that submits a transaction, the line that
  reports success is printed only if the transaction was sent, the submission returned
  a signature and the confirmation call on that signature returned instead of
  throwing; a signature alone never leads to the success line. The mint script waits
  inside \<open>sendAndConfirmTransaction\<close>, and prints its success line only if both
  calls returned. In the admin update the statement is about the \<open>try\<close> block,
  which is where the script reports success, and whose events are events of the run.
  What the returned confirmation holds is not examined.
\<close>

theorem success_only_after_confirmation:
  "(ConsoleLog [Str ''Program initialized successfully!''] \<in> set (fst (script_initialize w)) \<longrightarrow>
      (\<exists>sig c. sendTransaction_r (rpc w) 0 = Inr sig \<and> confirmTransaction_r (rpc w) 0 = Inr c
        \<and> (\<exists>tx sg. Call (SendTransaction tx sg (Some \<lparr>skipPreflight = False, preflightCommitment = None\<rparr>)) \<in> set (fst (script_initialize w)))
        \<and> Call (ConfirmTransaction (BySignature sig) None) \<in> set (fst (script_initialize w))))
   \<and> (ConsoleLog [Str ''USDC spot market initialized!''] \<in> set (fst (script_spot w)) \<longrightarrow>
      (\<exists>sig c. sendTransaction_r (rpc w) 0 = Inr sig \<and> confirmTransaction_r (rpc w) 0 = Inr c
        \<and> (\<exists>tx sg. Call (SendTransaction tx sg (Some \<lparr>skipPreflight = False, preflightCommitment = Some ''confirmed''\<rparr>)) \<in> set (fst (script_spot w)))
        \<and> Call (ConfirmTransaction (BySignature sig) None) \<in> set (fst (script_spot w))))
   \<and> (ConsoleLog [Str ''USDC spot market initialized!''] \<in> set (fst (script_spot_checked w)) \<longrightarrow>
      (\<exists>sig c. sendTransaction_r (rpc w) 0 = Inr sig \<and> confirmTransaction_r (rpc w) 0 = Inr c
        \<and> (\<exists>tx sg. Call (SendTransaction tx sg (Some \<lparr>skipPreflight = False, preflightCommitment = None\<rparr>)) \<in> set (fst (script_spot_checked w)))
        \<and> Call (ConfirmTransaction (BySignature sig) None) \<in> set (fst (script_spot_checked w))))
   \<and> (ConsoleLog [Str ''User created!'', Str s] \<in> set (fst (script_user w)) \<longrightarrow>
      (\<exists>c. sendTransaction_r (rpc w) 0 = Inr s \<and> confirmTransaction_r (rpc w) 0 = Inr c
        \<and> (\<exists>tx sg. Call (SendTransaction tx sg (Some \<lparr>skipPreflight = True, preflightCommitment = None\<rparr>)) \<in> set (fst (script_user w)))
        \<and> Call (ConfirmTransaction (BySignature s) None) \<in> set (fst (script_user w))))
   \<and> (ConsoleLog [Str ''Converted to prediction market:'', Str s] \<in> set (fst (script_perp w)) \<longrightarrow>
      (\<exists>s0 c0 c. sendTransaction_r (rpc w) 0 = Inr s0 \<and> confirmTransaction_r (rpc w) 0 = Inr c0
        \<and> sendTransaction_r (rpc w) 1 = Inr s \<and> confirmTransaction_r (rpc w) 1 = Inr c
        \<and> (\<exists>tx sg. Call (SendTransaction tx sg
                (Some \<lparr>skipPreflight = False, preflightCommitment = Some ''confirmed''\<rparr>))
              \<in> set (fst (script_perp w)))
        \<and> Call (ConfirmTransaction (BySignature s0) None) \<in> set (fst (script_perp w))
        \<and> (\<exists>tx sg. Call (SendTransaction tx sg None) \<in> set (fst (script_perp w)))
        \<and> Call (ConfirmTransaction (BySignature s) None) \<in> set (fst (script_perp w))))
   \<and> (ConsoleLog [Str ''Order placed!'', Str s] \<in> set (trace (module_place_order w)) \<longrightarrow>
      (\<exists>c. sendTransaction_r (rpc w) 0 = Inr s \<and> confirmTransaction_r (rpc w) 0 = Inr c
        \<and> (\<exists>tx sg. Call (SendTransaction tx sg (Some \<lparr>skipPreflight = True, preflightCommitment = None\<rparr>)) \<in> set (trace (module_place_order w)))
        \<and> Call (ConfirmTransaction (BySignature s) None) \<in> set (trace (module_place_order w))))
   \<and> (ConsoleLog [Str ''Token account created and tokens minted successfully!'']
     \<in> set (trace (mockUSDCMint w)) \<longrightarrow>
      (\<exists>s0 s1 kp. sendAndConfirmTransaction_r (rpc w) 0 = Inr s0
        \<and> sendAndConfirmTransaction_r (rpc w) 1 = Inr s1
        \<and> outcome (load_keypair_dirname w) = Inr kp
        \<and> (\<exists>tx. Call (SendAndConfirmTransaction tx
                [publicKey kp, publicKey (Keypair_generate (hst w))] mint_opts)
              \<in> set (trace (mockUSDCMint w)))
        \<and> (\<exists>tx. Call (SendAndConfirmTransaction tx [publicKey kp] mint_opts)
              \<in> set (trace (mockUSDCMint w)))))
   \<and> (ConsoleLog [Str (''Successfully updated admin to: '' @ y)]
     \<in> set (trace (admin_try w pk pid y)) \<longrightarrow>
      (\<exists>sig bh c. updateAdmin_r (rpc w) = Inr sig \<and> getLatestBlockhash_r (rpc w) 0 = Inr bh
        \<and> confirmTransaction_r (rpc w) 0 = Inr c
        \<and> Call (UpdateAdmin y) \<in> set (trace (admin_try w pk pid y))
        \<and> Call (ConfirmTransaction (ByStrategy (blockhash bh) (lastValidBlockHeight bh) sig)
                   (Some ''confirmed'')) \<in> set (trace (admin_try w pk pid y))))
   \<and> (outcome (admin_config w) = Inr (pk, pid, y) \<longrightarrow>
      set (trace (admin_try w pk pid y)) \<subseteq> set (fst (script_update_admin w)))"
  using initialize_success [of w] spot_success [of w] spot_checked_success [of w]
    user_success [of s w] perp_success [of s w] order_success [of s w] mint_success [of w]
    admin_success [of y w pk pid] admin_try_in_script [of w pk pid y]
  by blast

text \<open>The runs of the scripts in the world where every call succeeds.\<close>

lemmas eval_simps = in_catch_console_error in_trace out_simps eval_defs Let_def split_def
  load_keypair_home_def load_keypair_dirname_def loadKeypairFromFile_def truthy_def or_else_def

lemma all_script_update_admin:
  "(\<forall>e\<in>set (fst (script_update_admin w)). P e) \<longleftrightarrow>
     (\<forall>e\<in>set (dotenv_report w). P e) \<and> (\<forall>e\<in>set (trace (main_update_admin w)). P e) \<and>
     (\<forall>err. outcome (main_update_admin w) = Inl err \<longrightarrow>
            P (ConsoleError [Str ''Unhandled error in main:'', ErrV err]))"
  by (auto simp: in_script_update_admin)

lemma w0_answers:
  "sendTransaction_r (rpc w0) 0 = Inr ''sigA''"
  "sendTransaction_r (rpc w0) 1 = Inr ''sigB''"
  "updateAdmin_r (rpc w0) = Inr ''sigU''"
  "getLatestBlockhash_r (rpc w0) 0 = Inr \<lparr>blockhash = ''hashA'', lastValidBlockHeight = 100\<rparr>"
  "getLatestBlockhash_r (rpc w0) 1 = Inr \<lparr>blockhash = ''hashB'', lastValidBlockHeight = 101\<rparr>"
  "confirmTransaction_r (rpc w0) i = Inr \<lparr>conf_slot = 7, conf_err = None\<rparr>"
  by (simp_all add: eval_defs)

lemma w0_initialize:
  "ConsoleLog [Str ''Program initialized successfully!''] \<in> set (fst (script_initialize w0))"
  unfolding initialize_defs by (simp add: eval_simps)

lemma w0_spot:
  "ConsoleLog [Str ''USDC spot market initialized!''] \<in> set (fst (script_spot w0))"
  unfolding spot_defs by (simp add: eval_simps)

lemma w0_spot_checked:
  "ConsoleLog [Str ''USDC spot market initialized!''] \<in> set (fst (script_spot_checked w0))"
  unfolding spot_checked_main_defs spot_checked_check_defs
  by (simp add: eval_simps optimalRate_def maxRate_def optimalUtilization_def activeStatus_def
      oracleSource_def weight_defs)

lemma w0_user:
  "ConsoleLog [Str ''User created!'', Str ''sigA''] \<in> set (fst (script_user w0))"
  unfolding user_defs by (simp add: eval_simps)

lemma w0_perp:
  "ConsoleLog [Str ''Converted to prediction market:'', Str ''sigB''] \<in> set (fst (script_perp w0))"
  unfolding perp_defs by (simp add: eval_simps)

lemma w0_order:
  "ConsoleLog [Str ''Order placed!'', Str ''sigA''] \<in> set (trace (module_place_order w0))"
  unfolding order_defs by (simp add: eval_simps)

lemma w0_mint:
  "ConsoleLog [Str ''Token account created and tokens minted successfully!'']
     \<in> set (trace (mockUSDCMint w0))"
  unfolding mockUSDCMint_def mint_to_signer_def by (simp add: eval_simps)

lemma w0_admin_try:
  "outcome (admin_config w0) = Inr (''Signer'', ''Prog'', ''NewAdmin'')"
  "ConsoleLog [Str (''Successfully updated admin to: '' @ ''NewAdmin'')]
     \<in> set (trace (admin_try w0 ''Signer'' ''Prog'' ''NewAdmin''))"
  by (simp_all add: admin_config_def admin_try_def admin_verify_def eval_simps)

lemma w_unconfirmed_answers:
  "confirmTransaction_r (rpc w_unconfirmed) 0 = Inl (Error ''block height exceeded'')"
  "sendTransaction_r (rpc w_unconfirmed) 0 = Inr ''sigA''"
  "updateAdmin_r (rpc w_unconfirmed) = Inr ''sigU''"
  by (simp_all add: w_unconfirmed_def eval_defs)

theorem success_only_after_confirmation_witness:
  "ConsoleLog [Str ''Program initialized successfully!''] \<in> set (fst (script_initialize w0))
   \<and> Call (ConfirmTransaction (BySignature ''sigA'') None) \<in> set (fst (script_initialize w0))
   \<and> ConsoleLog [Str ''USDC spot market initialized!''] \<in> set (fst (script_spot w0))
   \<and> Call (ConfirmTransaction (BySignature ''sigA'') None) \<in> set (fst (script_spot w0))
   \<and> ConsoleLog [Str ''USDC spot market initialized!''] \<in> set (fst (script_spot_checked w0))
   \<and> Call (ConfirmTransaction (BySignature ''sigA'') None) \<in> set (fst (script_spot_checked w0))
   \<and> ConsoleLog [Str ''User created!'', Str ''sigA''] \<in> set (fst (script_user w0))
   \<and> Call (ConfirmTransaction (BySignature ''sigA'') None) \<in> set (fst (script_user w0))
   \<and> ConsoleLog [Str ''Converted to prediction market:'', Str ''sigB''] \<in> set (fst (script_perp w0))
   \<and> Call (ConfirmTransaction (BySignature ''sigB'') None) \<in> set (fst (script_perp w0))
   \<and> ConsoleLog [Str ''Order placed!'', Str ''sigA''] \<in> set (trace (module_place_order w0))
   \<and> Call (ConfirmTransaction (BySignature ''sigA'') None) \<in> set (trace (module_place_order w0))
   \<and> ConsoleLog [Str ''Token account created and tokens minted successfully!'']
        \<in> set (trace (mockUSDCMint w0))
   \<and> ConsoleLog [Str (''Successfully updated admin to: '' @ ''NewAdmin'')]
        \<in> set (trace (admin_try w0 ''Signer'' ''Prog'' ''NewAdmin''))
   \<and> Call (UpdateAdmin ''NewAdmin'') \<in> set (fst (script_update_admin w0))
   \<and> Call (ConfirmTransaction (ByStrategy ''hashA'' 100 ''sigU'') (Some ''confirmed''))
        \<in> set (fst (script_update_admin w0))
   \<and> sendTransaction_r (rpc w_unconfirmed) 0 = Inr ''sigA''
   \<and> ConsoleLog [Str ''Program initialized successfully!'']
        \<notin> set (fst (script_initialize w_unconfirmed))
   \<and> updateAdmin_r (rpc w_unconfirmed) = Inr ''sigU''
   \<and> ConsoleLog [Str (''Successfully updated admin to: '' @ ''NewAdmin'')]
        \<notin> set (trace (admin_try w_unconfirmed ''Signer'' ''Prog'' ''NewAdmin''))"
  using success_only_after_confirmation
      [where w = w0 and s = "''sigA''" and y = "''NewAdmin''" and pk = "''Signer''"
         and pid = "''Prog''"]
    success_only_after_confirmation
      [where w = w0 and s = "''sigB''" and y = "''NewAdmin''" and pk = "''Signer''"
         and pid = "''Prog''"]
    success_only_after_confirmation
      [where w = w_unconfirmed and s = "''sigA''" and y = "''NewAdmin''" and pk = "''Signer''"
         and pid = "''Prog''"]
    w0_initialize w0_spot w0_spot_checked w0_user w0_perp w0_order w0_mint w0_admin_try
    w_unconfirmed_answers
  by (auto simp: w0_answers)

text \<open>
  Claim C3 as stated fails: the scripts print the confirmation result and then the
  success line without looking at the result. When the node answers the confirmation
  request with a result whose \<open>err\<close> field is set, initialize-program.ts still
  reports success.
\<close>

theorem success_despite_onchain_error:
  "confirmTransaction_r (rpc w_onchain_err) 0
     = Inr \<lparr>conf_slot = 7, conf_err = Some ''InstructionError''\<rparr>
   \<and> ConsoleLog [Str ''Program initialized successfully!'']
       \<in> set (fst (script_initialize w_onchain_err))"
  unfolding initialize_defs by (simp add: eval_simps w_onchain_err_def)

section \<open>The client subscription is released\<close>

lemma count_bind:
  "count_list (trace (bind m f)) e =
     count_list (trace m) e + (case outcome m of Inl err \<Rightarrow> 0 | Inr x \<Rightarrow> count_list (trace (f x)) e)"
  by (simp add: trace_bind split: sum.splits)

lemma count_seq:
  "count_list (trace (seq m n)) e =
     count_list (trace m) e + (case outcome m of Inl err \<Rightarrow> 0 | Inr x \<Rightarrow> count_list (trace n) e)"
  by (simp add: seq_def count_bind)

lemma count_try_finally:
  "count_list (trace (try_finally m fin)) e = count_list (trace m) e + count_list (trace fin) e"
  by (simp add: trace_try_finally)

lemma count_absent:
  "e \<notin> set (trace (try_catch m h)) \<Longrightarrow> count_list (trace (try_catch m h)) e = 0"
  by (simp add: count_list_0_iff)

lemma count_catch_console_error:
  "count_list (fst (catch_console_error m)) (Call c) = count_list (trace m) (Call c)"
  by (cases m; cases "snd m") (auto simp: catch_console_error_def trace_def)

lemma count_script_update_admin:
  "count_list (fst (script_update_admin w)) (Call c) = count_list (trace (main_update_admin w)) (Call c)"
proof -
  have "Call c \<notin> set (dotenv_report w)"
    using in_dotenv_report [of "Call c" w] by auto
  then have "count_list (dotenv_report w) (Call c) = 0"
    by (simp add: count_list_0_iff)
  then show ?thesis
    by (cases "main_update_admin w"; cases "snd (main_update_admin w)")
       (auto simp: script_update_admin_def trace_def)
qed

lemmas count_trace = count_bind count_seq count_try_finally count_absent trace_prims out_prims

lemma unsub_spot:
  "count_list (fst (script_spot w)) (Call Unsubscribe)
     = (if Call Subscribe \<in> set (fst (script_spot w)) then 1 else 0)"
  unfolding spot_defs
  by (simp add: count_catch_console_error in_catch_console_error count_trace in_trace out_simps
      Let_def split: sum.splits)


lemma unsub_spot_checked:
  "count_list (fst (script_spot_checked w)) (Call Unsubscribe)
     = (if Call Subscribe \<in> set (fst (script_spot_checked w)) then 1 else 0)"
  unfolding spot_checked_main_defs
  by (simp add: count_catch_console_error in_catch_console_error count_trace in_trace out_simps
      Let_def not_in_checks check_output_def split: sum.splits)

lemma unsub_user:
  "count_list (fst (script_user w)) (Call Unsubscribe)
     = (if Call Subscribe \<in> set (fst (script_user w)) then 1 else 0)"
  unfolding user_defs
  by (simp add: count_catch_console_error in_catch_console_error count_trace in_trace out_simps
      Let_def split: sum.splits)

lemma unsub_order:
  "count_list (trace (module_place_order w)) (Call Unsubscribe)
     = (if Call Subscribe \<in> set (trace (module_place_order w)) then 1 else 0)"
  unfolding order_defs
  by (simp add: count_trace in_trace out_simps Let_def split: sum.splits)

lemma unsub_check_state:
  "count_list (fst (script_check_state w)) (Call Unsubscribe)
     = (if Call Subscribe \<in> set (fst (script_check_state w)) then 1 else 0)"
  unfolding script_check_state_def main_check_state_def check_state_try_def
    check_state_spot_config_def
  by (simp add: count_catch_console_error in_catch_console_error count_trace in_trace out_simps
      Let_def split: sum.splits)

lemma no_call_admin_config: "Call c \<notin> set (trace (admin_config w))"
  unfolding admin_config_def
  by (simp add: in_trace out_simps Let_def)

lemma unsub_update_admin:
  "count_list (fst (script_update_admin w)) (Call Unsubscribe)
     = (if Call Subscribe \<in> set (fst (script_update_admin w)) then 1 else 0)"
proof -
  have d: "Call Subscribe \<notin> set (dotenv_report w)"
    using in_dotenv_report [of "Call Subscribe" w] by auto
  have c0: "count_list (trace (admin_config w)) (Call Unsubscribe) = 0"
    by (simp add: count_list_0_iff no_call_admin_config)
  show ?thesis
    unfolding count_script_update_admin
    by (simp add: in_script_update_admin d main_update_admin_def admin_try_def admin_verify_def
        admin_catch_def admin_finally_def count_trace in_trace out_simps c0
        no_call_admin_config split_def split: sum.splits)
qed

lemma unsub_perp:
  "(Call Subscribe \<in> set (fst (script_perp w)) \<and> subscribe_r (rpc w) = Inr ()
      \<longrightarrow> count_list (fst (script_perp w)) (Call Unsubscribe) = 1)
   \<and> (Call Subscribe \<notin> set (fst (script_perp w))
      \<longrightarrow> count_list (fst (script_perp w)) (Call Unsubscribe) = 0)"
  unfolding perp_defs
  by (simp add: count_catch_console_error in_catch_console_error count_trace in_trace out_simps
      Let_def split: sum.splits)


text \<open>
  Claim C1, as amended. In the two spot-market scripts, the admin update, order
  placement, user creation and state inspection, \<open>subscribe\<close> is the first call of
  the \<open>try\<close> block whose \<open>finally\<close> unsubscribes: an invocation that reaches
  \<open>subscribe\<close> calls \<open>unsubscribe\<close> exactly once, whether \<open>subscribe\<close> or any
  later step throws or all succeed, and an invocation that ends before \<open>subscribe\<close>
  (the key file, a setting or an address cannot be read) never calls it. In
  perp-market creation \<open>unsubscribe\<close> is called exactly once when \<open>subscribe\<close>
  returned, and never when the invocation ends before \<open>subscribe\<close>.
\<close>

theorem unsubscribed_once:
  "count_list (fst (script_spot w)) (Call Unsubscribe)
     = (if Call Subscribe \<in> set (fst (script_spot w)) then 1 else 0)
   \<and> count_list (fst (script_spot_checked w)) (Call Unsubscribe)
     = (if Call Subscribe \<in> set (fst (script_spot_checked w)) then 1 else 0)
   \<and> count_list (fst (script_update_admin w)) (Call Unsubscribe)
     = (if Call Subscribe \<in> set (fst (script_update_admin w)) then 1 else 0)
   \<and> count_list (trace (module_place_order w)) (Call Unsubscribe)
     = (if Call Subscribe \<in> set (trace (module_place_order w)) then 1 else 0)
   \<and> count_list (fst (script_user w)) (Call Unsubscribe)
     = (if Call Subscribe \<in> set (fst (script_user w)) then 1 else 0)
   \<and> count_list (fst (script_check_state w)) (Call Unsubscribe)
     = (if Call Subscribe \<in> set (fst (script_check_state w)) then 1 else 0)
   \<and> (Call Subscribe \<in> set (fst (script_perp w)) \<and> subscribe_r (rpc w) = Inr ()
      \<longrightarrow> count_list (fst (script_perp w)) (Call Unsubscribe) = 1)
   \<and> (Call Subscribe \<notin> set (fst (script_perp w))
      \<longrightarrow> count_list (fst (script_perp w)) (Call Unsubscribe) = 0)"
  using unsub_spot [of w] unsub_spot_checked [of w] unsub_update_admin [of w] unsub_order [of w]
    unsub_user [of w] unsub_check_state [of w] unsub_perp [of w]
  by simp

lemma w0_subscribed:
  "Call Subscribe \<in> set (fst (script_spot w0))"
  "Call Subscribe \<in> set (fst (script_spot_checked w0))"
  "Call Subscribe \<in> set (fst (script_update_admin w0))"
  "Call Subscribe \<in> set (trace (module_place_order w0))"
  "Call Subscribe \<in> set (fst (script_user w0))"
  "Call Subscribe \<in> set (fst (script_check_state w0))"
  "Call Subscribe \<in> set (fst (script_perp w0))"
  "subscribe_r (rpc w0) = Inr ()"
proof -
  show "Call Subscribe \<in> set (fst (script_spot w0))"
    unfolding spot_defs by (simp add: eval_simps)
  show "Call Subscribe \<in> set (fst (script_spot_checked w0))"
    unfolding spot_checked_main_defs spot_checked_check_defs
    by (simp add: eval_simps optimalRate_def maxRate_def optimalUtilization_def activeStatus_def
        oracleSource_def)
  show "Call Subscribe \<in> set (fst (script_update_admin w0))"
    by (simp add: in_script_update_admin admin_defs eval_simps)
  show "Call Subscribe \<in> set (trace (module_place_order w0))"
    unfolding order_defs by (simp add: eval_simps)
  show "Call Subscribe \<in> set (fst (script_user w0))"
    unfolding user_defs by (simp add: eval_simps)
  show "Call Subscribe \<in> set (fst (script_check_state w0))"
    unfolding script_check_state_def main_check_state_def check_state_try_def
      check_state_spot_config_def
    by (simp add: eval_simps)
  show "Call Subscribe \<in> set (fst (script_perp w0))"
    unfolding perp_defs by (simp add: eval_simps)
  show "subscribe_r (rpc w0) = Inr ()"
    by (simp add: eval_defs)
qed

theorem unsubscribed_once_witness:
  "Call Subscribe \<in> set (fst (script_perp w0)) \<and> subscribe_r (rpc w0) = Inr ()
   \<and> count_list (fst (script_perp w0)) (Call Unsubscribe) = 1
   \<and> count_list (fst (script_spot w0)) (Call Unsubscribe) = 1
   \<and> count_list (fst (script_spot_checked w0)) (Call Unsubscribe) = 1
   \<and> count_list (fst (script_update_admin w0)) (Call Unsubscribe) = 1
   \<and> count_list (trace (module_place_order w0)) (Call Unsubscribe) = 1
   \<and> count_list (fst (script_user w0)) (Call Unsubscribe) = 1
   \<and> count_list (fst (script_check_state w0)) (Call Unsubscribe) = 1"
  using unsubscribed_once [of w0] w0_subscribed by simp

text \<open>
  Claim C1 as stated fails for an exception thrown by a check made before the client
  is subscribed: when the state account does not exist, create-perp-market.ts throws
  before \<open>subscribe\<close>, its \<open>try\<close> statement is never entered, and
  \<open>unsubscribe\<close> is not called.
\<close>

theorem perp_precheck_never_unsubscribes:
  "count_list (fst (script_perp w_no_state)) (Call Unsubscribe) = 0
   \<and> Call Subscribe \<notin> set (fst (script_perp w_no_state))
   \<and> ConsoleError [ErrV (Error ''State account does not exist at: State. Please run initialize-program.ts first.'')]
       \<in> set (fst (script_perp w_no_state))"
proof -
  have n: "Call Subscribe \<notin> set (fst (script_perp w_no_state))"
    unfolding perp_defs by (simp add: eval_simps w_no_state_def)
  have e: "ConsoleError [ErrV (Error ''State account does not exist at: State. Please run initialize-program.ts first.'')]
             \<in> set (fst (script_perp w_no_state))"
    unfolding perp_defs by (simp add: eval_simps w_no_state_def)
  from unsub_perp [of w_no_state] n e show ?thesis by simp
qed

section \<open>A signer that is not the on-chain admin\<close>

lemma check_output_quiet:
  "check_output e \<Longrightarrow> \<not> is_submission e \<and> \<not> is_build e \<and> \<not> is_console_warn e \<and> \<not> is_console_error e"
  by (cases e rule: is_build.cases) (auto simp: check_output_def)

lemma quiet_checks:
  "\<forall>e\<in>set (trace (check_initialization w s0)). \<not> is_submission e \<and> \<not> is_build e \<and> \<not> is_console_warn e"
  "\<forall>e\<in>set (trace (announce_parameters w i)). \<not> is_submission e \<and> \<not> is_build e \<and> \<not> is_console_warn e"
  "\<forall>e\<in>set (trace (check_admin kp st)). \<not> is_submission e \<and> \<not> is_build e \<and> \<not> is_console_warn e"
  "\<forall>e\<in>set (trace check_borrow_rates). \<not> is_submission e \<and> \<not> is_build e \<and> \<not> is_console_warn e"
  "\<forall>e\<in>set (trace (check_margin_weights w)). \<not> is_submission e \<and> \<not> is_build e \<and> \<not> is_console_warn e"
  "\<forall>e\<in>set (trace (check_mint_decimals w m)). \<not> is_submission e \<and> \<not> is_build e \<and> \<not> is_console_warn e"
  "\<forall>e\<in>set (trace (check_oracle_and_status w kp st i)). \<not> is_submission e \<and> \<not> is_build e \<and> \<not> is_console_warn e"
proof -
  show "\<forall>e\<in>set (trace (check_initialization w s0)). \<not> is_submission e \<and> \<not> is_build e \<and> \<not> is_console_warn e"
    using out_check_initialization [of w s0] check_output_quiet by blast
  show "\<forall>e\<in>set (trace (announce_parameters w i)). \<not> is_submission e \<and> \<not> is_build e \<and> \<not> is_console_warn e"
    using out_announce_parameters [of w i] check_output_quiet by blast
  show "\<forall>e\<in>set (trace (check_admin kp st)). \<not> is_submission e \<and> \<not> is_build e \<and> \<not> is_console_warn e"
    using out_check_admin [of kp st] check_output_quiet by blast
  show "\<forall>e\<in>set (trace check_borrow_rates). \<not> is_submission e \<and> \<not> is_build e \<and> \<not> is_console_warn e"
    using out_check_borrow_rates check_output_quiet by blast
  show "\<forall>e\<in>set (trace (check_margin_weights w)). \<not> is_submission e \<and> \<not> is_build e \<and> \<not> is_console_warn e"
    using out_check_margin_weights [of w] check_output_quiet by blast
  show "\<forall>e\<in>set (trace (check_mint_decimals w m)). \<not> is_submission e \<and> \<not> is_build e \<and> \<not> is_console_warn e"
    using out_check_mint_decimals [of w m] check_output_quiet by blast
  show "\<forall>e\<in>set (trace (check_oracle_and_status w kp st i)). \<not> is_submission e \<and> \<not> is_build e \<and> \<not> is_console_warn e"
    using out_check_oracle_and_status [of w kp st i] check_output_quiet by blast
qed

text \<open>What the first two phases yield, and when the admin check passes.\<close>

lemma check_initialization_state:
  "outcome (check_initialization w s0) = Inr st \<Longrightarrow> s0 = Some st"
  unfolding check_initialization_def
  by (auto simp: out_simps split_def)

lemma check_admin_outcome:
  "outcome (check_admin kp st) =
     (if publicKey kp \<noteq> admin st then Inl (Error ''Current wallet is not the admin'') else Inr ())"
  by (cases "outcome (check_admin kp st)") (auto simp: check_admin_def out_simps)

lemma spot_checked_mismatch_no_submission:
  assumes "outcome (load_keypair_home w) = Inr kp"
    and "getStateAccount_r (rpc w) = Inr (Some st)"
    and "admin st \<noteq> publicKey kp"
  shows "\<forall>e\<in>set (fst (script_spot_checked w)). \<not> is_submission e \<and> \<not> is_build e \<and> \<not> is_console_warn e"
  using assms unfolding spot_checked_main_defs
  by (auto simp: all_catch_console_error all_trace out_simps Let_def quiet_checks
      check_admin_outcome dest!: check_initialization_state)

lemma spot_checked_mismatch_error:
  assumes "outcome (load_keypair_home w) = Inr kp"
    and "newPublicKey (hst w) (env (hst w) ''PROGRAM_ID'') = Inr pid"
    and "subscribe_r (rpc w) = Inr ()"
    and "getStateAccount_r (rpc w) = Inr (Some st)"
    and "outcome (check_initialization w (Some st)) = Inr st"
    and "outcome (announce_parameters w (numberOfMarkets st)) = Inr m"
    and "admin st \<noteq> publicKey kp"
  shows "ConsoleError [Str ''Error:'', ErrV (Error ''Current wallet is not the admin'')]
           \<in> set (fst (script_spot_checked w))"
  using assms unfolding spot_checked_main_defs
  by (auto simp: in_catch_console_error in_trace out_simps Let_def check_admin_outcome)

lemma admin_mismatch_proceeds:
  assumes "outcome (admin_config w) = Inr (pk, pid, y)"
    and "subscribe_r (rpc w) = Inr ()"
    and "getDriftStateAccountPublicKey_r (rpc w) = Inr spk"
    and "fetchState_r (rpc w) 0 = Inr (Some st)"
    and "admin st \<noteq> pk"
  shows "ConsoleWarn [Str (admin_mismatch_warning pk (admin st))] \<in> set (fst (script_update_admin w))
       \<and> Call (UpdateAdmin y) \<in> set (fst (script_update_admin w))
       \<and> (\<forall>err. updateAdmin_r (rpc w) = Inl err \<longrightarrow>
            ConsoleError [Str ''Error updating admin:'', ErrV err] \<in> set (fst (script_update_admin w)))"
  using assms
  by (auto simp: in_script_update_admin main_update_admin_def admin_try_def admin_catch_def
      in_trace out_simps)

text \<open>
  Claim C2, as amended. In the admin update, when the admin read from the chain is not
  the signer's key, the script prints the mismatch warning and still calls
  \<open>updateAdmin\<close>, and a rejection of that call is reported as an error of the
  update. The validating spot-market script instead treats the mismatch as a local
  failure: it builds and submits nothing and prints no warning, and when its check 1
  is reached it ends with the error \<open>Current wallet is not the admin\<close>.
\<close>

theorem admin_mismatch_behaviour:
  "(outcome (admin_config w) = Inr (pk, pid, y) \<and> subscribe_r (rpc w) = Inr ()
      \<and> getDriftStateAccountPublicKey_r (rpc w) = Inr spk
      \<and> fetchState_r (rpc w) 0 = Inr (Some st) \<and> admin st \<noteq> pk
    \<longrightarrow> ConsoleWarn [Str (admin_mismatch_warning pk (admin st))] \<in> set (fst (script_update_admin w))
       \<and> Call (UpdateAdmin y) \<in> set (fst (script_update_admin w))
       \<and> (\<forall>err. updateAdmin_r (rpc w) = Inl err \<longrightarrow>
            ConsoleError [Str ''Error updating admin:'', ErrV err] \<in> set (fst (script_update_admin w))))
   \<and> (outcome (load_keypair_home w) = Inr kp \<and> getStateAccount_r (rpc w) = Inr (Some st')
      \<and> admin st' \<noteq> publicKey kp
    \<longrightarrow> (\<forall>e\<in>set (fst (script_spot_checked w)).
            \<not> is_submission e \<and> \<not> is_build e \<and> \<not> is_console_warn e))
   \<and> (outcome (load_keypair_home w) = Inr kp
      \<and> newPublicKey (hst w) (env (hst w) ''PROGRAM_ID'') = Inr pid'
      \<and> subscribe_r (rpc w) = Inr () \<and> getStateAccount_r (rpc w) = Inr (Some st')
      \<and> outcome (check_initialization w (Some st')) = Inr st'
      \<and> outcome (announce_parameters w (numberOfMarkets st')) = Inr m
      \<and> admin st' \<noteq> publicKey kp
    \<longrightarrow> ConsoleError [Str ''Error:'', ErrV (Error ''Current wallet is not the admin'')]
           \<in> set (fst (script_spot_checked w)))"
  using admin_mismatch_proceeds [of w pk pid y spk st]
    spot_checked_mismatch_no_submission [of w kp st']
    spot_checked_mismatch_error [of w kp pid' st' m]
  by blast

lemma w_other_admin_reaches:
  "outcome (admin_config w_other_admin) = Inr (''Signer'', ''Prog'', ''NewAdmin'')"
  "subscribe_r (rpc w_other_admin) = Inr ()"
  "getDriftStateAccountPublicKey_r (rpc w_other_admin) = Inr ''State''"
  "fetchState_r (rpc w_other_admin) 0 = Inr (Some (state0\<lparr>admin := ''Other''\<rparr>))"
  "updateAdmin_r (rpc w_other_admin)
     = Inl (JSError ''custom program error: 0x7d3'' (Some [''Program log: ConstraintHasOne'']) True)"
  "outcome (load_keypair_home w_other_admin) = Inr (Keypair ''Signer'')"
  "newPublicKey (hst w_other_admin) (env (hst w_other_admin) ''PROGRAM_ID'') = Inr ''Prog''"
  "getStateAccount_r (rpc w_other_admin) = Inr (Some (state0\<lparr>admin := ''Other''\<rparr>))"
  "outcome (check_initialization w_other_admin (Some (state0\<lparr>admin := ''Other''\<rparr>)))
     = Inr (state0\<lparr>admin := ''Other''\<rparr>)"
  "outcome (announce_parameters w_other_admin (numberOfMarkets (state0\<lparr>admin := ''Other''\<rparr>)))
     = Inr ''Mint''"
  "admin (state0\<lparr>admin := ''Other''\<rparr>) \<noteq> ''Signer''"
  by (simp_all add: admin_config_def check_initialization_def announce_parameters_def
      w_other_admin_def eval_simps)

theorem admin_mismatch_behaviour_witness:
  "ConsoleWarn [Str (admin_mismatch_warning ''Signer'' ''Other'')]
      \<in> set (fst (script_update_admin w_other_admin))
   \<and> Call (UpdateAdmin ''NewAdmin'') \<in> set (fst (script_update_admin w_other_admin))
   \<and> ConsoleError [Str ''Error updating admin:'',
        ErrV (JSError ''custom program error: 0x7d3'' (Some [''Program log: ConstraintHasOne'']) True)]
      \<in> set (fst (script_update_admin w_other_admin))
   \<and> filter is_submission (fst (script_spot_checked w_other_admin)) = []
   \<and> filter is_build (fst (script_spot_checked w_other_admin)) = []
   \<and> filter is_console_warn (fst (script_spot_checked w_other_admin)) = []
   \<and> ConsoleError [Str ''Error:'', ErrV (Error ''Current wallet is not the admin'')]
      \<in> set (fst (script_spot_checked w_other_admin))"
  using admin_mismatch_behaviour
    [of w_other_admin "''Signer''" "''Prog''" "''NewAdmin''" "''State''"
        "state0\<lparr>admin := ''Other''\<rparr>" "Keypair ''Signer''" "state0\<lparr>admin := ''Other''\<rparr>"
        "''Prog''" "''Mint''"]
    w_other_admin_reaches
  by (simp add: filter_empty_conv)

text \<open>
  Claim C2 as stated fails for the validating spot-market script: with an on-chain
  admin other than the signer it prints no warning and submits nothing, and ends with
  its own error.
\<close>

theorem spot_checked_mismatch_fails_locally:
  "filter is_console_warn (fst (script_spot_checked w_other_admin)) = []
   \<and> filter is_submission (fst (script_spot_checked w_other_admin)) = []
   \<and> ConsoleError [Str ''Error:'', ErrV (Error ''Current wallet is not the admin'')]
      \<in> set (fst (script_spot_checked w_other_admin))"
  using spot_checked_mismatch_no_submission
          [of w_other_admin "Keypair ''Signer''" "state0\<lparr>admin := ''Other''\<rparr>"]
    spot_checked_mismatch_error
          [of w_other_admin "Keypair ''Signer''" "''Prog''" "state0\<lparr>admin := ''Other''\<rparr>" "''Mint''"]
    w_other_admin_reaches
  by (simp add: filter_empty_conv)

section \<open>Margin weights above the weight precision\<close>

lemma check_borrow_rates_outcome: "outcome check_borrow_rates = Inr ()"
  by (cases "outcome check_borrow_rates")
     (auto simp: check_borrow_rates_def out_simps optimalRate_def maxRate_def
        optimalUtilization_def)

lemma weight_exceeds:
  "initialAssetWeight > of_int p \<longleftrightarrow> p < 1"
  "maintenanceAssetWeight > of_int p \<longleftrightarrow> p < 1"
  "initialLiabilityWeight > of_int p \<longleftrightarrow> p < 1"
  "maintenanceLiabilityWeight > of_int p \<longleftrightarrow> p < 1"
  unfolding weight_defs by linarith+

lemma check_margin_weights_outcome:
  "outcome (check_margin_weights w) =
     (if SPOT_MARKET_WEIGHT_PRECISION (sdk w) < 1
      then Inl (Error ''Initial asset weight too high'')
      else Inr ())"
  by (cases "outcome (check_margin_weights w)")
     (auto simp: check_margin_weights_def out_simps weight_exceeds)








section \<open>Fee payer and recent blockhash of the transactions sent\<close>

lemma built_ok_append:
  "built_ok pk l (xs @ ys) \<longleftrightarrow> built_ok pk l xs \<and> built_ok pk (latest_after l xs) ys"
  by (induction pk l xs rule: built_ok.induct) auto

lemma latest_after_append:
  "latest_after l (xs @ ys) = latest_after (latest_after l xs) ys"
  by (induction l xs rule: latest_after.induct) auto

lemma quiet_trace:
  "\<forall>e\<in>set t. \<not> sends_or_fetches e \<Longrightarrow> built_ok pk l t \<and> latest_after l t = l"
  by (induction pk l t rule: built_ok.induct) auto

lemma built_bind:
  "built_ok pk l (trace (bind m f)) \<longleftrightarrow>
     built_ok pk l (trace m) \<and>
     (\<forall>x. outcome m = Inr x \<longrightarrow> built_ok pk (latest_after l (trace m)) (trace (f x)))"
  by (auto simp: trace_bind built_ok_append split: sum.splits)

lemma built_seq:
  "built_ok pk l (trace (seq m n)) \<longleftrightarrow>
     built_ok pk l (trace m) \<and>
     (outcome m = Inr () \<longrightarrow> built_ok pk (latest_after l (trace m)) (trace n))"
  by (simp add: seq_def built_bind)

lemma built_try_catch:
  "built_ok pk l (trace (try_catch m h)) \<longleftrightarrow>
     built_ok pk l (trace m) \<and>
     (\<forall>x. outcome m = Inl x \<longrightarrow> built_ok pk (latest_after l (trace m)) (trace (h x)))"
  by (auto simp: trace_try_catch built_ok_append split: sum.splits)

lemma built_try_finally:
  "built_ok pk l (trace (try_finally m fin)) \<longleftrightarrow>
     built_ok pk l (trace m) \<and> built_ok pk (latest_after l (trace m)) (trace fin)"
  by (simp add: trace_try_finally built_ok_append)

lemma built_catch_console_error:
  "built_ok pk l (fst (catch_console_error m)) \<longleftrightarrow> built_ok pk l (trace m)"
  by (cases m; cases "snd m")
     (auto simp: catch_console_error_def trace_def built_ok_append)

text \<open>Statements that neither fetch a blockhash nor send anything.\<close>

lemma quiet_block:
  "\<forall>e\<in>set (trace (block ms)). \<not> sends_or_fetches e \<Longrightarrow> built_ok pk l (trace (block ms))"
  "\<forall>e\<in>set (trace (block ms)). \<not> sends_or_fetches e \<Longrightarrow> latest_after l (trace (block ms)) = l"
  using quiet_trace by blast+

lemma quiet_case_option:
  "\<forall>e\<in>set (trace (case x of None \<Rightarrow> a | Some y \<Rightarrow> b y)). \<not> sends_or_fetches e
     \<Longrightarrow> built_ok pk l (trace (case x of None \<Rightarrow> a | Some y \<Rightarrow> b y))"
  "\<forall>e\<in>set (trace (case x of None \<Rightarrow> a | Some y \<Rightarrow> b y)). \<not> sends_or_fetches e
     \<Longrightarrow> latest_after l (trace (case x of None \<Rightarrow> a | Some y \<Rightarrow> b y)) = l"
  using quiet_trace by blast+

lemma fetch_simps:
  "built_ok pk l (Call (GetLatestBlockhash r) # es) =
     built_ok pk (case r of Inl err \<Rightarrow> l | Inr b \<Rightarrow> Some (blockhash b)) es"
  "latest_after l (Call (GetLatestBlockhash r) # es) =
     latest_after (case r of Inl err \<Rightarrow> l | Inr b \<Rightarrow> Some (blockhash b)) es"
  by (cases r; simp)+

lemma quiet_load_keypair:
  "built_ok pk l (trace (load_keypair_home w))"
  "built_ok pk l (trace (load_keypair_dirname w))"
  by simp_all

lemmas built_rules = built_catch_console_error built_bind built_seq built_try_catch
  built_try_finally quiet_block quiet_case_option fetch_simps trace_prims all_trace out_simps
  Let_def split_def

lemma built_initialize:
  "outcome (load_keypair_home w) = Inr kp \<Longrightarrow> built_ok (publicKey kp) None (fst (script_initialize w))"
  unfolding initialize_defs add_def new_Transaction_def
  by (simp add: built_rules del: block.simps)


lemma built_spot:
  "outcome (load_keypair_dirname w) = Inr kp \<Longrightarrow> built_ok (publicKey kp) None (fst (script_spot w))"
  unfolding spot_defs add_def new_Transaction_def
  by (simp add: built_rules del: block.simps)

lemma built_user:
  "outcome (load_keypair_dirname w) = Inr kp \<Longrightarrow> built_ok (publicKey kp) None (fst (script_user w))"
  unfolding user_defs add_def new_Transaction_def
  by (simp add: built_rules del: block.simps)

lemma built_perp:
  "outcome (load_keypair_home w) = Inr kp \<Longrightarrow> built_ok (publicKey kp) None (fst (script_perp w))"
  unfolding perp_defs add_def new_Transaction_def sign_def
  by (simp add: built_rules del: block.simps)

lemma built_order:
  "outcome (load_keypair_dirname w) = Inr kp
     \<Longrightarrow> built_ok (publicKey kp) None (trace (module_place_order w))"
  unfolding order_defs add_def new_Transaction_def
  by (simp add: built_rules del: block.simps)

lemma check_output_no_fetch: "check_output e \<Longrightarrow> \<not> sends_or_fetches e"
  by (cases e rule: sends_or_fetches.cases) (auto simp: check_output_def)

lemma quiet_checks_built:
  "built_ok pk l (trace (check_initialization w s0))"
  "latest_after l (trace (check_initialization w s0)) = l"
  "built_ok pk l (trace (announce_parameters w i))"
  "latest_after l (trace (announce_parameters w i)) = l"
  "built_ok pk l (trace (check_admin kp st))"
  "latest_after l (trace (check_admin kp st)) = l"
  "built_ok pk l (trace check_borrow_rates)"
  "latest_after l (trace check_borrow_rates) = l"
  "built_ok pk l (trace (check_margin_weights w))"
  "latest_after l (trace (check_margin_weights w)) = l"
  "built_ok pk l (trace (check_mint_decimals w m))"
  "latest_after l (trace (check_mint_decimals w m)) = l"
  "built_ok pk l (trace (check_oracle_and_status w kp st i))"
  "latest_after l (trace (check_oracle_and_status w kp st i)) = l"
proof -
  have q: "\<And>t. \<forall>e\<in>set t. check_output e \<Longrightarrow> built_ok pk l t \<and> latest_after l t = l"
    using quiet_trace check_output_no_fetch by blast
  show "built_ok pk l (trace (check_initialization w s0))"
    and "latest_after l (trace (check_initialization w s0)) = l"
    using q [OF out_check_initialization [of w s0]] by simp_all
  show "built_ok pk l (trace (announce_parameters w i))"
    and "latest_after l (trace (announce_parameters w i)) = l"
    using q [OF out_announce_parameters [of w i]] by simp_all
  show "built_ok pk l (trace (check_admin kp st))"
    and "latest_after l (trace (check_admin kp st)) = l"
    using q [OF out_check_admin [of kp st]] by simp_all
  show "built_ok pk l (trace check_borrow_rates)"
    and "latest_after l (trace check_borrow_rates) = l"
    using q [OF out_check_borrow_rates] by simp_all
  show "built_ok pk l (trace (check_margin_weights w))"
    and "latest_after l (trace (check_margin_weights w)) = l"
    using q [OF out_check_margin_weights [of w]] by simp_all
  show "built_ok pk l (trace (check_mint_decimals w m))"
    and "latest_after l (trace (check_mint_decimals w m)) = l"
    using q [OF out_check_mint_decimals [of w m]] by simp_all
  show "built_ok pk l (trace (check_oracle_and_status w kp st i))"
    and "latest_after l (trace (check_oracle_and_status w kp st i)) = l"
    using q [OF out_check_oracle_and_status [of w kp st i]] by simp_all
qed

lemma no_fetch_checks:
  "\<forall>e\<in>set (trace (check_admin kp st)). \<not> sends_or_fetches e"
  "\<forall>e\<in>set (trace check_borrow_rates). \<not> sends_or_fetches e"
  "\<forall>e\<in>set (trace (check_margin_weights w)). \<not> sends_or_fetches e"
  "\<forall>e\<in>set (trace (check_mint_decimals w m)). \<not> sends_or_fetches e"
  "\<forall>e\<in>set (trace (check_oracle_and_status w kp st i)). \<not> sends_or_fetches e"
proof -
  show "\<forall>e\<in>set (trace (check_admin kp st)). \<not> sends_or_fetches e"
    using out_check_admin [of kp st] check_output_no_fetch by blast
  show "\<forall>e\<in>set (trace check_borrow_rates). \<not> sends_or_fetches e"
    using out_check_borrow_rates check_output_no_fetch by blast
  show "\<forall>e\<in>set (trace (check_margin_weights w)). \<not> sends_or_fetches e"
    using out_check_margin_weights [of w] check_output_no_fetch by blast
  show "\<forall>e\<in>set (trace (check_mint_decimals w m)). \<not> sends_or_fetches e"
    using out_check_mint_decimals [of w m] check_output_no_fetch by blast
  show "\<forall>e\<in>set (trace (check_oracle_and_status w kp st i)). \<not> sends_or_fetches e"
    using out_check_oracle_and_status [of w kp st i] check_output_no_fetch by blast
qed

lemma built_spot_checked:
  "outcome (load_keypair_home w) = Inr kp
     \<Longrightarrow> built_ok (publicKey kp) None (fst (script_spot_checked w))"
  unfolding spot_checked_main_defs add_def new_Transaction_def
  by (simp add: built_rules quiet_checks_built no_fetch_checks del: block.simps)


lemma check_mint_decimals_outcome:
  "getParsedAccountInfo_r (rpc w) = Inr (Some (ParsedData 6))
     \<Longrightarrow> outcome (check_mint_decimals w m) = Inr ()"
  by (simp add: check_mint_decimals_def out_simps)

lemma check_oracle_and_status_outcome:
  "publicKey kp = admin st \<Longrightarrow> outcome (check_oracle_and_status w kp st i) = Inr ()"
  by (simp add: check_oracle_and_status_def out_simps Let_def activeStatus_def oracleSource_def)

lemma sent_initialize:
  assumes "outcome (load_keypair_home w) = Inr kp"
    and "newPublicKey (hst w) (env (hst w) ''PROGRAM_ID'') = Inr pid"
    and "newPublicKey (hst w) (env (hst w) ''USDC_MINT'') = Inr mint"
    and "findProgramAddressSync (hst w) ''drift_signer'' pid = Inr (ds, n1)"
    and "findProgramAddressSync (hst w) ''drift_state'' pid = Inr (sa, n2)"
    and "getLatestBlockhash_r (rpc w) 0 = Inr bh"
  shows "Call (SendTransaction
           \<lparr>instructions = [initializeIx w kp pid sa mint ds], feePayer = Some (publicKey kp),
            recentBlockhash = Some (blockhash bh), signatures = []\<rparr>
           [publicKey kp] (Some \<lparr>skipPreflight = False, preflightCommitment = None\<rparr>))
         \<in> set (fst (script_initialize w))"
  using assms unfolding initialize_defs add_def new_Transaction_def
  by (simp add: in_catch_console_error in_trace out_simps Let_def)

lemma sent_spot:
  assumes "outcome (load_keypair_dirname w) = Inr kp"
    and "newPublicKey (hst w) (Some ''EpNqZ7KyCuW9yJb7hNAvqchB6S5oSCNpQhpmnNZDYwUJ'') = Inr pid"
    and "subscribe_r (rpc w) = Inr ()"
    and "getStateAccount_r (rpc w) = Inr (Some st)"
    and "newPublicKey (hst w) (Some ''4zMMC9srt5Ri5X14GAgXhaHii3GnPAEERYPJgZJDncDU'') = Inr mint"
    and "getInitializeSpotMarketIx_r (rpc w) = Inr ix"
    and "getLatestBlockhash_r (rpc w) 0 = Inr bh"
  shows "Call (SendTransaction
           \<lparr>instructions = [ix], feePayer = Some (publicKey kp),
            recentBlockhash = Some (blockhash bh), signatures = []\<rparr>
           [publicKey kp] (Some \<lparr>skipPreflight = False, preflightCommitment = Some ''confirmed''\<rparr>))
         \<in> set (fst (script_spot w))"
  using assms unfolding spot_defs add_def new_Transaction_def
  by (simp add: in_catch_console_error in_trace out_simps Let_def)

lemma sent_spot_checked:
  assumes "outcome (load_keypair_home w) = Inr kp"
    and "newPublicKey (hst w) (env (hst w) ''PROGRAM_ID'') = Inr pid"
    and "subscribe_r (rpc w) = Inr ()"
    and "getStateAccount_r (rpc w) = Inr s0"
    and "outcome (check_initialization w s0) = Inr st"
    and "outcome (announce_parameters w (numberOfMarkets st)) = Inr mint"
    and "publicKey kp = admin st"
    and "1 \<le> SPOT_MARKET_WEIGHT_PRECISION (sdk w)"
    and "getParsedAccountInfo_r (rpc w) = Inr (Some (ParsedData 6))"
    and "getInitializeSpotMarketIx_r (rpc w) = Inr ix"
    and "getLatestBlockhash_r (rpc w) 0 = Inr bh"
  shows "Call (SendTransaction
           \<lparr>instructions = [ix], feePayer = Some (publicKey kp),
            recentBlockhash = Some (blockhash bh), signatures = []\<rparr>
           [publicKey kp] (Some \<lparr>skipPreflight = False, preflightCommitment = None\<rparr>))
         \<in> set (fst (script_spot_checked w))"
  using assms unfolding spot_checked_main_defs add_def new_Transaction_def
  by (simp add: in_catch_console_error in_trace out_simps Let_def check_admin_outcome
      check_borrow_rates_outcome check_margin_weights_outcome check_mint_decimals_outcome
      check_oracle_and_status_outcome)

lemma sent_user:
  assumes "outcome (load_keypair_dirname w) = Inr kp"
    and "newPublicKey (hst w) (Some ''EpNqZ7KyCuW9yJb7hNAvqchB6S5oSCNpQhpmnNZDYwUJ'') = Inr pid"
    and "subscribe_r (rpc w) = Inr ()"
    and "getInitializeUserAccountIxs_r (rpc w) = Inr (ixs, u)"
    and "getLatestBlockhash_r (rpc w) 0 = Inr bh"
  shows "Call (SendTransaction
           \<lparr>instructions = ixs, feePayer = Some (publicKey kp),
            recentBlockhash = Some (blockhash bh), signatures = []\<rparr>
           [publicKey kp] (Some \<lparr>skipPreflight = True, preflightCommitment = None\<rparr>))
         \<in> set (fst (script_user w))"
  using assms unfolding user_defs add_def new_Transaction_def
  by (simp add: in_catch_console_error in_trace out_simps Let_def)

lemma sent_perp:
  assumes "outcome (load_keypair_home w) = Inr kp"
    and "newPublicKey (hst w) (env (hst w) ''PROGRAM_ID'') = Inr pid"
    and "getStatePublicKey_r (rpc w) = Inr spk"
    and "getAccountInfo_r (rpc w) 0 = Inr (Some info)"
    and "subscribe_r (rpc w) = Inr ()"
    and "getStateAccount_r (rpc w) = Inr (Some st)"
    and "newPublicKey (hst w) (Some ''FgBGHNex4urrBmNbSj8ntNQDGqeHcWewKtkvL6JE6dEX'') = Inr orc"
    and "getInitializePerpMarketIx_r (rpc w) = Inr ix"
    and "getLatestBlockhash_r (rpc w) 0 = Inr bh"
  shows "Call (SendTransaction
           \<lparr>instructions = [ix], feePayer = Some (publicKey kp),
            recentBlockhash = Some (blockhash bh), signatures = [publicKey kp]\<rparr>
           [publicKey kp] (Some \<lparr>skipPreflight = False, preflightCommitment = Some ''confirmed''\<rparr>))
         \<in> set (fst (script_perp w))"
    and "sendTransaction_r (rpc w) 0 = Inr sig \<Longrightarrow> confirmTransaction_r (rpc w) 0 = Inr c \<Longrightarrow>
         getInitializePredictionMarketIx_r (rpc w) = Inr ix' \<Longrightarrow>
         getLatestBlockhash_r (rpc w) 1 = Inr bh' \<Longrightarrow>
         Call (SendTransaction
           \<lparr>instructions = [ix'], feePayer = Some (publicKey kp),
            recentBlockhash = Some (blockhash bh'), signatures = []\<rparr>
           [publicKey kp] None)
         \<in> set (fst (script_perp w))"
  using assms unfolding perp_defs add_def new_Transaction_def sign_def
  by (simp_all add: in_catch_console_error in_trace out_simps Let_def)

lemma sent_order:
  assumes "outcome (load_keypair_dirname w) = Inr kp"
    and "newPublicKey (hst w) (Some ''EpNqZ7KyCuW9yJb7hNAvqchB6S5oSCNpQhpmnNZDYwUJ'') = Inr pid"
    and "getUserAccountPublicKeySync (hst w) pid (publicKey kp) = Inr u"
    and "subscribe_r (rpc w) = Inr ()"
    and "getStateAccount_r (rpc w) = Inr s"
    and "getPerpMarketPublicKey_r (rpc w) = Inr pm"
    and "getSpotMarketPublicKey_r (rpc w) = Inr sm"
    and "getPerpMarketAccount_r (rpc w) = Inr (Some pa)"
    and "getSpotMarketAccount_r (rpc w) = Inr (Some sa)"
    and "getPlacePerpOrderIx_r (rpc w) = Inr ix"
    and "getLatestBlockhash_r (rpc w) 0 = Inr bh"
  shows "Call (SendTransaction
           \<lparr>instructions = [ix], feePayer = Some (publicKey kp),
            recentBlockhash = Some (blockhash bh), signatures = []\<rparr>
           [publicKey kp] (Some \<lparr>skipPreflight = True, preflightCommitment = None\<rparr>))
         \<in> set (trace (module_place_order w))"
  using assms unfolding order_defs add_def new_Transaction_def
  by (simp add: in_trace out_simps Let_def)

text \<open>
  Claim C6, as amended. In every script that builds a transaction and hands it to
  \<open>sendTransaction\<close> (program initialisation, both spot-market scripts,
  perp-market creation with its two transactions, user creation, order placement), and
  in every world, each transaction sent has the loaded signer's public key as fee
  payer and, as recent blockhash, the blockhash returned by the last
  \<open>getLatestBlockhash\<close> call that resolved before the send. And each of these
  scripts does send such a transaction: when the steps before the send succeed, the
  builder returns an instruction and \<open>getLatestBlockhash\<close> resolves, the script
  calls \<open>sendTransaction\<close> with the transaction that holds that instruction, the
  signer as fee payer and the blockhash just fetched, signed by the signer.
\<close>

theorem built_with_signer_and_latest_blockhash:
  "(outcome (load_keypair_home w) = Inr kp \<longrightarrow>
      built_ok (publicKey kp) None (fst (script_initialize w))
      \<and> built_ok (publicKey kp) None (fst (script_spot_checked w))
      \<and> built_ok (publicKey kp) None (fst (script_perp w)))
   \<and> (outcome (load_keypair_dirname w) = Inr kd \<longrightarrow>
      built_ok (publicKey kd) None (fst (script_spot w))
      \<and> built_ok (publicKey kd) None (fst (script_user w))
      \<and> built_ok (publicKey kd) None (trace (module_place_order w)))
   \<and> (outcome (load_keypair_home w) = Inr kp
      \<and> newPublicKey (hst w) (env (hst w) ''PROGRAM_ID'') = Inr pid
      \<and> newPublicKey (hst w) (env (hst w) ''USDC_MINT'') = Inr mint
      \<and> findProgramAddressSync (hst w) ''drift_signer'' pid = Inr (ds, n1)
      \<and> findProgramAddressSync (hst w) ''drift_state'' pid = Inr (sa, n2)
      \<and> getLatestBlockhash_r (rpc w) 0 = Inr bh
    \<longrightarrow>
      Call (SendTransaction
        \<lparr>instructions = [initializeIx w kp pid sa mint ds], feePayer = Some (publicKey kp),
         recentBlockhash = Some (blockhash bh), signatures = []\<rparr>
        [publicKey kp] (Some \<lparr>skipPreflight = False, preflightCommitment = None\<rparr>))
      \<in> set (fst (script_initialize w)))
   \<and> (outcome (load_keypair_dirname w) = Inr kd
      \<and> newPublicKey (hst w) (Some ''EpNqZ7KyCuW9yJb7hNAvqchB6S5oSCNpQhpmnNZDYwUJ'') = Inr pid'
      \<and> subscribe_r (rpc w) = Inr ()
      \<and> getStateAccount_r (rpc w) = Inr (Some st)
      \<and> newPublicKey (hst w) (Some ''4zMMC9srt5Ri5X14GAgXhaHii3GnPAEERYPJgZJDncDU'') = Inr mint'
      \<and> getInitializeSpotMarketIx_r (rpc w) = Inr ix
      \<and> getLatestBlockhash_r (rpc w) 0 = Inr bh
    \<longrightarrow>
      Call (SendTransaction
        \<lparr>instructions = [ix], feePayer = Some (publicKey kd),
         recentBlockhash = Some (blockhash bh), signatures = []\<rparr>
        [publicKey kd] (Some \<lparr>skipPreflight = False, preflightCommitment = Some ''confirmed''\<rparr>))
      \<in> set (fst (script_spot w)))
   \<and> (outcome (load_keypair_home w) = Inr kp
      \<and> newPublicKey (hst w) (env (hst w) ''PROGRAM_ID'') = Inr pid
      \<and> subscribe_r (rpc w) = Inr ()
      \<and> getStateAccount_r (rpc w) = Inr s0
      \<and> outcome (check_initialization w s0) = Inr st
      \<and> outcome (announce_parameters w (numberOfMarkets st)) = Inr mint
      \<and> publicKey kp = admin st
      \<and> 1 \<le> SPOT_MARKET_WEIGHT_PRECISION (sdk w)
      \<and> getParsedAccountInfo_r (rpc w) = Inr (Some (ParsedData 6))
      \<and> getInitializeSpotMarketIx_r (rpc w) = Inr ix
      \<and> getLatestBlockhash_r (rpc w) 0 = Inr bh
    \<longrightarrow>
      Call (SendTransaction
        \<lparr>instructions = [ix], feePayer = Some (publicKey kp),
         recentBlockhash = Some (blockhash bh), signatures = []\<rparr>
        [publicKey kp] (Some \<lparr>skipPreflight = False, preflightCommitment = None\<rparr>))
      \<in> set (fst (script_spot_checked w)))
   \<and> (outcome (load_keypair_dirname w) = Inr kd
      \<and> newPublicKey (hst w) (Some ''EpNqZ7KyCuW9yJb7hNAvqchB6S5oSCNpQhpmnNZDYwUJ'') = Inr pid'
      \<and> subscribe_r (rpc w) = Inr ()
      \<and> getInitializeUserAccountIxs_r (rpc w) = Inr (ixs, u)
      \<and> getLatestBlockhash_r (rpc w) 0 = Inr bh
    \<longrightarrow>
      Call (SendTransaction
        \<lparr>instructions = ixs, feePayer = Some (publicKey kd),
         recentBlockhash = Some (blockhash bh), signatures = []\<rparr>
        [publicKey kd] (Some \<lparr>skipPreflight = True, preflightCommitment = None\<rparr>))
      \<in> set (fst (script_user w)))
   \<and> (outcome (load_keypair_home w) = Inr kp
      \<and> newPublicKey (hst w) (env (hst w) ''PROGRAM_ID'') = Inr pid
      \<and> getStatePublicKey_r (rpc w) = Inr spk
      \<and> getAccountInfo_r (rpc w) 0 = Inr (Some info)
      \<and> subscribe_r (rpc w) = Inr ()
      \<and> getStateAccount_r (rpc w) = Inr (Some st)
      \<and> newPublicKey (hst w) (Some ''FgBGHNex4urrBmNbSj8ntNQDGqeHcWewKtkvL6JE6dEX'') = Inr orc
      \<and> getInitializePerpMarketIx_r (rpc w) = Inr pix
      \<and> getLatestBlockhash_r (rpc w) 0 = Inr bh
    \<longrightarrow>
      Call (SendTransaction
        \<lparr>instructions = [pix], feePayer = Some (publicKey kp),
         recentBlockhash = Some (blockhash bh), signatures = [publicKey kp]\<rparr>
        [publicKey kp] (Some \<lparr>skipPreflight = False, preflightCommitment = Some ''confirmed''\<rparr>))
      \<in> set (fst (script_perp w))
      \<and> (sendTransaction_r (rpc w) 0 = Inr sig
          \<and> confirmTransaction_r (rpc w) 0 = Inr c
          \<and> getInitializePredictionMarketIx_r (rpc w) = Inr pix'
          \<and> getLatestBlockhash_r (rpc w) 1 = Inr bh'
        \<longrightarrow>
          Call (SendTransaction
            \<lparr>instructions = [pix'], feePayer = Some (publicKey kp),
             recentBlockhash = Some (blockhash bh'), signatures = []\<rparr>
            [publicKey kp] None)
          \<in> set (fst (script_perp w))))
   \<and> (outcome (load_keypair_dirname w) = Inr kd
      \<and> newPublicKey (hst w) (Some ''EpNqZ7KyCuW9yJb7hNAvqchB6S5oSCNpQhpmnNZDYwUJ'') = Inr pid'
      \<and> getUserAccountPublicKeySync (hst w) pid' (publicKey kd) = Inr ua
      \<and> subscribe_r (rpc w) = Inr ()
      \<and> getStateAccount_r (rpc w) = Inr s0
      \<and> getPerpMarketPublicKey_r (rpc w) = Inr pm
      \<and> getSpotMarketPublicKey_r (rpc w) = Inr sm
      \<and> getPerpMarketAccount_r (rpc w) = Inr (Some pa)
      \<and> getSpotMarketAccount_r (rpc w) = Inr (Some sma)
      \<and> getPlacePerpOrderIx_r (rpc w) = Inr oix
      \<and> getLatestBlockhash_r (rpc w) 0 = Inr bh
    \<longrightarrow>
      Call (SendTransaction
        \<lparr>instructions = [oix], feePayer = Some (publicKey kd),
         recentBlockhash = Some (blockhash bh), signatures = []\<rparr>
        [publicKey kd] (Some \<lparr>skipPreflight = True, preflightCommitment = None\<rparr>))
      \<in> set (trace (module_place_order w)))"
  by (intro conjI impI; (elim conjE)?;
      (rule built_initialize built_spot_checked built_perp built_spot built_user built_order
         sent_initialize sent_spot sent_spot_checked sent_user sent_perp sent_order;
       assumption))

lemma w0_loads:
  "outcome (load_keypair_home w0) = Inr (Keypair ''Signer'')"
  "outcome (load_keypair_dirname w0) = Inr (Keypair ''Signer'')"
  by (simp_all add: eval_simps)

text \<open>What the steps before the send yield in \<open>w0\<close>.\<close>

lemma w0_steps:
  "newPublicKey (hst w0) (env (hst w0) ''PROGRAM_ID'') = Inr ''Prog''"
  "newPublicKey (hst w0) (env (hst w0) ''USDC_MINT'') = Inr ''Mint''"
  "findProgramAddressSync (hst w0) ''drift_signer'' ''Prog'' = Inr (''drift_signer@Prog'', 255)"
  "findProgramAddressSync (hst w0) ''drift_state'' ''Prog'' = Inr (''drift_state@Prog'', 255)"
  "newPublicKey (hst w0) (Some ''EpNqZ7KyCuW9yJb7hNAvqchB6S5oSCNpQhpmnNZDYwUJ'')
     = Inr ''EpNqZ7KyCuW9yJb7hNAvqchB6S5oSCNpQhpmnNZDYwUJ''"
  "newPublicKey (hst w0) (Some ''4zMMC9srt5Ri5X14GAgXhaHii3GnPAEERYPJgZJDncDU'')
     = Inr ''4zMMC9srt5Ri5X14GAgXhaHii3GnPAEERYPJgZJDncDU''"
  "newPublicKey (hst w0) (Some ''FgBGHNex4urrBmNbSj8ntNQDGqeHcWewKtkvL6JE6dEX'')
     = Inr ''FgBGHNex4urrBmNbSj8ntNQDGqeHcWewKtkvL6JE6dEX''"
  "getUserAccountPublicKeySync (hst w0) ''EpNqZ7KyCuW9yJb7hNAvqchB6S5oSCNpQhpmnNZDYwUJ''
     (publicKey (Keypair ''Signer'')) = Inr ''user@Signer''"
  "subscribe_r (rpc w0) = Inr ()"
  "getStateAccount_r (rpc w0) = Inr (Some state0)"
  "outcome (check_initialization w0 (Some state0)) = Inr state0"
  "outcome (announce_parameters w0 (numberOfMarkets state0)) = Inr ''Mint''"
  "publicKey (Keypair ''Signer'') = admin state0"
  "1 \<le> SPOT_MARKET_WEIGHT_PRECISION (sdk w0)"
  "getParsedAccountInfo_r (rpc w0) = Inr (Some (ParsedData 6))"
  "getStatePublicKey_r (rpc w0) = Inr ''State''"
  "getAccountInfo_r (rpc w0) 0 = Inr (Some \<lparr>data_length = 992, owner = ''Prog''\<rparr>)"
  "getPerpMarketPublicKey_r (rpc w0) = Inr ''Perp1''"
  "getSpotMarketPublicKey_r (rpc w0) = Inr ''Spot0''"
  "getPerpMarketAccount_r (rpc w0) = Inr (Some ())"
  "getSpotMarketAccount_r (rpc w0)
     = Inr (Some \<lparr>sm_mint = ''Mint'', sm_oracle = ''11111111111111111111111111111111'',
                    sm_oracleSource = ''quoteAsset'', sm_status = ''active''\<rparr>)"
  "getInitializeSpotMarketIx_r (rpc w0) = Inr (Instruction ''Prog'' [] [1])"
  "getInitializePerpMarketIx_r (rpc w0) = Inr (Instruction ''Prog'' [] [2])"
  "getInitializePredictionMarketIx_r (rpc w0) = Inr (Instruction ''Prog'' [] [3])"
  "getInitializeUserAccountIxs_r (rpc w0) = Inr ([Instruction ''Prog'' [] [4]], ''User'')"
  "getPlacePerpOrderIx_r (rpc w0) = Inr (Instruction ''Prog'' [] [5])"
  by (simp_all add: check_initialization_def announce_parameters_def eval_simps)

theorem built_with_signer_and_latest_blockhash_witness:
  "built_ok ''Signer'' None (fst (script_initialize w0))
   \<and> built_ok ''Signer'' None (fst (script_spot_checked w0))
   \<and> built_ok ''Signer'' None (fst (script_perp w0))
   \<and> built_ok ''Signer'' None (fst (script_spot w0))
   \<and> built_ok ''Signer'' None (fst (script_user w0))
   \<and> built_ok ''Signer'' None (trace (module_place_order w0))
   \<and> Call (SendTransaction
        \<lparr>instructions = [initializeIx w0 (Keypair ''Signer'') ''Prog'' ''drift_state@Prog''
                           ''Mint'' ''drift_signer@Prog''],
         feePayer = Some ''Signer'', recentBlockhash = Some ''hashA'', signatures = []\<rparr>
        [''Signer''] (Some \<lparr>skipPreflight = False, preflightCommitment = None\<rparr>))
       \<in> set (fst (script_initialize w0))
   \<and> Call (SendTransaction
        \<lparr>instructions = [Instruction ''Prog'' [] [1]], feePayer = Some ''Signer'',
         recentBlockhash = Some ''hashA'', signatures = []\<rparr>
        [''Signer''] (Some \<lparr>skipPreflight = False, preflightCommitment = Some ''confirmed''\<rparr>))
       \<in> set (fst (script_spot w0))
   \<and> Call (SendTransaction
        \<lparr>instructions = [Instruction ''Prog'' [] [1]], feePayer = Some ''Signer'',
         recentBlockhash = Some ''hashA'', signatures = []\<rparr>
        [''Signer''] (Some \<lparr>skipPreflight = False, preflightCommitment = None\<rparr>))
       \<in> set (fst (script_spot_checked w0))
   \<and> Call (SendTransaction
        \<lparr>instructions = [Instruction ''Prog'' [] [4]], feePayer = Some ''Signer'',
         recentBlockhash = Some ''hashA'', signatures = []\<rparr>
        [''Signer''] (Some \<lparr>skipPreflight = True, preflightCommitment = None\<rparr>))
       \<in> set (fst (script_user w0))
   \<and> Call (SendTransaction
        \<lparr>instructions = [Instruction ''Prog'' [] [2]], feePayer = Some ''Signer'',
         recentBlockhash = Some ''hashA'', signatures = [''Signer'']\<rparr>
        [''Signer''] (Some \<lparr>skipPreflight = False, preflightCommitment = Some ''confirmed''\<rparr>))
       \<in> set (fst (script_perp w0))
   \<and> Call (SendTransaction
        \<lparr>instructions = [Instruction ''Prog'' [] [3]], feePayer = Some ''Signer'',
         recentBlockhash = Some ''hashB'', signatures = []\<rparr> [''Signer''] None)
       \<in> set (fst (script_perp w0))
   \<and> Call (SendTransaction
        \<lparr>instructions = [Instruction ''Prog'' [] [5]], feePayer = Some ''Signer'',
         recentBlockhash = Some ''hashA'', signatures = []\<rparr>
        [''Signer''] (Some \<lparr>skipPreflight = True, preflightCommitment = None\<rparr>))
       \<in> set (trace (module_place_order w0))"
  using built_with_signer_and_latest_blockhash
    [where w = w0 and kp = "Keypair ''Signer''" and kd = "Keypair ''Signer''"
       and pid = "''Prog''" and mint = "''Mint''" and ds = "''drift_signer@Prog''" and ?n1.0 = 255
       and sa = "''drift_state@Prog''" and ?n2.0 = 255
       and bh = "\<lparr>blockhash = ''hashA'', lastValidBlockHeight = 100\<rparr>"
       and bh' = "\<lparr>blockhash = ''hashB'', lastValidBlockHeight = 101\<rparr>"
       and pid' = "''EpNqZ7KyCuW9yJb7hNAvqchB6S5oSCNpQhpmnNZDYwUJ''"
       and mint' = "''4zMMC9srt5Ri5X14GAgXhaHii3GnPAEERYPJgZJDncDU''"
       and st = state0 and ?s0.0 = "Some state0"
       and ix = "Instruction ''Prog'' [] [1]" and ixs = "[Instruction ''Prog'' [] [4]]"
       and u = "''User''" and spk = "''State''"
       and info = "\<lparr>data_length = 992, owner = ''Prog''\<rparr>"
       and orc = "''FgBGHNex4urrBmNbSj8ntNQDGqeHcWewKtkvL6JE6dEX''"
       and pix = "Instruction ''Prog'' [] [2]" and pix' = "Instruction ''Prog'' [] [3]"
       and sig = "''sigA''" and c = "\<lparr>conf_slot = 7, conf_err = None\<rparr>"
       and ua = "''user@Signer''" and pm = "''Perp1''" and sm = "''Spot0''" and pa = "()"
       and sma = "\<lparr>sm_mint = ''Mint'', sm_oracle = ''11111111111111111111111111111111'',
                    sm_oracleSource = ''quoteAsset'', sm_status = ''active''\<rparr>"
       and oix = "Instruction ''Prog'' [] [5]"]
    w0_loads w0_steps w0_answers
  by simp

text \<open>
  Claim C6 as stated fails for the devnet mint script: it sets neither the fee payer
  nor the recent blockhash of the transactions it builds, fetches no blockhash, and
  leaves both fields to \<open>sendAndConfirmTransaction\<close>. The admin update builds no
  transaction of its own: it passes the new admin to the SDK's \<open>updateAdmin\<close>.
\<close>

theorem mint_leaves_fields_to_library:
  "Call (SendAndConfirmTransaction
      \<lparr>instructions = [Instruction ''SystemProgram.createAccount'' [] [],
                       Instruction ''createInitializeMintInstruction'' [] []],
       feePayer = None, recentBlockhash = None, signatures = []\<rparr>
      [''Signer'', ''FakeMint''] mint_opts)
     \<in> set (trace (mockUSDCMint w0))
   \<and> \<not> built_ok ''Signer'' None (trace (mockUSDCMint w0))"
proof -
  have 1: "Call (SendAndConfirmTransaction
      \<lparr>instructions = [Instruction ''SystemProgram.createAccount'' [] [],
                       Instruction ''createInitializeMintInstruction'' [] []],
       feePayer = None, recentBlockhash = None, signatures = []\<rparr>
      [''Signer'', ''FakeMint''] mint_opts)
     \<in> set (trace (mockUSDCMint w0))"
    unfolding mockUSDCMint_def mint_to_signer_def add_def new_Transaction_def
    by (simp add: eval_simps)
  have 2: "\<not> built_ok ''Signer'' None (trace (mockUSDCMint w0))"
    unfolding mockUSDCMint_def mint_to_signer_def add_def new_Transaction_def
    by (simp add: built_rules eval_defs load_keypair_dirname_def del: block.simps)
  from 1 2 show ?thesis by simp
qed

section \<open>Verification after the admin update\<close>

lemma admin_verify_success:
  assumes "outcome (admin_config w) = Inr (pk, pid, y)"
    and "subscribe_r (rpc w) = Inr ()"
    and "getDriftStateAccountPublicKey_r (rpc w) = Inr spk"
    and "fetchState_r (rpc w) 0 = Inr (Some st0)"
    and "updateAdmin_r (rpc w) = Inr sig"
    and "getLatestBlockhash_r (rpc w) 0 = Inr bh"
    and "confirmTransaction_r (rpc w) 0 = Inr c"
    and "fetchAccounts_r (rpc w) = Inr ()"
    and "fetchState_r (rpc w) 1 = Inr r"
  shows "ConsoleLog [Str (''Successfully updated admin to: '' @ y)] \<in> set (trace (main_update_admin w))
           \<longleftrightarrow> (\<exists>st. r = Some st \<and> admin st = y)"
  using assms unfolding admin_defs loadKeypairFromFile_def
  by (auto simp: in_trace out_simps Let_def split_def)

lemma admin_verify_failure:
  assumes "outcome (admin_config w) = Inr (pk, pid, y)"
    and "subscribe_r (rpc w) = Inr ()"
    and "getDriftStateAccountPublicKey_r (rpc w) = Inr spk"
    and "fetchState_r (rpc w) 0 = Inr (Some st0)"
    and "updateAdmin_r (rpc w) = Inr sig"
    and "getLatestBlockhash_r (rpc w) 0 = Inr bh"
    and "confirmTransaction_r (rpc w) 0 = Inr c"
    and "fetchAccounts_r (rpc w) = Inr ()"
    and "fetchState_r (rpc w) 1 = Inr r"
  shows "(ConsoleError [Str (''Failed to verify admin update. Current admin in state is: ''
              @ (case r of None \<Rightarrow> ''unknown'' | Some st \<Rightarrow> or_else (Some (admin st)) ''unknown''))]
             \<in> set (trace (main_update_admin w))
           \<longleftrightarrow> \<not> (\<exists>st. r = Some st \<and> admin st = y))"
    and "ConsoleError [Str ''Error updating admin:'', ErrV err] \<notin> set (trace (main_update_admin w))"
    and "Call FetchAccounts \<in> set (trace (main_update_admin w))"
  using assms unfolding admin_defs loadKeypairFromFile_def
  by (auto simp: in_trace out_simps Let_def split_def split: option.splits)

lemma admin_refetches:
  assumes "outcome (admin_config w) = Inr (pk, pid, y)"
    and "subscribe_r (rpc w) = Inr ()"
    and "getDriftStateAccountPublicKey_r (rpc w) = Inr spk"
    and "fetchState_r (rpc w) 0 = Inr (Some st0)"
    and "updateAdmin_r (rpc w) = Inr sig"
    and "getLatestBlockhash_r (rpc w) 0 = Inr bh"
    and "confirmTransaction_r (rpc w) 0 = Inr c"
    and "fetchAccounts_r (rpc w) = Inr ()"
    and "fetchState_r (rpc w) 1 = Inr r"
  shows "count_list (trace (main_update_admin w)) (Call (FetchState spk)) = 2"
proof -
  have c0: "count_list (trace (admin_config w)) (Call (FetchState spk)) = 0"
    by (simp add: count_list_0_iff no_call_admin_config)
  have j: "\<And>b a. outcome (js_when b (console_warn a)) = Inr ()"
    by (simp add: js_when_def out_prims)
  show ?thesis
    using assms
    by (simp add: main_update_admin_def admin_try_def admin_verify_def admin_catch_def
        admin_finally_def count_bind count_seq count_try_finally trace_prims trace_try_catch
        out_prims outcome_bind outcome_try_catch seq_def c0 j js_when_def
        split: option.splits sum.splits)
qed

lemma admin_refetch_after_confirmation:
  assumes "Call FetchAccounts \<in> set (trace (admin_try w pk pid y))"
  shows "\<exists>sig bh c. updateAdmin_r (rpc w) = Inr sig \<and> getLatestBlockhash_r (rpc w) 0 = Inr bh
          \<and> confirmTransaction_r (rpc w) 0 = Inr c"
  using assms unfolding admin_try_def admin_verify_def
  by (auto simp: in_trace out_simps Let_def split_def)

lemma admin_success_verified:
  assumes "ConsoleLog [Str (''Successfully updated admin to: '' @ y)]
             \<in> set (trace (admin_try w pk pid y))"
  shows "\<exists>sig bh c st. updateAdmin_r (rpc w) = Inr sig \<and> getLatestBlockhash_r (rpc w) 0 = Inr bh
          \<and> confirmTransaction_r (rpc w) 0 = Inr c \<and> fetchAccounts_r (rpc w) = Inr ()
          \<and> fetchState_r (rpc w) 1 = Inr (Some st) \<and> admin st = y"
  using assms unfolding admin_try_def admin_verify_def
  by (auto simp: in_trace out_simps Let_def split_def)

text \<open>The events of the \<open>try\<close> block, in order, when every call returns.\<close>

lemma admin_try_trace:
  assumes "subscribe_r (rpc w) = Inr ()"
    and "getDriftStateAccountPublicKey_r (rpc w) = Inr spk"
    and "fetchState_r (rpc w) 0 = Inr (Some st0)"
    and "updateAdmin_r (rpc w) = Inr sig"
    and "getLatestBlockhash_r (rpc w) 0 = Inr bh"
    and "confirmTransaction_r (rpc w) 0 = Inr c"
    and "fetchAccounts_r (rpc w) = Inr ()"
    and "fetchState_r (rpc w) 1 = Inr r"
  shows "trace (admin_try w pk pid y) =
         [ConsoleLog [Str ''Subscribing AdminClient...''],
          Call Subscribe,
          ConsoleLog [Str ''AdminClient subscribed.''],
          Call (GetDriftStateAccountPublicKey pid),
          Call (FetchState spk),
          ConsoleLog [Str (''Current program admin from chain is: '' @ admin st0)]]
         @ (if admin st0 \<noteq> pk
            then [ConsoleWarn [Str (admin_mismatch_warning pk (admin st0))]] else [])
         @ [ConsoleLog [Str (''Updating admin to '' @ y @ ''...'')],
            Call (UpdateAdmin y),
            ConsoleLog [Str ''Update admin transaction sent. Signature:'', Str sig],
            ConsoleLog [Str (''Waiting for transaction confirmation... (View on Solana Explorer: https://explorer.solana.com/tx/''
                             @ sig @ ''?cluster='' @ or_else (env (hst w) ''DRIFT_ENV'') ''devnet'' @ '')'')],
            Call (GetLatestBlockhash (Inr bh)),
            Call (ConfirmTransaction (ByStrategy (blockhash bh) (lastValidBlockHeight bh) sig)
                    (Some ''confirmed'')),
            ConsoleLog [Str ''Transaction confirmed.''],
            ConsoleLog [Str ''Verifying admin change...''],
            Call FetchAccounts,
            Call (FetchState spk),
            (case r of
               None \<Rightarrow> ConsoleError [Str (''Failed to verify admin update. Current admin in state is: '' @ ''unknown'')]
             | Some st \<Rightarrow>
                 if admin st = y
                 then ConsoleLog [Str (''Successfully updated admin to: '' @ y)]
                 else ConsoleError [Str (''Failed to verify admin update. Current admin in state is: ''
                                         @ or_else (Some (admin st)) ''unknown'')])]"
  using assms unfolding admin_try_def admin_verify_def
  by (simp add: trace_bind seq_def trace_prims outcome_bind out_prims js_when_def
      split: option.splits)

lemma admin_verified_script:
  assumes "outcome (admin_config w) = Inr (pk, pid, y)"
    and "subscribe_r (rpc w) = Inr ()"
    and "getDriftStateAccountPublicKey_r (rpc w) = Inr spk"
    and "fetchState_r (rpc w) 0 = Inr (Some st0)"
    and "updateAdmin_r (rpc w) = Inr sig"
    and "getLatestBlockhash_r (rpc w) 0 = Inr bh"
    and "confirmTransaction_r (rpc w) 0 = Inr c"
    and "fetchAccounts_r (rpc w) = Inr ()"
    and "fetchState_r (rpc w) 1 = Inr r"
  shows "(ConsoleLog [Str (''Successfully updated admin to: '' @ y)] \<in> set (fst (script_update_admin w))
           \<longleftrightarrow> (\<exists>st. r = Some st \<and> admin st = y))
       \<and> (ConsoleError [Str (''Failed to verify admin update. Current admin in state is: ''
              @ (case r of None \<Rightarrow> ''unknown'' | Some st \<Rightarrow> or_else (Some (admin st)) ''unknown''))]
             \<in> set (fst (script_update_admin w))
           \<longleftrightarrow> \<not> (\<exists>st. r = Some st \<and> admin st = y))
       \<and> (\<forall>err. ConsoleError [Str ''Error updating admin:'', ErrV err]
             \<notin> set (fst (script_update_admin w)))
       \<and> Call FetchAccounts \<in> set (fst (script_update_admin w))
       \<and> count_list (fst (script_update_admin w)) (Call (FetchState spk)) = 2"
proof -
  have d1: "ConsoleLog [Str (''Successfully updated admin to: '' @ y)] \<notin> set (dotenv_report w)"
    using in_dotenv_report [of "ConsoleLog [Str (''Successfully updated admin to: '' @ y)]" w]
    by auto
  have d2: "\<And>a. ConsoleError a \<notin> set (dotenv_report w)"
    using in_dotenv_report [of "ConsoleError a" w for a] by auto
  show ?thesis
    using admin_verify_success [OF assms] admin_verify_failure [OF assms]
      admin_refetches [OF assms] d1 d2
    by (auto simp: in_script_update_admin count_script_update_admin)
qed

text \<open>
  Claim C7. In the admin update, the \<open>try\<close> block prints the success line for the
  target admin \<open>y\<close> only if the update was submitted, the confirmation call returned,
  and the state account fetched again names \<open>y\<close>; and it calls \<open>fetchAccounts\<close>,
  which begins the verification, only if the confirmation call returned. When every
  call returns, the events of the \<open>try\<close> block are, in this order: the subscription,
  the first fetch of the state account, the update, the confirmation, \<open>fetchAccounts\<close>,
  the second fetch of the state account with answer \<open>r\<close>, and the report, which is the
  success line with the new admin exactly when \<open>r\<close> names \<open>y\<close>, and otherwise a
  console error saying that the update could not be verified, with the admin found. In
  such a run the script never prints the line \<open>Error updating admin:\<close> that reports a
  failed submission or confirmation, and it fetches the state account twice. The
  statement holds whatever the on-chain admin was before.
\<close>

theorem admin_update_verified:
  "(ConsoleLog [Str (''Successfully updated admin to: '' @ y)]
      \<in> set (trace (admin_try w pk pid y)) \<longrightarrow>
      (\<exists>sig bh c st. updateAdmin_r (rpc w) = Inr sig \<and> getLatestBlockhash_r (rpc w) 0 = Inr bh
        \<and> confirmTransaction_r (rpc w) 0 = Inr c \<and> fetchAccounts_r (rpc w) = Inr ()
        \<and> fetchState_r (rpc w) 1 = Inr (Some st) \<and> admin st = y))
   \<and> (Call FetchAccounts \<in> set (trace (admin_try w pk pid y)) \<longrightarrow>
      (\<exists>sig bh c. updateAdmin_r (rpc w) = Inr sig \<and> getLatestBlockhash_r (rpc w) 0 = Inr bh
        \<and> confirmTransaction_r (rpc w) 0 = Inr c))
   \<and> (subscribe_r (rpc w) = Inr ()
      \<and> getDriftStateAccountPublicKey_r (rpc w) = Inr spk
      \<and> fetchState_r (rpc w) 0 = Inr (Some st0)
      \<and> updateAdmin_r (rpc w) = Inr sig
      \<and> getLatestBlockhash_r (rpc w) 0 = Inr bh
      \<and> confirmTransaction_r (rpc w) 0 = Inr c
      \<and> fetchAccounts_r (rpc w) = Inr ()
      \<and> fetchState_r (rpc w) 1 = Inr r
    \<longrightarrow>
      trace (admin_try w pk pid y) =
         [ConsoleLog [Str ''Subscribing AdminClient...''],
          Call Subscribe,
          ConsoleLog [Str ''AdminClient subscribed.''],
          Call (GetDriftStateAccountPublicKey pid),
          Call (FetchState spk),
          ConsoleLog [Str (''Current program admin from chain is: '' @ admin st0)]]
         @ (if admin st0 \<noteq> pk
            then [ConsoleWarn [Str (admin_mismatch_warning pk (admin st0))]] else [])
         @ [ConsoleLog [Str (''Updating admin to '' @ y @ ''...'')],
            Call (UpdateAdmin y),
            ConsoleLog [Str ''Update admin transaction sent. Signature:'', Str sig],
            ConsoleLog [Str (''Waiting for transaction confirmation... (View on Solana Explorer: https://explorer.solana.com/tx/''
                             @ sig @ ''?cluster='' @ or_else (env (hst w) ''DRIFT_ENV'') ''devnet'' @ '')'')],
            Call (GetLatestBlockhash (Inr bh)),
            Call (ConfirmTransaction (ByStrategy (blockhash bh) (lastValidBlockHeight bh) sig)
                    (Some ''confirmed'')),
            ConsoleLog [Str ''Transaction confirmed.''],
            ConsoleLog [Str ''Verifying admin change...''],
            Call FetchAccounts,
            Call (FetchState spk),
            (case r of
               None \<Rightarrow> ConsoleError [Str (''Failed to verify admin update. Current admin in state is: '' @ ''unknown'')]
             | Some st \<Rightarrow>
                 if admin st = y
                 then ConsoleLog [Str (''Successfully updated admin to: '' @ y)]
                 else ConsoleError [Str (''Failed to verify admin update. Current admin in state is: ''
                                         @ or_else (Some (admin st)) ''unknown'')])]
      \<and> (outcome (admin_config w) = Inr (pk, pid, y) \<longrightarrow>
          (ConsoleLog [Str (''Successfully updated admin to: '' @ y)] \<in> set (fst (script_update_admin w))
             \<longleftrightarrow> (\<exists>st. r = Some st \<and> admin st = y))
          \<and> (ConsoleError [Str (''Failed to verify admin update. Current admin in state is: ''
                 @ (case r of None \<Rightarrow> ''unknown'' | Some st \<Rightarrow> or_else (Some (admin st)) ''unknown''))]
                \<in> set (fst (script_update_admin w))
              \<longleftrightarrow> \<not> (\<exists>st. r = Some st \<and> admin st = y))
          \<and> (\<forall>err. ConsoleError [Str ''Error updating admin:'', ErrV err]
                \<notin> set (fst (script_update_admin w)))
          \<and> Call FetchAccounts \<in> set (fst (script_update_admin w))
          \<and> count_list (fst (script_update_admin w)) (Call (FetchState spk)) = 2))"
proof (intro conjI impI)
  assume "ConsoleLog [Str (''Successfully updated admin to: '' @ y)]
            \<in> set (trace (admin_try w pk pid y))"
  then show "\<exists>sig bh c st. updateAdmin_r (rpc w) = Inr sig \<and> getLatestBlockhash_r (rpc w) 0 = Inr bh
        \<and> confirmTransaction_r (rpc w) 0 = Inr c \<and> fetchAccounts_r (rpc w) = Inr ()
        \<and> fetchState_r (rpc w) 1 = Inr (Some st) \<and> admin st = y"
    by (rule admin_success_verified)
next
  assume "Call FetchAccounts \<in> set (trace (admin_try w pk pid y))"
  then show "\<exists>sig bh c. updateAdmin_r (rpc w) = Inr sig \<and> getLatestBlockhash_r (rpc w) 0 = Inr bh
        \<and> confirmTransaction_r (rpc w) 0 = Inr c"
    by (rule admin_refetch_after_confirmation)
next
  assume h: "subscribe_r (rpc w) = Inr ()
      \<and> getDriftStateAccountPublicKey_r (rpc w) = Inr spk
      \<and> fetchState_r (rpc w) 0 = Inr (Some st0)
      \<and> updateAdmin_r (rpc w) = Inr sig
      \<and> getLatestBlockhash_r (rpc w) 0 = Inr bh
      \<and> confirmTransaction_r (rpc w) 0 = Inr c
      \<and> fetchAccounts_r (rpc w) = Inr ()
      \<and> fetchState_r (rpc w) 1 = Inr r"
  then show "trace (admin_try w pk pid y) =
         [ConsoleLog [Str ''Subscribing AdminClient...''],
          Call Subscribe,
          ConsoleLog [Str ''AdminClient subscribed.''],
          Call (GetDriftStateAccountPublicKey pid),
          Call (FetchState spk),
          ConsoleLog [Str (''Current program admin from chain is: '' @ admin st0)]]
         @ (if admin st0 \<noteq> pk
            then [ConsoleWarn [Str (admin_mismatch_warning pk (admin st0))]] else [])
         @ [ConsoleLog [Str (''Updating admin to '' @ y @ ''...'')],
            Call (UpdateAdmin y),
            ConsoleLog [Str ''Update admin transaction sent. Signature:'', Str sig],
            ConsoleLog [Str (''Waiting for transaction confirmation... (View on Solana Explorer: https://explorer.solana.com/tx/''
                             @ sig @ ''?cluster='' @ or_else (env (hst w) ''DRIFT_ENV'') ''devnet'' @ '')'')],
            Call (GetLatestBlockhash (Inr bh)),
            Call (ConfirmTransaction (ByStrategy (blockhash bh) (lastValidBlockHeight bh) sig)
                    (Some ''confirmed'')),
            ConsoleLog [Str ''Transaction confirmed.''],
            ConsoleLog [Str ''Verifying admin change...''],
            Call FetchAccounts,
            Call (FetchState spk),
            (case r of
               None \<Rightarrow> ConsoleError [Str (''Failed to verify admin update. Current admin in state is: '' @ ''unknown'')]
             | Some st \<Rightarrow>
                 if admin st = y
                 then ConsoleLog [Str (''Successfully updated admin to: '' @ y)]
                 else ConsoleError [Str (''Failed to verify admin update. Current admin in state is: ''
                                         @ or_else (Some (admin st)) ''unknown'')])]"
    using admin_try_trace [of w spk st0 sig bh c r pk pid y] by blast
  assume "outcome (admin_config w) = Inr (pk, pid, y)"
  with h have v: "(ConsoleLog [Str (''Successfully updated admin to: '' @ y)] \<in> set (fst (script_update_admin w))
           \<longleftrightarrow> (\<exists>st. r = Some st \<and> admin st = y))
       \<and> (ConsoleError [Str (''Failed to verify admin update. Current admin in state is: ''
              @ (case r of None \<Rightarrow> ''unknown'' | Some st \<Rightarrow> or_else (Some (admin st)) ''unknown''))]
             \<in> set (fst (script_update_admin w))
           \<longleftrightarrow> \<not> (\<exists>st. r = Some st \<and> admin st = y))
       \<and> (\<forall>err. ConsoleError [Str ''Error updating admin:'', ErrV err]
             \<notin> set (fst (script_update_admin w)))
       \<and> Call FetchAccounts \<in> set (fst (script_update_admin w))
       \<and> count_list (fst (script_update_admin w)) (Call (FetchState spk)) = 2"
    using admin_verified_script [of w pk pid y spk st0 sig bh c r] by blast
  from v show "ConsoleLog [Str (''Successfully updated admin to: '' @ y)] \<in> set (fst (script_update_admin w))
           \<longleftrightarrow> (\<exists>st. r = Some st \<and> admin st = y)" by blast
  from v show "ConsoleError [Str (''Failed to verify admin update. Current admin in state is: ''
              @ (case r of None \<Rightarrow> ''unknown'' | Some st \<Rightarrow> or_else (Some (admin st)) ''unknown''))]
             \<in> set (fst (script_update_admin w))
           \<longleftrightarrow> \<not> (\<exists>st. r = Some st \<and> admin st = y)" by blast
  from v show "\<forall>err. ConsoleError [Str ''Error updating admin:'', ErrV err]
             \<notin> set (fst (script_update_admin w))" by blast
  from v show "Call FetchAccounts \<in> set (fst (script_update_admin w))" by blast
  from v show "count_list (fst (script_update_admin w)) (Call (FetchState spk)) = 2" by blast
qed

lemma w0_confirmed:
  "outcome (admin_config w0) = Inr (''Signer'', ''Prog'', ''NewAdmin'')"
  "subscribe_r (rpc w0) = Inr ()"
  "getDriftStateAccountPublicKey_r (rpc w0) = Inr ''State''"
  "fetchState_r (rpc w0) 0 = Inr (Some state0)"
  "updateAdmin_r (rpc w0) = Inr ''sigU''"
  "getLatestBlockhash_r (rpc w0) 0 = Inr \<lparr>blockhash = ''hashA'', lastValidBlockHeight = 100\<rparr>"
  "confirmTransaction_r (rpc w0) 0 = Inr \<lparr>conf_slot = 7, conf_err = None\<rparr>"
  "fetchAccounts_r (rpc w0) = Inr ()"
  "fetchState_r (rpc w0) 1 = Inr (Some (state0\<lparr>admin := ''NewAdmin''\<rparr>))"
  by (simp_all add: admin_config_def eval_simps)

lemma w_stale_confirmed:
  "outcome (admin_config w_stale) = Inr (''Signer'', ''Prog'', ''NewAdmin'')"
  "subscribe_r (rpc w_stale) = Inr ()"
  "getDriftStateAccountPublicKey_r (rpc w_stale) = Inr ''State''"
  "fetchState_r (rpc w_stale) 0 = Inr (Some state0)"
  "updateAdmin_r (rpc w_stale) = Inr ''sigU''"
  "getLatestBlockhash_r (rpc w_stale) 0 = Inr \<lparr>blockhash = ''hashA'', lastValidBlockHeight = 100\<rparr>"
  "confirmTransaction_r (rpc w_stale) 0 = Inr \<lparr>conf_slot = 7, conf_err = None\<rparr>"
  "fetchAccounts_r (rpc w_stale) = Inr ()"
  "fetchState_r (rpc w_stale) 1 = Inr (Some state0)"
  by (simp_all add: admin_config_def w_stale_def eval_simps)

lemma w0_cluster:
  "or_else (env (hst w0) ''DRIFT_ENV'') ''devnet'' = ''devnet''"
  "admin state0 = ''Signer''"
  by (simp_all add: eval_simps)

lemma w_unconfirmed_try:
  "Call (UpdateAdmin ''NewAdmin'') \<in> set (trace (admin_try w_unconfirmed ''Signer'' ''Prog'' ''NewAdmin''))"
  "confirmTransaction_r (rpc w_unconfirmed) 0 = Inl (Error ''block height exceeded'')"
  by (simp_all add: admin_try_def w_unconfirmed_def eval_simps)

theorem admin_update_verified_witness:
  "ConsoleLog [Str (''Successfully updated admin to: '' @ ''NewAdmin'')]
      \<in> set (fst (script_update_admin w0))
   \<and> count_list (fst (script_update_admin w0)) (Call (FetchState ''State'')) = 2
   \<and> trace (admin_try w0 ''Signer'' ''Prog'' ''NewAdmin'') =
        [ConsoleLog [Str ''Subscribing AdminClient...''],
         Call Subscribe,
         ConsoleLog [Str ''AdminClient subscribed.''],
         Call (GetDriftStateAccountPublicKey ''Prog''),
         Call (FetchState ''State''),
         ConsoleLog [Str ''Current program admin from chain is: Signer''],
         ConsoleLog [Str ''Updating admin to NewAdmin...''],
         Call (UpdateAdmin ''NewAdmin''),
         ConsoleLog [Str ''Update admin transaction sent. Signature:'', Str ''sigU''],
         ConsoleLog [Str ''Waiting for transaction confirmation... (View on Solana Explorer: https://explorer.solana.com/tx/sigU?cluster=devnet)''],
         Call (GetLatestBlockhash (Inr \<lparr>blockhash = ''hashA'', lastValidBlockHeight = 100\<rparr>)),
         Call (ConfirmTransaction (ByStrategy ''hashA'' 100 ''sigU'') (Some ''confirmed'')),
         ConsoleLog [Str ''Transaction confirmed.''],
         ConsoleLog [Str ''Verifying admin change...''],
         Call FetchAccounts,
         Call (FetchState ''State''),
         ConsoleLog [Str ''Successfully updated admin to: NewAdmin'']]
   \<and> ConsoleLog [Str (''Successfully updated admin to: '' @ ''NewAdmin'')]
      \<notin> set (fst (script_update_admin w_stale))
   \<and> ConsoleError [Str (''Failed to verify admin update. Current admin in state is: '' @ ''Signer'')]
      \<in> set (fst (script_update_admin w_stale))
   \<and> ConsoleError [Str ''Error updating admin:'', ErrV (Error ''x'')]
      \<notin> set (fst (script_update_admin w_stale))
   \<and> Call (UpdateAdmin ''NewAdmin'') \<in> set (trace (admin_try w_unconfirmed ''Signer'' ''Prog'' ''NewAdmin''))
   \<and> Call FetchAccounts \<notin> set (trace (admin_try w_unconfirmed ''Signer'' ''Prog'' ''NewAdmin''))
   \<and> ConsoleLog [Str (''Successfully updated admin to: '' @ ''NewAdmin'')]
      \<notin> set (trace (admin_try w_unconfirmed ''Signer'' ''Prog'' ''NewAdmin''))"
proof -
  note t = admin_update_verified
  have a: "ConsoleLog [Str (''Successfully updated admin to: '' @ ''NewAdmin'')]
             \<in> set (fst (script_update_admin w0))
      \<and> count_list (fst (script_update_admin w0)) (Call (FetchState ''State'')) = 2
      \<and> trace (admin_try w0 ''Signer'' ''Prog'' ''NewAdmin'') =
        [ConsoleLog [Str ''Subscribing AdminClient...''],
         Call Subscribe,
         ConsoleLog [Str ''AdminClient subscribed.''],
         Call (GetDriftStateAccountPublicKey ''Prog''),
         Call (FetchState ''State''),
         ConsoleLog [Str ''Current program admin from chain is: Signer''],
         ConsoleLog [Str ''Updating admin to NewAdmin...''],
         Call (UpdateAdmin ''NewAdmin''),
         ConsoleLog [Str ''Update admin transaction sent. Signature:'', Str ''sigU''],
         ConsoleLog [Str ''Waiting for transaction confirmation... (View on Solana Explorer: https://explorer.solana.com/tx/sigU?cluster=devnet)''],
         Call (GetLatestBlockhash (Inr \<lparr>blockhash = ''hashA'', lastValidBlockHeight = 100\<rparr>)),
         Call (ConfirmTransaction (ByStrategy ''hashA'' 100 ''sigU'') (Some ''confirmed'')),
         ConsoleLog [Str ''Transaction confirmed.''],
         ConsoleLog [Str ''Verifying admin change...''],
         Call FetchAccounts,
         Call (FetchState ''State''),
         ConsoleLog [Str ''Successfully updated admin to: NewAdmin'']]"
    using t [where w = w0 and pk = "''Signer''" and pid = "''Prog''" and y = "''NewAdmin''"
        and spk = "''State''" and ?st0.0 = state0 and sig = "''sigU''"
        and bh = "\<lparr>blockhash = ''hashA'', lastValidBlockHeight = 100\<rparr>"
        and c = "\<lparr>conf_slot = 7, conf_err = None\<rparr>"
        and r = "Some (state0\<lparr>admin := ''NewAdmin''\<rparr>)"]
      w0_confirmed w0_cluster
    by simp
  have b: "ConsoleLog [Str (''Successfully updated admin to: '' @ ''NewAdmin'')]
             \<notin> set (fst (script_update_admin w_stale))
      \<and> ConsoleError [Str (''Failed to verify admin update. Current admin in state is: '' @ ''Signer'')]
             \<in> set (fst (script_update_admin w_stale))
      \<and> ConsoleError [Str ''Error updating admin:'', ErrV (Error ''x'')]
             \<notin> set (fst (script_update_admin w_stale))"
    using t [where w = w_stale and pk = "''Signer''" and pid = "''Prog''" and y = "''NewAdmin''"
        and spk = "''State''" and ?st0.0 = state0 and sig = "''sigU''"
        and bh = "\<lparr>blockhash = ''hashA'', lastValidBlockHeight = 100\<rparr>"
        and c = "\<lparr>conf_slot = 7, conf_err = None\<rparr>"
        and r = "Some state0"]
      w_stale_confirmed
    by (simp add: state0_def or_else_def truthy_def)
  have c: "Call FetchAccounts \<notin> set (trace (admin_try w_unconfirmed ''Signer'' ''Prog'' ''NewAdmin''))
      \<and> ConsoleLog [Str (''Successfully updated admin to: '' @ ''NewAdmin'')]
             \<notin> set (trace (admin_try w_unconfirmed ''Signer'' ''Prog'' ''NewAdmin''))"
    using t [where w = w_unconfirmed and pk = "''Signer''" and pid = "''Prog''"
        and y = "''NewAdmin''"] w_unconfirmed_try(2)
    by auto
  from a b c w_unconfirmed_try(1) show ?thesis by blast
qed

section \<open>Missing settings and key files\<close>

lemma no_call_dotenv_report: "\<forall>e\<in>set (dotenv_report w). \<not> is_call e"
  using in_dotenv_report [of _ w] by fastforce

lemma admin_config_fails:
  assumes "outcome (admin_config w) = Inl err"
  shows "fails_before_any_call w err"
proof -
  have m: "outcome (main_update_admin w) = Inl err"
    using assms by (simp add: main_update_admin_def out_simps)
  have t: "\<forall>e\<in>set (trace (main_update_admin w)). \<not> is_call e"
    using assms no_call_admin_config [of _ w]
    by (auto simp: main_update_admin_def in_trace elim: is_call.elims)
  show ?thesis
    unfolding fails_before_any_call_def
    using m t no_call_dotenv_report [of w]
    by (auto simp: in_script_update_admin exit_script_update_admin)
qed

text \<open>
  What the steps before the \<open>try\<close> statement yield, step by step: the first step
  that fails decides the error.
\<close>

lemma admin_config_outcomes:
  fixes w
  defines "conn \<equiv> newConnection (hst w)
                    (or_else (env (hst w) ''RPC_URL'') (clusterApiUrl (hst w) ''devnet''))"
      and "client \<equiv> newAdminClient (hst w) (or_else (env (hst w) ''DRIFT_ENV'') ''devnet'')"
  shows
  "conn = Inl err \<Longrightarrow> outcome (admin_config w) = Inl err"
  "conn = Inr () \<Longrightarrow> truthy (env (hst w) ''ADMIN_PRIVATE_KEY_PATH'') = None \<Longrightarrow>
     outcome (admin_config w) = Inl (Error ''ADMIN_PRIVATE_KEY_PATH environment variable not set. This must be the keypair of the CURRENT admin.'')"
  "conn = Inr () \<Longrightarrow> truthy (env (hst w) ''ADMIN_PRIVATE_KEY_PATH'') = Some p \<Longrightarrow>
   outcome (loadKeypairFromFile w p) = Inl err \<Longrightarrow>
     outcome (admin_config w) = Inl err"
  "conn = Inr () \<Longrightarrow> truthy (env (hst w) ''ADMIN_PRIVATE_KEY_PATH'') = Some p \<Longrightarrow>
   outcome (loadKeypairFromFile w p) = Inr kp \<Longrightarrow>
   truthy (env (hst w) ''DRIFT_PROGRAM_ID'') = None \<Longrightarrow>
     outcome (admin_config w) = Inl (Error ''DRIFT_PROGRAM_ID environment variable not set.'')"
  "conn = Inr () \<Longrightarrow> truthy (env (hst w) ''ADMIN_PRIVATE_KEY_PATH'') = Some p \<Longrightarrow>
   outcome (loadKeypairFromFile w p) = Inr kp \<Longrightarrow>
   truthy (env (hst w) ''DRIFT_PROGRAM_ID'') = Some d \<Longrightarrow>
   newPublicKey (hst w) (Some d) = Inl err \<Longrightarrow>
     outcome (admin_config w) = Inl err"
  "conn = Inr () \<Longrightarrow> truthy (env (hst w) ''ADMIN_PRIVATE_KEY_PATH'') = Some p \<Longrightarrow>
   outcome (loadKeypairFromFile w p) = Inr kp \<Longrightarrow>
   truthy (env (hst w) ''DRIFT_PROGRAM_ID'') = Some d \<Longrightarrow>
   newPublicKey (hst w) (Some d) = Inr pid \<Longrightarrow>
   truthy (env (hst w) ''NEW_ADMIN_PUBLIC_KEY'') = None \<Longrightarrow>
     outcome (admin_config w) = Inl (Error ''NEW_ADMIN_PUBLIC_KEY environment variable not set.'')"
  "conn = Inr () \<Longrightarrow> truthy (env (hst w) ''ADMIN_PRIVATE_KEY_PATH'') = Some p \<Longrightarrow>
   outcome (loadKeypairFromFile w p) = Inr kp \<Longrightarrow>
   truthy (env (hst w) ''DRIFT_PROGRAM_ID'') = Some d \<Longrightarrow>
   newPublicKey (hst w) (Some d) = Inr pid \<Longrightarrow>
   truthy (env (hst w) ''NEW_ADMIN_PUBLIC_KEY'') = Some n \<Longrightarrow>
   newPublicKey (hst w) (Some n) = Inl err \<Longrightarrow>
     outcome (admin_config w) = Inl err"
  "conn = Inr () \<Longrightarrow> truthy (env (hst w) ''ADMIN_PRIVATE_KEY_PATH'') = Some p \<Longrightarrow>
   outcome (loadKeypairFromFile w p) = Inr kp \<Longrightarrow>
   truthy (env (hst w) ''DRIFT_PROGRAM_ID'') = Some d \<Longrightarrow>
   newPublicKey (hst w) (Some d) = Inr pid \<Longrightarrow>
   truthy (env (hst w) ''NEW_ADMIN_PUBLIC_KEY'') = Some n \<Longrightarrow>
   newPublicKey (hst w) (Some n) = Inr y \<Longrightarrow>
   client = Inl err \<Longrightarrow>
     outcome (admin_config w) = Inl err"
  "conn = Inr () \<Longrightarrow> truthy (env (hst w) ''ADMIN_PRIVATE_KEY_PATH'') = Some p \<Longrightarrow>
   outcome (loadKeypairFromFile w p) = Inr kp \<Longrightarrow>
   truthy (env (hst w) ''DRIFT_PROGRAM_ID'') = Some d \<Longrightarrow>
   newPublicKey (hst w) (Some d) = Inr pid \<Longrightarrow>
   truthy (env (hst w) ''NEW_ADMIN_PUBLIC_KEY'') = Some n \<Longrightarrow>
   newPublicKey (hst w) (Some n) = Inr y \<Longrightarrow>
   client = Inr () \<Longrightarrow>
     outcome (admin_config w) = Inr (publicKey kp, pid, y)"
  unfolding admin_config_def conn_def client_def
  by (simp_all add: out_simps Let_def)

lemma loadKeypairFromFile_missing:
  "\<not> existsSync (hst w) (path_resolve (hst w) [dirname (hst w), ''..'', p]) \<Longrightarrow>
     outcome (loadKeypairFromFile w p)
       = Inl (Error (''Keypair file not found at '' @ path_resolve (hst w) [dirname (hst w), ''..'', p]))"
  by (simp add: loadKeypairFromFile_def Let_def out_simps)

text \<open>
  Claim C9, as amended. In the admin update, every failure of a step that comes before
  the \<open>try\<close> statement ends the run before any call on the connection or the
  client, with status 1 and the error printed. The steps come in this order, and the
  first that fails decides the error: the connection object is built from \<open>RPC_URL\<close>
  (the constructor's error); \<open>ADMIN_PRIVATE_KEY_PATH\<close> is read (unset or empty: an
  error naming it); the key file is loaded (absent: an error naming its path;
  unreadable or malformed: the error of the file system or of the parser);
  \<open>DRIFT_PROGRAM_ID\<close> is read (unset or empty: an error naming it) and parsed (the
  constructor's error); \<open>NEW_ADMIN_PUBLIC_KEY\<close> is read (unset or empty: an error
  naming it) and parsed (the constructor's error); the client is built for
  \<open>DRIFT_ENV\<close> (the constructor's error). When every step succeeds the \<open>try\<close>
  statement is reached with the key pair's public key and the two addresses.
\<close>

theorem admin_settings_fail_fast:
  "(outcome (admin_config w) = Inl err0 \<longrightarrow> fails_before_any_call w err0)
   \<and> (newConnection (hst w) (or_else (env (hst w) ''RPC_URL'') (clusterApiUrl (hst w) ''devnet''))
        = Inl err \<longrightarrow> fails_before_any_call w err)
   \<and> (newConnection (hst w) (or_else (env (hst w) ''RPC_URL'') (clusterApiUrl (hst w) ''devnet''))
        = Inr () \<longrightarrow>
      (truthy (env (hst w) ''ADMIN_PRIVATE_KEY_PATH'') = None \<longrightarrow>
         fails_before_any_call w (Error ''ADMIN_PRIVATE_KEY_PATH environment variable not set. This must be the keypair of the CURRENT admin.''))
      \<and> (truthy (env (hst w) ''ADMIN_PRIVATE_KEY_PATH'') = Some p \<longrightarrow>
         (\<not> existsSync (hst w) (path_resolve (hst w) [dirname (hst w), ''..'', p]) \<longrightarrow>
            fails_before_any_call w
              (Error (''Keypair file not found at '' @ path_resolve (hst w) [dirname (hst w), ''..'', p])))
         \<and> (outcome (loadKeypairFromFile w p) = Inl err \<longrightarrow> fails_before_any_call w err)
         \<and> (outcome (loadKeypairFromFile w p) = Inr kp \<longrightarrow>
            (truthy (env (hst w) ''DRIFT_PROGRAM_ID'') = None \<longrightarrow>
               fails_before_any_call w (Error ''DRIFT_PROGRAM_ID environment variable not set.''))
            \<and> (truthy (env (hst w) ''DRIFT_PROGRAM_ID'') = Some d \<longrightarrow>
               (newPublicKey (hst w) (Some d) = Inl err \<longrightarrow> fails_before_any_call w err)
               \<and> (newPublicKey (hst w) (Some d) = Inr pid \<longrightarrow>
                  (truthy (env (hst w) ''NEW_ADMIN_PUBLIC_KEY'') = None \<longrightarrow>
                     fails_before_any_call w (Error ''NEW_ADMIN_PUBLIC_KEY environment variable not set.''))
                  \<and> (truthy (env (hst w) ''NEW_ADMIN_PUBLIC_KEY'') = Some n \<longrightarrow>
                     (newPublicKey (hst w) (Some n) = Inl err \<longrightarrow> fails_before_any_call w err)
                     \<and> (newPublicKey (hst w) (Some n) = Inr y \<longrightarrow>
                        (newAdminClient (hst w) (or_else (env (hst w) ''DRIFT_ENV'') ''devnet'') = Inl err
                           \<longrightarrow> fails_before_any_call w err)
                        \<and> (newAdminClient (hst w) (or_else (env (hst w) ''DRIFT_ENV'') ''devnet'') = Inr ()
                           \<longrightarrow> outcome (admin_config w) = Inr (publicKey kp, pid, y)))))))))"
proof -
  note f = admin_config_fails [of w]
  note o = admin_config_outcomes [of w]
  show ?thesis
  proof (intro conjI impI)
    assume "outcome (admin_config w) = Inl err0"
    then show "fails_before_any_call w err0" by (rule f)
  next
    assume "\<not> existsSync (hst w) (path_resolve (hst w) [dirname (hst w), ''..'', p])"
      and "newConnection (hst w) (or_else (env (hst w) ''RPC_URL'') (clusterApiUrl (hst w) ''devnet'')) = Inr ()"
      and "truthy (env (hst w) ''ADMIN_PRIVATE_KEY_PATH'') = Some p"
    then show "fails_before_any_call w
        (Error (''Keypair file not found at '' @ path_resolve (hst w) [dirname (hst w), ''..'', p]))"
      using loadKeypairFromFile_missing [of w p] by (intro f o(3) [of p]) simp_all
  qed (intro f o; assumption)+
qed

text \<open>The settings in the worlds in which one step fails, and in \<open>w0\<close>.\<close>

lemma setting_facts:
  "newConnection (hst w_bad_rpc) (or_else (env (hst w_bad_rpc) ''RPC_URL'') (clusterApiUrl (hst w_bad_rpc) ''devnet''))
     = Inl (TypeError ''Endpoint URL must start with http: or https:.'')"
  "newConnection (hst (w_unset ''ADMIN_PRIVATE_KEY_PATH'')) (or_else (env (hst (w_unset ''ADMIN_PRIVATE_KEY_PATH'')) ''RPC_URL'') (clusterApiUrl (hst (w_unset ''ADMIN_PRIVATE_KEY_PATH'')) ''devnet'')) = Inr ()"
  "newConnection (hst w_no_key_file) (or_else (env (hst w_no_key_file) ''RPC_URL'') (clusterApiUrl (hst w_no_key_file) ''devnet'')) = Inr ()"
  "newConnection (hst w_bad_key_file) (or_else (env (hst w_bad_key_file) ''RPC_URL'') (clusterApiUrl (hst w_bad_key_file) ''devnet'')) = Inr ()"
  "newConnection (hst (w_unset ''DRIFT_PROGRAM_ID'')) (or_else (env (hst (w_unset ''DRIFT_PROGRAM_ID'')) ''RPC_URL'') (clusterApiUrl (hst (w_unset ''DRIFT_PROGRAM_ID'')) ''devnet'')) = Inr ()"
  "newConnection (hst (w_bad_address ''DRIFT_PROGRAM_ID'')) (or_else (env (hst (w_bad_address ''DRIFT_PROGRAM_ID'')) ''RPC_URL'') (clusterApiUrl (hst (w_bad_address ''DRIFT_PROGRAM_ID'')) ''devnet'')) = Inr ()"
  "newConnection (hst (w_unset ''NEW_ADMIN_PUBLIC_KEY'')) (or_else (env (hst (w_unset ''NEW_ADMIN_PUBLIC_KEY'')) ''RPC_URL'') (clusterApiUrl (hst (w_unset ''NEW_ADMIN_PUBLIC_KEY'')) ''devnet'')) = Inr ()"
  "newConnection (hst (w_bad_address ''NEW_ADMIN_PUBLIC_KEY'')) (or_else (env (hst (w_bad_address ''NEW_ADMIN_PUBLIC_KEY'')) ''RPC_URL'') (clusterApiUrl (hst (w_bad_address ''NEW_ADMIN_PUBLIC_KEY'')) ''devnet'')) = Inr ()"
  "newConnection (hst w_unknown_env) (or_else (env (hst w_unknown_env) ''RPC_URL'') (clusterApiUrl (hst w_unknown_env) ''devnet'')) = Inr ()"
  "newConnection (hst w0) (or_else (env (hst w0) ''RPC_URL'') (clusterApiUrl (hst w0) ''devnet'')) = Inr ()"
  "truthy (env (hst (w_unset ''ADMIN_PRIVATE_KEY_PATH'')) ''ADMIN_PRIVATE_KEY_PATH'') = None"
  "truthy (env (hst w_no_key_file) ''ADMIN_PRIVATE_KEY_PATH'') = Some ''admin.json''"
  "truthy (env (hst w_bad_key_file) ''ADMIN_PRIVATE_KEY_PATH'') = Some ''admin.json''"
  "truthy (env (hst (w_unset ''DRIFT_PROGRAM_ID'')) ''ADMIN_PRIVATE_KEY_PATH'') = Some ''admin.json''"
  "truthy (env (hst (w_bad_address ''DRIFT_PROGRAM_ID'')) ''ADMIN_PRIVATE_KEY_PATH'') = Some ''admin.json''"
  "truthy (env (hst (w_unset ''NEW_ADMIN_PUBLIC_KEY'')) ''ADMIN_PRIVATE_KEY_PATH'') = Some ''admin.json''"
  "truthy (env (hst (w_bad_address ''NEW_ADMIN_PUBLIC_KEY'')) ''ADMIN_PRIVATE_KEY_PATH'') = Some ''admin.json''"
  "truthy (env (hst w_unknown_env) ''ADMIN_PRIVATE_KEY_PATH'') = Some ''admin.json''"
  "truthy (env (hst w0) ''ADMIN_PRIVATE_KEY_PATH'') = Some ''admin.json''"
  "\<not> existsSync (hst w_no_key_file)
       (path_resolve (hst w_no_key_file) [dirname (hst w_no_key_file), ''..'', ''admin.json''])"
  "path_resolve (hst w_no_key_file) [dirname (hst w_no_key_file), ''..'', ''admin.json'']
     = ''//repo/src/../admin.json''"
  "outcome (loadKeypairFromFile w_bad_key_file ''admin.json'') = Inl (Error ''bad secret key size'')"
  "outcome (loadKeypairFromFile (w_unset ''DRIFT_PROGRAM_ID'') ''admin.json'') = Inr (Keypair ''Signer'')"
  "outcome (loadKeypairFromFile (w_bad_address ''DRIFT_PROGRAM_ID'') ''admin.json'') = Inr (Keypair ''Signer'')"
  "outcome (loadKeypairFromFile (w_unset ''NEW_ADMIN_PUBLIC_KEY'') ''admin.json'') = Inr (Keypair ''Signer'')"
  "outcome (loadKeypairFromFile (w_bad_address ''NEW_ADMIN_PUBLIC_KEY'') ''admin.json'') = Inr (Keypair ''Signer'')"
  "outcome (loadKeypairFromFile w_unknown_env ''admin.json'') = Inr (Keypair ''Signer'')"
  "outcome (loadKeypairFromFile w0 ''admin.json'') = Inr (Keypair ''Signer'')"
  "truthy (env (hst (w_unset ''DRIFT_PROGRAM_ID'')) ''DRIFT_PROGRAM_ID'') = None"
  "truthy (env (hst (w_bad_address ''DRIFT_PROGRAM_ID'')) ''DRIFT_PROGRAM_ID'') = Some ''not an address''"
  "newPublicKey (hst (w_bad_address ''DRIFT_PROGRAM_ID'')) (Some ''not an address'') = Inl (Error ''Invalid public key input'')"
  "truthy (env (hst (w_unset ''NEW_ADMIN_PUBLIC_KEY'')) ''DRIFT_PROGRAM_ID'') = Some ''Prog''"
  "newPublicKey (hst (w_unset ''NEW_ADMIN_PUBLIC_KEY'')) (Some ''Prog'') = Inr ''Prog''"
  "truthy (env (hst (w_bad_address ''NEW_ADMIN_PUBLIC_KEY'')) ''DRIFT_PROGRAM_ID'') = Some ''Prog''"
  "newPublicKey (hst (w_bad_address ''NEW_ADMIN_PUBLIC_KEY'')) (Some ''Prog'') = Inr ''Prog''"
  "truthy (env (hst w_unknown_env) ''DRIFT_PROGRAM_ID'') = Some ''Prog''"
  "newPublicKey (hst w_unknown_env) (Some ''Prog'') = Inr ''Prog''"
  "truthy (env (hst w0) ''DRIFT_PROGRAM_ID'') = Some ''Prog''"
  "newPublicKey (hst w0) (Some ''Prog'') = Inr ''Prog''"
  "truthy (env (hst (w_unset ''NEW_ADMIN_PUBLIC_KEY'')) ''NEW_ADMIN_PUBLIC_KEY'') = None"
  "truthy (env (hst (w_bad_address ''NEW_ADMIN_PUBLIC_KEY'')) ''NEW_ADMIN_PUBLIC_KEY'') = Some ''not an address''"
  "newPublicKey (hst (w_bad_address ''NEW_ADMIN_PUBLIC_KEY'')) (Some ''not an address'') = Inl (Error ''Invalid public key input'')"
  "truthy (env (hst w_unknown_env) ''NEW_ADMIN_PUBLIC_KEY'') = Some ''NewAdmin''"
  "newPublicKey (hst w_unknown_env) (Some ''NewAdmin'') = Inr ''NewAdmin''"
  "truthy (env (hst w0) ''NEW_ADMIN_PUBLIC_KEY'') = Some ''NewAdmin''"
  "newPublicKey (hst w0) (Some ''NewAdmin'') = Inr ''NewAdmin''"
  "newAdminClient (hst w_unknown_env) (or_else (env (hst w_unknown_env) ''DRIFT_ENV'') ''devnet'')
     = Inl (TypeError ''Cannot read properties of undefined'')"
  "newAdminClient (hst w0) (or_else (env (hst w0) ''DRIFT_ENV'') ''devnet'') = Inr ()"
  by (simp_all add: w_unset_def w_no_key_file_def w_bad_key_file_def w_bad_rpc_def
      w_bad_address_def w_unknown_env_def eval_simps)

theorem admin_settings_fail_fast_witness:
  "fails_before_any_call w_bad_rpc (TypeError ''Endpoint URL must start with http: or https:.'')
   \<and> fails_before_any_call (w_unset ''ADMIN_PRIVATE_KEY_PATH'')
      (Error ''ADMIN_PRIVATE_KEY_PATH environment variable not set. This must be the keypair of the CURRENT admin.'')
   \<and> fails_before_any_call w_no_key_file (Error (''Keypair file not found at '' @ ''//repo/src/../admin.json''))
   \<and> fails_before_any_call w_bad_key_file (Error ''bad secret key size'')
   \<and> fails_before_any_call (w_unset ''DRIFT_PROGRAM_ID'')
        (Error ''DRIFT_PROGRAM_ID environment variable not set.'')
   \<and> fails_before_any_call (w_bad_address ''DRIFT_PROGRAM_ID'') (Error ''Invalid public key input'')
   \<and> fails_before_any_call (w_unset ''NEW_ADMIN_PUBLIC_KEY'')
        (Error ''NEW_ADMIN_PUBLIC_KEY environment variable not set.'')
   \<and> fails_before_any_call (w_bad_address ''NEW_ADMIN_PUBLIC_KEY'') (Error ''Invalid public key input'')
   \<and> fails_before_any_call w_unknown_env (TypeError ''Cannot read properties of undefined'')
   \<and> outcome (admin_config w0) = Inr (''Signer'', ''Prog'', ''NewAdmin'')"
proof -
  note t = admin_settings_fail_fast
  have "fails_before_any_call w_bad_rpc (TypeError ''Endpoint URL must start with http: or https:.'')"
    using t [where w = w_bad_rpc] setting_facts by simp
  moreover have "fails_before_any_call (w_unset ''ADMIN_PRIVATE_KEY_PATH'')
      (Error ''ADMIN_PRIVATE_KEY_PATH environment variable not set. This must be the keypair of the CURRENT admin.'')"
    using t [where w = "w_unset ''ADMIN_PRIVATE_KEY_PATH''"] setting_facts by simp
  moreover have "fails_before_any_call w_no_key_file
      (Error (''Keypair file not found at '' @ ''//repo/src/../admin.json''))"
    using t [where w = w_no_key_file and p = "''admin.json''"] setting_facts by simp
  moreover have "fails_before_any_call w_bad_key_file (Error ''bad secret key size'')"
    using t [where w = w_bad_key_file and p = "''admin.json''"
        and err = "Error ''bad secret key size''"] setting_facts
    by simp
  moreover have "fails_before_any_call (w_unset ''DRIFT_PROGRAM_ID'')
        (Error ''DRIFT_PROGRAM_ID environment variable not set.'')"
    using t [where w = "w_unset ''DRIFT_PROGRAM_ID''" and p = "''admin.json''"
        and kp = "Keypair ''Signer''"] setting_facts
    by simp
  moreover have "fails_before_any_call (w_bad_address ''DRIFT_PROGRAM_ID'')
        (Error ''Invalid public key input'')"
    using t [where w = "w_bad_address ''DRIFT_PROGRAM_ID''" and p = "''admin.json''"
        and kp = "Keypair ''Signer''" and d = "''not an address''"
        and err = "Error ''Invalid public key input''"] setting_facts
    by simp
  moreover have "fails_before_any_call (w_unset ''NEW_ADMIN_PUBLIC_KEY'')
        (Error ''NEW_ADMIN_PUBLIC_KEY environment variable not set.'')"
    using t [where w = "w_unset ''NEW_ADMIN_PUBLIC_KEY''" and p = "''admin.json''"
        and kp = "Keypair ''Signer''" and d = "''Prog''" and pid = "''Prog''"] setting_facts
    by simp
  moreover have "fails_before_any_call (w_bad_address ''NEW_ADMIN_PUBLIC_KEY'')
        (Error ''Invalid public key input'')"
    using t [where w = "w_bad_address ''NEW_ADMIN_PUBLIC_KEY''" and p = "''admin.json''"
        and kp = "Keypair ''Signer''" and d = "''Prog''" and pid = "''Prog''"
        and n = "''not an address''" and err = "Error ''Invalid public key input''"] setting_facts
    by simp
  moreover have "fails_before_any_call w_unknown_env (TypeError ''Cannot read properties of undefined'')"
    using t [where w = w_unknown_env and p = "''admin.json''"
        and kp = "Keypair ''Signer''" and d = "''Prog''" and pid = "''Prog''"
        and n = "''NewAdmin''" and y = "''NewAdmin''"
        and err = "TypeError ''Cannot read properties of undefined''"] setting_facts
    by simp
  moreover have "outcome (admin_config w0) = Inr (''Signer'', ''Prog'', ''NewAdmin'')"
    using t [where w = w0 and p = "''admin.json''"
        and kp = "Keypair ''Signer''" and d = "''Prog''" and pid = "''Prog''"
        and n = "''NewAdmin''" and y = "''NewAdmin''"] setting_facts
    by simp
  ultimately show ?thesis by simp
qed

text \<open>
  Claim C9 as stated fails for the validating spot-market script: it reads
  \<open>USDC_MINT\<close> only after the client has subscribed and the state account has been
  read, so with that setting unset the run has already called the network when it
  fails, and the error it prints is the one of the \<open>PublicKey\<close> constructor, which
  does not name the setting.
\<close>

theorem spot_checked_reads_mint_after_subscribing:
  "env (hst (w_unset ''USDC_MINT'')) ''USDC_MINT'' = None
   \<and> Call Subscribe \<in> set (fst (script_spot_checked (w_unset ''USDC_MINT'')))
   \<and> Call GetStateAccount \<in> set (fst (script_spot_checked (w_unset ''USDC_MINT'')))
   \<and> ConsoleError [Str ''Error:'', ErrV (Error ''Invalid public key input'')]
       \<in> set (fst (script_spot_checked (w_unset ''USDC_MINT'')))"
  unfolding spot_checked_main_defs spot_checked_check_defs
  by (simp add: eval_simps w_unset_def Error_def)

section \<open>How the admin update ends\<close>

lemma admin_try_failure_logged:
  assumes "outcome (admin_config w) = Inr (pk, pid, y)"
    and "outcome (admin_try w pk pid y) = Inl err"
  shows "ConsoleError [Str ''Error updating admin:'', ErrV err] \<in> set (fst (script_update_admin w))"
    and "logs err = Some ls \<Longrightarrow> l \<in> set ls \<Longrightarrow> ConsoleLog [Str l] \<in> set (fst (script_update_admin w))"
    and "Call Unsubscribe \<in> set (fst (script_update_admin w))"
    and "unsubscribe_r (rpc w) = Inr () \<Longrightarrow> snd (script_update_admin w) = 0"
  using assms
  by (auto simp: in_script_update_admin exit_script_update_admin main_update_admin_def
      admin_catch_def admin_finally_def in_trace out_simps outcome_bind outcome_try_finally
      outcome_try_catch seq_def out_prims split: sum.splits option.splits)

lemma admin_exit_status:
  "outcome (main_update_admin w) = Inl err \<Longrightarrow>
     snd (script_update_admin w) = 1
     \<and> last (fst (script_update_admin w)) = ConsoleError [Str ''Unhandled error in main:'', ErrV err]"
  "outcome (main_update_admin w) = Inr u \<Longrightarrow> snd (script_update_admin w) = 0"
  by (cases "main_update_admin w"; cases "snd (main_update_admin w)";
      auto simp: script_update_admin_def outcome_def)+


text \<open>
  Claim C4, as amended. In the admin update, a failure that escapes \<open>main\<close> (a
  configuration error thrown before the \<open>try\<close> block, or an exception thrown while
  unsubscribing) is printed last, as \<open>Unhandled error in main:\<close>, and the process
  exits with status 1. A failure inside the \<open>try\<close> block is caught: it is printed
  as \<open>Error updating admin:\<close>, each program log line attached to it is printed, the
  client is unsubscribed, and when unsubscribing succeeds the process ends with
  status 0.
\<close>

theorem admin_update_exit_status:
  "(outcome (main_update_admin w) = Inl err \<longrightarrow>
      snd (script_update_admin w) = 1
      \<and> last (fst (script_update_admin w)) = ConsoleError [Str ''Unhandled error in main:'', ErrV err])
   \<and> (outcome (admin_config w) = Inr (pk, pid, y) \<and> outcome (admin_try w pk pid y) = Inl e \<longrightarrow>
      ConsoleError [Str ''Error updating admin:'', ErrV e] \<in> set (fst (script_update_admin w))
      \<and> (\<forall>ls l. logs e = Some ls \<and> l \<in> set ls \<longrightarrow>
            ConsoleLog [Str l] \<in> set (fst (script_update_admin w)))
      \<and> Call Unsubscribe \<in> set (fst (script_update_admin w))
      \<and> (unsubscribe_r (rpc w) = Inr () \<longrightarrow> snd (script_update_admin w) = 0))"
  using admin_exit_status(1) [of w err] admin_try_failure_logged [of w pk pid y e]
  by blast

lemma w_rejected_run:
  "outcome (admin_config w_rejected) = Inr (''Signer'', ''Prog'', ''NewAdmin'')"
  "outcome (admin_try w_rejected ''Signer'' ''Prog'' ''NewAdmin'')
     = Inl (JSError ''custom program error: 0x7d3'' (Some [''Program log: ConstraintHasOne'']) True)"
  "unsubscribe_r (rpc w_rejected) = Inr ()"
  "updateAdmin_r (rpc w_rejected)
     = Inl (JSError ''custom program error: 0x7d3'' (Some [''Program log: ConstraintHasOne'']) True)"
proof -
  show "outcome (admin_config w_rejected) = Inr (''Signer'', ''Prog'', ''NewAdmin'')"
    by (simp add: admin_config_def w_rejected_def eval_simps)
  show "outcome (admin_try w_rejected ''Signer'' ''Prog'' ''NewAdmin'')
     = Inl (JSError ''custom program error: 0x7d3'' (Some [''Program log: ConstraintHasOne'']) True)"
    by (simp add: admin_try_def w_rejected_def eval_simps)
  show "unsubscribe_r (rpc w_rejected) = Inr ()"
    by (simp add: w_rejected_def eval_defs)
  show "updateAdmin_r (rpc w_rejected)
     = Inl (JSError ''custom program error: 0x7d3'' (Some [''Program log: ConstraintHasOne'']) True)"
    by (simp add: w_rejected_def eval_defs)
qed

lemma w_unset_program_run:
  "outcome (main_update_admin (w_unset ''DRIFT_PROGRAM_ID''))
     = Inl (Error ''DRIFT_PROGRAM_ID environment variable not set.'')"
  by (simp add: main_update_admin_def admin_config_def w_unset_def eval_simps)

theorem admin_update_exit_status_witness:
  "snd (script_update_admin (w_unset ''DRIFT_PROGRAM_ID'')) = 1
   \<and> last (fst (script_update_admin (w_unset ''DRIFT_PROGRAM_ID'')))
       = ConsoleError [Str ''Unhandled error in main:'',
           ErrV (Error ''DRIFT_PROGRAM_ID environment variable not set.'')]
   \<and> ConsoleError [Str ''Error updating admin:'',
        ErrV (JSError ''custom program error: 0x7d3'' (Some [''Program log: ConstraintHasOne'']) True)]
      \<in> set (fst (script_update_admin w_rejected))
   \<and> ConsoleLog [Str ''Program log: ConstraintHasOne''] \<in> set (fst (script_update_admin w_rejected))
   \<and> Call Unsubscribe \<in> set (fst (script_update_admin w_rejected))
   \<and> snd (script_update_admin w_rejected) = 0"
  using admin_update_exit_status
      [where w = "w_unset ''DRIFT_PROGRAM_ID''"
         and err = "Error ''DRIFT_PROGRAM_ID environment variable not set.''"]
    admin_update_exit_status
      [where w = w_rejected and pk = "''Signer''" and pid = "''Prog''" and y = "''NewAdmin''"
         and e = "JSError ''custom program error: 0x7d3'' (Some [''Program log: ConstraintHasOne'']) True"]
    w_rejected_run w_unset_program_run
  by simp

text \<open>
  Claim C4 as stated fails: when the network rejects the admin update, the error is
  caught inside \<open>main\<close>, printed, and the process ends with status 0.
\<close>

theorem rejected_update_exits_zero:
  "updateAdmin_r (rpc w_rejected)
     = Inl (JSError ''custom program error: 0x7d3'' (Some [''Program log: ConstraintHasOne'']) True)
   \<and> ConsoleError [Str ''Error updating admin:'',
        ErrV (JSError ''custom program error: 0x7d3'' (Some [''Program log: ConstraintHasOne'']) True)]
      \<in> set (fst (script_update_admin w_rejected))
   \<and> snd (script_update_admin w_rejected) = 0"
  using admin_try_failure_logged(1,4) [OF w_rejected_run(1) w_rejected_run(2)] w_rejected_run(3,4)
  by simp

end
